theory Spec2Isabelle
  imports Complex_Main
begin

section \<open>Lucas-Kanade residuals of menpofit (lucaskanade/residual.py)\<close>

text \<open>
  The residual classes compute, per iteration, the steepest-descent images, a Gauss-Newton
  Hessian and a parameter update. Arithmetic is modelled exactly, over \<open>real\<close> and
  \<open>complex\<close>: rounding is not modelled. Where numpy produces \<open>nan\<close> or \<open>inf\<close>
  from finite operands (a division by zero, the root or a fractional power of a negative
  number, the mean of an empty array) it only warns and carries on with the non-finite
  value; the model ends such a run with the outcome \<open>NonFinite\<close>, standing for a run
  that holds \<open>nan\<close> or \<open>inf\<close> from there on (what it does afterwards is not
  modelled). The other outcomes on the left are Python exceptions.
\<close>

subsection \<open>Outcomes\<close>

datatype error = AttributeError | TypeError | ValueError | IndexError | LinAlgError | NonFinite

definition bind_err :: "error + 'a \<Rightarrow> ('a \<Rightarrow> error + 'b) \<Rightarrow> error + 'b" where
  "bind_err m f = (case m of Inl e \<Rightarrow> Inl e | Inr x \<Rightarrow> f x)"

subsection \<open>numpy arrays\<close>

text \<open>
  An n-dimensional array is its shape and its elements in row-major (C) order.
  A matrix is a two-dimensional array, a vector a list.
\<close>

record 'a ndarray =
  shape :: "nat list"
  data :: "'a list"

record 'a matrix =
  nrows :: nat
  ncols :: nat
  elems :: "'a list"

definition mat_at :: "'a matrix \<Rightarrow> nat \<Rightarrow> nat \<Rightarrow> 'a" where
  "mat_at A i j = elems A ! (i * ncols A + j)"

definition table :: "nat \<Rightarrow> nat \<Rightarrow> (nat \<Rightarrow> nat \<Rightarrow> 'a) \<Rightarrow> 'a list" where
  "table n m f = concat (map (\<lambda>i. map (f i) [0..<m]) [0..<n])"

definition mk_matrix :: "nat \<Rightarrow> nat \<Rightarrow> (nat \<Rightarrow> nat \<Rightarrow> 'a) \<Rightarrow> 'a matrix" where
  "mk_matrix n m f = \<lparr>nrows = n, ncols = m, elems = table n m f\<rparr>"

definition np_T :: "'a matrix \<Rightarrow> 'a matrix" where
  \<comment> \<open>\<open>A.T\<close>\<close>
  "np_T A = mk_matrix (ncols A) (nrows A) (\<lambda>j i. mat_at A i j)"

definition np_dot :: "('a::comm_ring_1) matrix \<Rightarrow> 'a matrix \<Rightarrow> error + 'a matrix" where
  \<comment> \<open>\<open>A.dot(B)\<close> of two matrices: the inner dimensions must agree\<close>
  "np_dot A B =
     (if ncols A = nrows B
      then Inr (mk_matrix (nrows A) (ncols B)
                  (\<lambda>i j. sum_list (map (\<lambda>k. mat_at A i k * mat_at B k j) [0..<ncols A])))
      else Inl ValueError)"

definition np_dot_vec :: "('a::comm_ring_1) matrix \<Rightarrow> 'a list \<Rightarrow> error + 'a list" where
  \<comment> \<open>\<open>A.dot(v)\<close> of a matrix and a vector\<close>
  "np_dot_vec A v =
     (if ncols A = length v
      then Inr (map (\<lambda>i. sum_list (map (\<lambda>k. mat_at A i k * v ! k) [0..<ncols A])) [0..<nrows A])
      else Inl ValueError)"

definition vdot :: "('a::comm_ring_1) list \<Rightarrow> 'a list \<Rightarrow> error + 'a" where
  \<comment> \<open>\<open>np.dot(u, v)\<close> of two vectors\<close>
  "vdot u v =
     (if length u = length v then Inr (sum_list (map (\<lambda>k. u ! k * v ! k) [0..<length u]))
      else Inl ValueError)"

subsection \<open>Reshaping, indexing with \<open>None\<close>, broadcasting\<close>

definition np_reshape :: "'a ndarray \<Rightarrow> nat option list \<Rightarrow> error + 'a ndarray" where
  \<comment> \<open>\<open>A.reshape(spec)\<close>; \<open>None\<close> in the new shape is numpy's \<open>-1\<close>\<close>
  "np_reshape A spec =
     (let known = prod_list (map (case_option 1 id) spec);
          unknowns = length (filter (\<lambda>d. d = None) spec);
          n = length (data A)
      in if unknowns = 0
         then (if known = n then Inr \<lparr>shape = map (case_option 0 id) spec, data = data A\<rparr>
               else Inl ValueError)
         else if unknowns = 1
         then (if known = 0 \<or> n mod known \<noteq> 0 then Inl ValueError
               else Inr \<lparr>shape = map (case_option (n div known) id) spec, data = data A\<rparr>)
         else Inl ValueError)"

definition as_matrix :: "'a ndarray \<Rightarrow> nat \<Rightarrow> error + 'a matrix" where
  \<comment> \<open>\<open>A.reshape((-1, k))\<close>, the result as a matrix\<close>
  "as_matrix A k =
     bind_err (np_reshape A [None, Some k])
       (\<lambda>R. Inr \<lparr>nrows = hd (shape R), ncols = k, elems = data R\<rparr>)"

definition of_vector :: "'a list \<Rightarrow> 'a ndarray" where
  "of_vector xs = \<lparr>shape = [length xs], data = xs\<rparr>"

definition of_matrix :: "'a matrix \<Rightarrow> 'a ndarray" where
  "of_matrix A = \<lparr>shape = [nrows A, ncols A], data = elems A\<rparr>"

definition new_axis_last :: "'a ndarray \<Rightarrow> 'a ndarray" where
  \<comment> \<open>\<open>A[..., None]\<close>\<close>
  "new_axis_last A = A\<lparr>shape := shape A @ [1]\<rparr>"

definition new_axis_first :: "'a ndarray \<Rightarrow> 'a ndarray" where
  \<comment> \<open>\<open>A[None, ...]\<close>\<close>
  "new_axis_first A = A\<lparr>shape := 1 # shape A\<rparr>"

definition new_axes_after_first :: "nat \<Rightarrow> 'a ndarray \<Rightarrow> error + 'a ndarray" where
  \<comment> \<open>\<open>A[:, None, ...]\<close> (one new axis) and \<open>A[:, None, None, ...]\<close> (two)\<close>
  "new_axes_after_first k A =
     (case shape A of [] \<Rightarrow> Inl IndexError
      | d # ds \<Rightarrow> Inr (A\<lparr>shape := d # replicate k 1 @ ds\<rparr>))"

fun bc_dims :: "nat list \<Rightarrow> nat list \<Rightarrow> nat list option" where
  "bc_dims [] [] = Some []"
| "bc_dims (a # as) (b # bs) =
     (if a = b \<or> b = 1 then map_option (Cons a) (bc_dims as bs)
      else if a = 1 then map_option (Cons b) (bc_dims as bs)
      else None)"
| "bc_dims _ _ = None"

definition pad_shape :: "nat \<Rightarrow> nat list \<Rightarrow> nat list" where
  "pad_shape r sh = replicate (r - length sh) 1 @ sh"

fun bc_offset :: "nat list \<Rightarrow> nat list \<Rightarrow> nat \<Rightarrow> nat" where
  \<comment> \<open>the flat index, in an operand of shape \<open>as\<close>, of the element that broadcasting pairs
      with the flat index \<open>n\<close> of the result of shape \<open>rs\<close>\<close>
  "bc_offset (a # as) (r # rs) n =
     (if a = 1 then 0 else (n div prod_list rs) * prod_list as) + bc_offset as rs (n mod prod_list rs)"
| "bc_offset _ _ n = 0"

definition bc_op :: "('a \<Rightarrow> 'b \<Rightarrow> 'c) \<Rightarrow> 'a ndarray \<Rightarrow> 'b ndarray \<Rightarrow> error + 'c ndarray" where
  \<comment> \<open>an elementwise binary operation under numpy's broadcasting rules\<close>
  "bc_op f A B =
     (let r = max (length (shape A)) (length (shape B));
          sa = pad_shape r (shape A); sb = pad_shape r (shape B)
      in case bc_dims sa sb of
           None \<Rightarrow> Inl ValueError
         | Some sh \<Rightarrow>
             Inr \<lparr>shape = sh,
                  data = map (\<lambda>n. f (data A ! bc_offset sa sh n) (data B ! bc_offset sb sh n))
                           [0..<prod_list sh]\<rparr>)"

definition bc_div :: "real ndarray \<Rightarrow> real ndarray \<Rightarrow> error + real ndarray" where
  \<comment> \<open>\<open>A / B\<close>: a zero divisor gives \<open>nan\<close> or \<open>inf\<close>\<close>
  "bc_div A B =
     bind_err (bc_op (/) A B)
       (\<lambda>R. if data R \<noteq> [] \<and> 0 \<in> set (data B) then Inl NonFinite else Inr R)"

definition map_array :: "('a \<Rightarrow> 'b) \<Rightarrow> 'a ndarray \<Rightarrow> 'b ndarray" where
  "map_array f A = \<lparr>shape = shape A, data = map f (data A)\<rparr>"

definition flatten :: "'a ndarray \<Rightarrow> 'a list" where
  \<comment> \<open>\<open>A.flatten()\<close>, \<open>A.ravel()\<close>\<close>
  "flatten A = data A"

subsection \<open>Slices along the first axis, sums along an axis\<close>

definition slice0 :: "'a ndarray \<Rightarrow> nat \<Rightarrow> 'a list" where
  "slice0 A i = take (prod_list (tl (shape A))) (drop (i * prod_list (tl (shape A))) (data A))"

definition index0 :: "'a ndarray \<Rightarrow> nat \<Rightarrow> error + 'a ndarray" where
  \<comment> \<open>\<open>A[i, ...]\<close>\<close>
  "index0 A i =
     (case shape A of [] \<Rightarrow> Inl IndexError
      | d # ds \<Rightarrow> if i < d then Inr \<lparr>shape = ds, data = slice0 A i\<rparr> else Inl IndexError)"

definition assign0 :: "'a ndarray \<Rightarrow> nat \<Rightarrow> 'a ndarray \<Rightarrow> error + 'a ndarray" where
  \<comment> \<open>\<open>A[i, ...] = V\<close>; every value assigned below is a broadcast product with the slice
      itself, so it has the shape of the slice or cannot be broadcast into it\<close>
  "assign0 A i V =
     (case shape A of [] \<Rightarrow> Inl IndexError
      | d # ds \<Rightarrow>
          if \<not> i < d then Inl IndexError
          else if shape V \<noteq> ds then Inl ValueError
          else Inr (A\<lparr>data := take (i * prod_list ds) (data A) @ data V
                                   @ drop (Suc i * prod_list ds) (data A)\<rparr>))"

definition vadd :: "('a::plus) list \<Rightarrow> 'a list \<Rightarrow> 'a list" where
  "vadd xs ys = map2 (+) xs ys"

definition sum_slices :: "real ndarray \<Rightarrow> error + real ndarray" where
  \<comment> \<open>\<open>sdi = 0; for d in a: sdi += d\<close>; when the loop body never runs \<open>sdi\<close> stays the
      integer 0, which has neither \<open>shape\<close> nor \<open>reshape\<close>\<close>
  "sum_slices A =
     (case shape A of [] \<Rightarrow> Inl TypeError
      | d # ds \<Rightarrow>
          if d = 0 then Inl AttributeError
          else Inr \<lparr>shape = ds,
                    data = foldl vadd (replicate (prod_list ds) 0) (map (slice0 A) [0..<d])\<rparr>)"

definition np_sum_axis :: "nat \<Rightarrow> real ndarray \<Rightarrow> error + real ndarray" where
  \<comment> \<open>\<open>np.sum(A, axis=k)\<close>\<close>
  "np_sum_axis k A =
     (if \<not> k < length (shape A) then Inl ValueError
      else let outer = prod_list (take k (shape A)); m = shape A ! k;
               inner = prod_list (drop (Suc k) (shape A))
           in Inr \<lparr>shape = take k (shape A) @ drop (Suc k) (shape A),
                    data = table outer inner
                      (\<lambda>p q. sum_list (map (\<lambda>j. data A ! ((p * m + j) * inner + q)) [0..<m]))\<rparr>)"

definition fix_crossed :: "'a ndarray \<Rightarrow> error + 'a ndarray" where
  \<comment> \<open>\<open>A[1, 0, ...] = A[0, 1, ...]\<close>\<close>
  "fix_crossed A =
     bind_err (index0 A 0) (\<lambda>r0.
     bind_err (index0 r0 1) (\<lambda>v.
     bind_err (index0 A 1) (\<lambda>r1.
     bind_err (assign0 r1 0 v) (\<lambda>r1'.
     assign0 A 1 r1'))))"

subsection \<open>Scalars: division, roots, mean, median, angle\<close>

definition fdiv :: "real \<Rightarrow> real \<Rightarrow> error + real" where
  "fdiv x y = (if y = 0 then Inl NonFinite else Inr (x / y))"

definition fsqrt :: "real \<Rightarrow> error + real" where
  \<comment> \<open>\<open>np.sqrt(x)\<close> and \<open>x ** 0.5\<close> of a real number\<close>
  "fsqrt x = (if x < 0 then Inl NonFinite else Inr (sqrt x))"

definition np_mean :: "('a::field) list \<Rightarrow> error + 'a" where
  "np_mean xs = (if xs = [] then Inl NonFinite else Inr (sum_list xs / of_nat (length xs)))"

definition np_median :: "real list \<Rightarrow> error + real" where
  "np_median xs =
     (if xs = [] then Inl NonFinite
      else let s = sort xs; n = length xs
           in Inr (if even n then (s ! (n div 2 - 1) + s ! (n div 2)) / 2 else s ! (n div 2)))"

definition np_angle :: "real \<Rightarrow> real \<Rightarrow> real" where
  \<comment> \<open>\<open>np.angle(x + 1j * y)\<close>, in \<open>(-pi, pi]\<close>, 0 at the origin\<close>
  "np_angle x y = (if x = 0 \<and> y = 0 then 0 else Arg (Complex x y))"

definition scipy_norm :: "real list \<Rightarrow> real" where
  "scipy_norm xs = sqrt (sum_list (map (\<lambda>x. x\<^sup>2) xs))"

subsection \<open>The matrix inverse\<close>

fun det_n :: "nat \<Rightarrow> (nat \<Rightarrow> nat \<Rightarrow> real) \<Rightarrow> real" where
  \<comment> \<open>the determinant of the leading \<open>n\<close> by \<open>n\<close> block, expanded along its first row\<close>
  "det_n 0 a = 1"
| "det_n (Suc n) a =
     sum_list (map (\<lambda>j. (- 1) ^ j * a 0 j
                         * det_n n (\<lambda>r c. a (Suc r) (if c < j then c else Suc c)))
                   [0..<Suc n])"

definition minor_at :: "(nat \<Rightarrow> nat \<Rightarrow> real) \<Rightarrow> nat \<Rightarrow> nat \<Rightarrow> nat \<Rightarrow> nat \<Rightarrow> real" where
  "minor_at a i j = (\<lambda>r c. a (if r < i then r else Suc r) (if c < j then c else Suc c))"

definition scipy_inv :: "real matrix \<Rightarrow> error + real matrix" where
  \<comment> \<open>\<open>scipy.linalg.inv(H)\<close> in exact arithmetic: the adjugate over the determinant,
      \<open>LinAlgError\<close> for a singular matrix\<close>
  "scipy_inv H =
     (if nrows H \<noteq> ncols H then Inl ValueError
      else let n = nrows H; d = det_n n (mat_at H)
           in if d = 0 then Inl LinAlgError
              else Inr (mk_matrix n n
                     (\<lambda>i j. (- 1) ^ (i + j) * det_n (n - 1) (minor_at (mat_at H) j i) / d)))"

subsection \<open>The shifted discrete Fourier transform\<close>

fun dft_phase :: "nat list \<Rightarrow> nat \<Rightarrow> nat \<Rightarrow> real" where
  \<comment> \<open>for the output position \<open>u\<close> and the input position \<open>m\<close> (flat indices over the
      transformed axes), the sum over the axes of frequency times sample over axis length;
      \<open>fftshift\<close> puts frequency \<open>(i + a - a div 2) mod a\<close> at position \<open>i\<close>\<close>
  "dft_phase [] u m = 0"
| "dft_phase (a # as) u m =
     real ((u div prod_list as + a - a div 2) mod a) * real (m div prod_list as) / real a
       + dft_phase as (u mod prod_list as) (m mod prod_list as)"

definition np_fftn_shift :: "real ndarray \<Rightarrow> nat \<Rightarrow> error + complex ndarray" where
  \<comment> \<open>\<open>fftshift(fftn(A, axes=range(k)), axes=range(k))\<close>\<close>
  "np_fftn_shift A k =
     (if length (shape A) < k \<or> 0 \<in> set (take k (shape A)) then Inl ValueError
      else let ax = take k (shape A); n = prod_list ax; R = prod_list (drop k (shape A))
           in Inr \<lparr>shape = shape A,
                    data = table n R
                      (\<lambda>u r. sum_list (map (\<lambda>m. of_real (data A ! (m * R + r))
                                                * cis (- 2 * pi * dft_phase ax u m)) [0..<n]))\<rparr>)"

subsection \<open>The image library\<close>

text \<open>
  Images, their masks and the warp transforms belong to the menpo library. The residuals use
  them through the operations below, over an image type \<open>'i\<close>, a mask type \<open>'m\<close> and a
  transform type \<open>'t\<close>: the model is parametric in them.
\<close>

record ('i, 'm, 't) menpo =
  n_dims :: "'i \<Rightarrow> nat"
  n_channels :: "'i \<Rightarrow> nat"
  img_shape :: "'i \<Rightarrow> nat list"
  img_mask :: "'i \<Rightarrow> 'm"
  pixels :: "'i \<Rightarrow> real ndarray"
  set_pixels :: "'i \<Rightarrow> real ndarray \<Rightarrow> 'i"
  as_vector :: "'i \<Rightarrow> real list"
  as_vector_keep_channels :: "'i \<Rightarrow> real ndarray"
  from_vector :: "'i \<Rightarrow> real list \<Rightarrow> error + 'i"
  blank_from_vector :: "nat list \<Rightarrow> nat \<Rightarrow> 'm \<Rightarrow> real list \<Rightarrow> error + 'i"
  gradient :: "'i \<Rightarrow> 'i"
  warp_to_mask :: "'i \<Rightarrow> 'm \<Rightarrow> 't \<Rightarrow> 'i"
  set_boundary_pixels :: "'i \<Rightarrow> 'i"
  normalize_norm :: "'i \<Rightarrow> error + 'i"

subsection \<open>class Residual\<close>

datatype evec = RealVec "real list" | ComplexVec "complex list"

datatype scalar = RealVal real | ComplexVal complex

text \<open>The attributes an instance may hold; an attribute that was never assigned is \<open>None\<close>.\<close>

record 'i residual =
  error_img :: "evec option"
  filter_bank :: "real list option"
  H_inv :: "real matrix option"
  template_grad :: "'i option"
  self_grad :: "'i option"
  cos_phi :: "real ndarray option"
  sin_phi :: "real ndarray option"
  self_N :: "nat option"

definition new_residual :: "'i residual" where
  "new_residual = \<lparr>error_img = None, filter_bank = None, H_inv = None, template_grad = None,
     self_grad = None, cos_phi = None, sin_phi = None, self_N = None\<rparr>"

definition attr :: "'a option \<Rightarrow> error + 'a" where
  "attr a = (case a of None \<Rightarrow> Inl AttributeError | Some v \<Rightarrow> Inr v)"

definition Residual_error :: "'i residual \<Rightarrow> error + scalar" where
  \<comment> \<open>\<open>np.sqrt(np.mean(self._error_img ** 2))\<close>\<close>
  "Residual_error st =
     bind_err (attr (error_img st)) (\<lambda>E.
       case E of
         RealVec xs \<Rightarrow>
           bind_err (np_mean (map (\<lambda>e. e\<^sup>2) xs)) (\<lambda>m.
           bind_err (fsqrt m) (\<lambda>r. Inr (RealVal r)))
       | ComplexVec zs \<Rightarrow>
           bind_err (np_mean (map (\<lambda>e. e\<^sup>2) zs)) (\<lambda>m. Inr (ComplexVal (csqrt m))))"

definition calculate_gradients ::
  "('i, 'm, 't) menpo \<Rightarrow> 'i \<Rightarrow> ('i \<times> 't) option \<Rightarrow> 'i" where
  "calculate_gradients M img forward =
     (case forward of
        Some (template, transform) \<Rightarrow>
          warp_to_mask M (gradient M img) (img_mask M template) transform
      | None \<Rightarrow> set_boundary_pixels M (gradient M img))"

definition shape_at :: "'a ndarray \<Rightarrow> nat \<Rightarrow> error + nat" where
  \<comment> \<open>\<open>A.shape[k]\<close>\<close>
  "shape_at A k = (if k < length (shape A) then Inr (shape A ! k) else Inl IndexError)"

definition jacobian_product :: "nat \<Rightarrow> real ndarray \<Rightarrow> real ndarray \<Rightarrow> error + real ndarray" where
  \<comment> \<open>\<open>grad[..., None] * dW_dp[:, None, ...]\<close>, with \<open>k\<close> new axes in \<open>dW_dp\<close>\<close>
  "jacobian_product k g dW_dp =
     bind_err (new_axes_after_first k dW_dp) (\<lambda>w. bc_op (*) (new_axis_last g) w)"

definition call_with_optional :: "('a \<Rightarrow> error + 'b) \<Rightarrow> 'a \<Rightarrow> 'c option \<Rightarrow> error + 'b" where
  \<comment> \<open>calling a method that is defined with one parameter, with one argument or with two\<close>
  "call_with_optional f x extra = (case extra of None \<Rightarrow> f x | Some _ \<Rightarrow> Inl TypeError)"

subsection \<open>class SSD\<close>

definition SSD_steepest_descent_images ::
  "('i, 'm, 't) menpo \<Rightarrow> 'i \<Rightarrow> real ndarray \<Rightarrow> ('i \<times> 't) option \<Rightarrow> error + real matrix" where
  "SSD_steepest_descent_images M img dW_dp forward =
     (let grad = calculate_gradients M img forward in
      bind_err (np_reshape (of_vector (as_vector M grad))
                  [Some (n_dims M img), Some (n_channels M img), None]) (\<lambda>grad.
      bind_err (jacobian_product 1 grad dW_dp) (\<lambda>a.
      bind_err (sum_slices a) (\<lambda>sdi.
      bind_err (shape_at sdi 2) (\<lambda>n_params.
      as_matrix sdi n_params)))))"

definition SSD_calculate_hessian :: "real matrix \<Rightarrow> real matrix option \<Rightarrow> error + real matrix" where
  "SSD_calculate_hessian J J2 =
     (case J2 of None \<Rightarrow> np_dot (np_T J) J | Some J2' \<Rightarrow> np_dot (np_T J) J2')"

definition vsub :: "real list \<Rightarrow> real list \<Rightarrow> error + real list" where
  \<comment> \<open>the difference of two vectors, under broadcasting\<close>
  "vsub u v = bind_err (bc_op (-) (of_vector u) (of_vector v)) (\<lambda>R. Inr (data R))"

definition SSD_steepest_descent_update ::
  "('i, 'm, 't) menpo \<Rightarrow> 'i residual \<Rightarrow> real matrix \<Rightarrow> 'i \<Rightarrow> 'i
     \<Rightarrow> error + ('i residual \<times> real list)" where
  "SSD_steepest_descent_update M st sdi IWxp template =
     bind_err (vsub (as_vector M IWxp) (as_vector M template)) (\<lambda>e.
     let st' = st\<lparr>error_img := Some (RealVec e)\<rparr> in
     bind_err (np_dot_vec (np_T sdi) e) (\<lambda>u. Inr (st', u)))"

subsection \<open>class GaborFourier\<close>

definition GaborFourier_init ::
  "(nat list \<Rightarrow> real ndarray) \<Rightarrow> nat list \<Rightarrow> real ndarray option \<Rightarrow> error + 'i residual" where
  \<comment> \<open>\<open>log_gabor\<close> is menpo's filter design, applied to the image shape and the keyword
      arguments, and gives the filter bank matrix; the third argument is the keyword
      \<open>filter_bank\<close>, when present\<close>
  "GaborFourier_init log_gabor image_shape kw_filter_bank =
     bind_err (case kw_filter_bank of
                 Some fb \<Rightarrow> if shape fb \<noteq> image_shape then Inl ValueError else Inr fb
               | None \<Rightarrow> Inr (log_gabor image_shape)) (\<lambda>fb.
     Inr (new_residual\<lparr>filter_bank := Some (flatten fb)\<rparr>))"

definition GaborFourier_steepest_descent_images ::
  "('i, 'm, 't) menpo \<Rightarrow> 'i \<Rightarrow> real ndarray \<Rightarrow> ('i \<times> 't) option \<Rightarrow> error + complex matrix" where
  "GaborFourier_steepest_descent_images M img dW_dp forward =
     (let gradient_img = calculate_gradients M img forward;
          gradient = as_vector_keep_channels M gradient_img in
      bind_err (np_reshape gradient [None, Some (n_channels M img), Some (n_dims M img)])
        (\<lambda>gradient.
      bind_err (if length (shape dW_dp) < 3 then Inl IndexError
                else new_axes_after_first 1 dW_dp) (\<lambda>w.
      bind_err (bc_op (*) w (gradient\<lparr>shape := take 2 (shape gradient) @ 1 # drop 2 (shape gradient)\<rparr>))
        (\<lambda>prod.
      bind_err (np_sum_axis 3 prod) (\<lambda>sdi.
      let sdi_img_channels = n_channels M img * (shape dW_dp ! 1) in
      bind_err (blank_from_vector M (img_shape M gradient_img) sdi_img_channels
                  (img_mask M gradient_img) (flatten sdi)) (\<lambda>sdi_img.
      bind_err (np_fftn_shift (pixels M sdi_img) (n_dims M img)) (\<lambda>fft_sdi.
      as_matrix fft_sdi (shape dW_dp ! 1))))))))"

definition GaborFourier_calculate_hessian ::
  "'i residual \<Rightarrow> complex matrix \<Rightarrow> error + complex matrix" where
  "GaborFourier_calculate_hessian st sdi =
     bind_err (attr (filter_bank st)) (\<lambda>fb.
     bind_err (np_reshape (of_matrix sdi) [None, Some (length fb), Some (ncols sdi)]) (\<lambda>sdi3.
     bind_err (if \<exists>x \<in> set fb. x < 0 then Inl NonFinite else Inr (map sqrt fb)) (\<lambda>root.
     bind_err (bc_op (*) \<lparr>shape = [1, length fb, 1], data = map complex_of_real root\<rparr> sdi3)
        (\<lambda>filtered_sdi.
     bind_err (as_matrix filtered_sdi (last (shape sdi3))) (\<lambda>filtered_sdi.
     np_dot (np_T (filtered_sdi\<lparr>elems := map cnj (elems filtered_sdi)\<rparr>)) filtered_sdi)))))"

definition GaborFourier_steepest_descent_update ::
  "('i, 'm, 't) menpo \<Rightarrow> 'i residual \<Rightarrow> complex matrix \<Rightarrow> 'i \<Rightarrow> 'i
     \<Rightarrow> error + ('i residual \<times> complex list)" where
  "GaborFourier_steepest_descent_update M st sdi IWxp template =
     bind_err (bc_op (-) (pixels M IWxp) (pixels M template)) (\<lambda>error_image.
     bind_err (np_fftn_shift error_image (n_dims M IWxp)) (\<lambda>fft_error_img.
     bind_err (np_reshape fft_error_img [None, Some (n_channels M IWxp)]) (\<lambda>fft_error_img.
     bind_err (attr (filter_bank st)) (\<lambda>fb.
     bind_err (bc_op (*) \<lparr>shape = [length fb, 1], data = map complex_of_real fb\<rparr> fft_error_img)
        (\<lambda>filtered_error_img.
     let st' = st\<lparr>error_img := Some (ComplexVec (flatten filtered_error_img))\<rparr> in
     bind_err (np_dot_vec (np_T sdi) (map cnj (flatten filtered_error_img))) (\<lambda>u.
     Inr (st', u)))))))"

subsection \<open>class ECC\<close>

definition normalise_images :: "('i, 'm, 't) menpo \<Rightarrow> 'i \<Rightarrow> error + 'i" where
  \<comment> \<open>a copy of the image, normalised in place by menpo\<close>
  "normalise_images M img = normalize_norm M img"

definition ECC_steepest_descent_images ::
  "('i, 'm, 't) menpo \<Rightarrow> 'i \<Rightarrow> real ndarray \<Rightarrow> ('i \<times> 't) option \<Rightarrow> error + real matrix" where
  "ECC_steepest_descent_images M img dW_dp forward =
     bind_err (normalise_images M img) (\<lambda>norm_image.
     let grad = calculate_gradients M norm_image forward in
     bind_err (np_reshape (of_vector (as_vector M grad))
                 [Some (n_dims M img), Some (n_channels M img), None]) (\<lambda>grad.
     bind_err (jacobian_product 1 grad dW_dp) (\<lambda>a.
     bind_err (sum_slices a) (\<lambda>sdi.
     bind_err (shape_at sdi 2) (\<lambda>n_params.
     as_matrix sdi n_params)))))"

definition ECC_calculate_hessian ::
  "'i residual \<Rightarrow> real matrix \<Rightarrow> error + ('i residual \<times> real matrix)" where
  "ECC_calculate_hessian st sdi =
     bind_err (np_dot (np_T sdi) sdi) (\<lambda>H.
     bind_err (scipy_inv H) (\<lambda>Hi.
     Inr (st\<lparr>H_inv := Some Hi\<rparr>, H)))"

definition quad_form :: "real list \<Rightarrow> real matrix \<Rightarrow> real list \<Rightarrow> error + real" where
  \<comment> \<open>\<open>np.dot(u.T, np.dot(A, v))\<close>\<close>
  "quad_form u A v = bind_err (np_dot_vec A v) (\<lambda>Av. vdot u Av)"

definition ECC_step_size ::
  "real \<Rightarrow> real \<Rightarrow> real \<Rightarrow> real list \<Rightarrow> real matrix \<Rightarrow> error + real" where
  \<comment> \<open>the choice of \<open>l\<close> from \<open>num\<close>, \<open>num2\<close>, \<open>den\<close>, \<open>Gt\<close> and the cached inverse\<close>
  "ECC_step_size num num2 den Gt Hi =
     (if den > 0 then Inr (num / den)
      else
        bind_err (quad_form Gt Hi Gt) (\<lambda>den3.
        bind_err (bind_err (fdiv num2 den3) fsqrt) (\<lambda>l1.
        bind_err (fdiv (- den) den3) (\<lambda>l2.
        Inr (max l1 l2)))))"

definition ECC_steepest_descent_update ::
  "('i, 'm, 't) menpo \<Rightarrow> 'i residual \<Rightarrow> real matrix \<Rightarrow> 'i \<Rightarrow> 'i
     \<Rightarrow> error + ('i residual \<times> real list)" where
  "ECC_steepest_descent_update M st sdi IWxp template =
     bind_err (normalise_images M IWxp) (\<lambda>nI.
     bind_err (normalise_images M template) (\<lambda>nT.
     let normalised_IWxp = as_vector M nI; normalised_template = as_vector M nT in
     bind_err (np_dot_vec (np_T sdi) normalised_template) (\<lambda>Gt.
     bind_err (np_dot_vec (np_T sdi) normalised_IWxp) (\<lambda>Gw.
     let IWxp_norm = scipy_norm normalised_IWxp; num1 = IWxp_norm\<^sup>2 in
     bind_err (attr (H_inv st)) (\<lambda>Hi.
     bind_err (quad_form Gw Hi Gw) (\<lambda>num2.
     let num = num1 - num2 in
     bind_err (vdot normalised_template normalised_IWxp) (\<lambda>den1.
     bind_err (quad_form Gt Hi Gw) (\<lambda>den2.
     let den = den1 - den2 in
     bind_err (ECC_step_size num num2 den Gt Hi) (\<lambda>l.
     bind_err (vsub (map (\<lambda>x. l * x) normalised_IWxp) normalised_template) (\<lambda>e.
     let st' = st\<lparr>error_img := Some (RealVec e)\<rparr> in
     bind_err (np_dot_vec (np_T sdi) e) (\<lambda>u.
     Inr (st', u))))))))))))"

subsection \<open>class GradientImages\<close>

definition regularise_gradients :: "('i, 'm, 't) menpo \<Rightarrow> 'i \<Rightarrow> error + 'i" where
  "regularise_gradients M grad =
     (let px = pixels M grad in
      bind_err (np_sum_axis 0 (map_array (\<lambda>x. x\<^sup>2) px)) (\<lambda>s.
      let ab = map_array sqrt s in
      bind_err (np_median (data ab)) (\<lambda>m_ab.
      let ab = map_array (\<lambda>x. x + m_ab) ab in
      bind_err (bc_div px ab) (\<lambda>q.
      Inr (set_pixels M grad q)))))"

definition GradientImages_steepest_descent_images ::
  "('i, 'm, 't) menpo \<Rightarrow> 'i residual \<Rightarrow> 'i \<Rightarrow> real ndarray \<Rightarrow> ('i \<times> 't) option
     \<Rightarrow> error + ('i residual \<times> real matrix)" where
  "GradientImages_steepest_descent_images M st img dW_dp forward =
     (let n_dims = n_dims M img; n_channels = n_channels M img;
          first_grad = calculate_gradients M img forward in
      bind_err (regularise_gradients M first_grad) (\<lambda>tg.
      let st' = st\<lparr>template_grad := Some tg\<rparr>;
          second_grad = calculate_gradients M tg None in
      bind_err (np_reshape (pixels M second_grad)
                  [Some n_dims, Some n_dims, Some n_channels, None]) (\<lambda>second_grad.
      bind_err (fix_crossed second_grad) (\<lambda>second_grad.
      bind_err (jacobian_product 2 second_grad dW_dp) (\<lambda>a.
      bind_err (sum_slices a) (\<lambda>sdi.
      bind_err (shape_at sdi 3) (\<lambda>n_params.
      bind_err (as_matrix sdi n_params) (\<lambda>sdi.
      Inr (st', sdi)))))))))"

definition GradientImages_calculate_hessian :: "real matrix \<Rightarrow> error + real matrix" where
  "GradientImages_calculate_hessian sdi = np_dot (np_T sdi) sdi"

definition GradientImages_steepest_descent_update ::
  "('i, 'm, 't) menpo \<Rightarrow> 'i residual \<Rightarrow> real matrix \<Rightarrow> 'i \<Rightarrow> 'i
     \<Rightarrow> error + ('i residual \<times> real list)" where
  "GradientImages_steepest_descent_update M st sdi IWxp template =
     (let IWxp_grad = calculate_gradients M IWxp None in
      bind_err (regularise_gradients M IWxp_grad) (\<lambda>IWxp_grad.
      bind_err (attr (template_grad st)) (\<lambda>tg.
      bind_err (vsub (as_vector M IWxp_grad) (as_vector M tg)) (\<lambda>e.
      let st' = st\<lparr>error_img := Some (RealVec e)\<rparr> in
      bind_err (np_dot_vec (np_T sdi) e) (\<lambda>u.
      Inr (st', u))))))"

subsection \<open>class GradientCorrelation\<close>

definition igo_phi :: "real ndarray \<Rightarrow> error + real ndarray" where
  \<comment> \<open>\<open>np.angle(grad[1, ...] + 1j * grad[0, ...])\<close>\<close>
  "igo_phi g =
     bind_err (index0 g 1) (\<lambda>g1.
     bind_err (index0 g 0) (\<lambda>g0.
     Inr \<lparr>shape = shape g1, data = map2 np_angle (data g1) (data g0)\<rparr>))"

definition GradientCorrelation_steepest_descent_images ::
  "('i, 'm, 't) menpo \<Rightarrow> 'i residual \<Rightarrow> 'i \<Rightarrow> real ndarray \<Rightarrow> ('i \<times> 't) option
     \<Rightarrow> error + ('i residual \<times> real matrix)" where
  "GradientCorrelation_steepest_descent_images M st img dW_dp forward =
     (let n_dims = n_dims M img; n_channels = n_channels M img;
          g = calculate_gradients M img forward;
          st1 = st\<lparr>self_grad := Some g\<rparr> in
      bind_err (case img_shape M g of [h, w] \<Rightarrow> Inr (h, w) | _ \<Rightarrow> Inl ValueError) (\<lambda>(h, w).
      bind_err (np_reshape (of_vector (as_vector M g))
                  [Some n_dims, Some n_channels, Some h, Some w]) (\<lambda>grad2.
      bind_err (igo_phi grad2) (\<lambda>phi.
      let cosp = map_array cos phi; sinp = map_array sin phi in
      bind_err (from_vector M g (flatten sinp @ flatten cosp)) (\<lambda>_.
      let second_grad = calculate_gradients M g None in
      bind_err (np_reshape (pixels M second_grad)
                  [Some n_dims, Some n_dims, Some n_channels, None]) (\<lambda>second_grad.
      bind_err (fix_crossed second_grad) (\<lambda>second_grad.
      bind_err (np_reshape (of_vector (flatten cosp)) [Some n_channels, None]) (\<lambda>cosp.
      bind_err (np_reshape (of_vector (flatten sinp)) [Some n_channels, None]) (\<lambda>sinp.
      let st2 = st1\<lparr>cos_phi := Some cosp, sin_phi := Some sinp\<rparr> in
      bind_err (index0 second_grad 1) (\<lambda>s1.
      bind_err (bc_op (*) (new_axis_first (map_array uminus sinp)) s1) (\<lambda>v1.
      bind_err (assign0 second_grad 1 v1) (\<lambda>second_grad.
      bind_err (index0 second_grad 0) (\<lambda>s0.
      bind_err (bc_op (*) (new_axis_first cosp) s0) (\<lambda>v0.
      bind_err (assign0 second_grad 0 v0) (\<lambda>second_grad.
      bind_err (jacobian_product 2 second_grad dW_dp) (\<lambda>aux.
      bind_err (np_reshape aux (None # map Some (drop 2 (shape aux)))) (\<lambda>aux.
      bind_err (sum_slices aux) (\<lambda>sdi.
      let st3 = st2\<lparr>self_N := Some (h * w)\<rparr> in
      bind_err (shape_at sdi 2) (\<lambda>n_params.
      bind_err (as_matrix sdi n_params) (\<lambda>sdi.
      Inr (st3, sdi)))))))))))))))))))))"

definition GradientCorrelation_calculate_hessian :: "real matrix \<Rightarrow> error + real matrix" where
  "GradientCorrelation_calculate_hessian sdi = np_dot (np_T sdi) sdi"

definition igo_qp ::
  "real ndarray \<Rightarrow> real ndarray \<Rightarrow> real ndarray \<Rightarrow> real ndarray \<Rightarrow> error + real" where
  \<comment> \<open>\<open>np.sum(self._cos_phi * IWxp_cos_phi + self._sin_phi * IWxp_sin_phi)\<close>\<close>
  "igo_qp cosp sinp IWxp_cos_phi IWxp_sin_phi =
     bind_err (bc_op (*) cosp IWxp_cos_phi) (\<lambda>cc.
     bind_err (bc_op (*) sinp IWxp_sin_phi) (\<lambda>ss.
     bind_err (bc_op (+) cc ss) (\<lambda>q.
     Inr (sum_list (data q)))))"

definition warped_phi :: "('i, 'm, 't) menpo \<Rightarrow> 'i \<Rightarrow> error + real ndarray" where
  \<comment> \<open>the orientation angles of the warped image, as the update computes them\<close>
  "warped_phi M IWxp =
     (let n_dims = n_dims M IWxp; n_channels = n_channels M IWxp;
          IWxp_grad = calculate_gradients M IWxp None in
      bind_err (np_reshape (of_vector (as_vector M IWxp_grad))
                  [Some n_dims, Some n_channels, None]) (\<lambda>IWxp_grad.
      igo_phi IWxp_grad))"

definition GradientCorrelation_steepest_descent_update ::
  "('i, 'm, 't) menpo \<Rightarrow> 'i residual \<Rightarrow> real matrix \<Rightarrow> 'i \<Rightarrow> 'i
     \<Rightarrow> error + ('i residual \<times> real list)" where
  "GradientCorrelation_steepest_descent_update M st sdi IWxp template =
     bind_err (warped_phi M IWxp) (\<lambda>phi.
     let IWxp_cos_phi = map_array cos phi; IWxp_sin_phi = map_array sin phi in
     bind_err (attr (cos_phi st)) (\<lambda>cosp.
     bind_err (bc_op (*) cosp IWxp_sin_phi) (\<lambda>cs.
     bind_err (attr (sin_phi st)) (\<lambda>sinp.
     bind_err (bc_op (*) sinp IWxp_cos_phi) (\<lambda>sc.
     bind_err (bc_op (-) cs sc) (\<lambda>e.
     let st' = st\<lparr>error_img := Some (RealVec (flatten e))\<rparr> in
     bind_err (np_dot_vec (np_T sdi) (flatten e)) (\<lambda>sdu.
     bind_err (igo_qp cosp sinp IWxp_cos_phi IWxp_sin_phi) (\<lambda>qp.
     bind_err (attr (self_N st)) (\<lambda>N.
     bind_err (fdiv (real N) qp) (\<lambda>l.
     Inr (st', map (\<lambda>x. l * x) sdu)))))))))))"

subsection \<open>Reference definitions\<close>

definition cross_product :: "real matrix \<Rightarrow> real matrix \<Rightarrow> real matrix" where
  \<comment> \<open>\<open>SDI\<^sup>T \<cdot> SDI2\<close>, entry by entry; the Gram matrix is \<open>cross_product J J\<close>\<close>
  "cross_product J J2 =
     mk_matrix (ncols J) (ncols J2)
       (\<lambda>i j. sum_list (map (\<lambda>k. mat_at J k i * mat_at J2 k j) [0..<nrows J]))"

definition quad_value :: "real list \<Rightarrow> real matrix \<Rightarrow> real list \<Rightarrow> real" where
  \<comment> \<open>\<open>u\<^sup>T \<cdot> A \<cdot> v\<close>, entry by entry\<close>
  "quad_value u A v =
     sum_list (map (\<lambda>i. u ! i * sum_list (map (\<lambda>k. mat_at A i k * v ! k) [0..<ncols A]))
                   [0..<length u])"

definition T_dot_vec :: "('a::comm_ring_1) matrix \<Rightarrow> 'a list \<Rightarrow> 'a list" where
  \<comment> \<open>\<open>SDI\<^sup>T \<cdot> e\<close>, entry by entry\<close>
  "T_dot_vec J e =
     map (\<lambda>j. sum_list (map (\<lambda>k. mat_at J k j * e ! k) [0..<nrows J])) [0..<ncols J]"

subsection \<open>A small image library\<close>

text \<open>
  The concrete inputs of this development are unmasked raster images, stored channel by
  channel in row-major order, with the operations the residuals need: the gradient by
  differences (central inside the image, one-sided at its border, one channel block per
  axis), border pixels set to zero, normalisation to zero mean and unit norm (refused for an
  image without variance), and the identity as the only warp.
\<close>

record raster =
  r_shape :: "nat list"
  r_channels :: nat
  r_pixels :: "real list"

definition r_coord :: "nat list \<Rightarrow> nat \<Rightarrow> nat \<Rightarrow> nat" where
  \<comment> \<open>the coordinate along axis \<open>d\<close> of the pixel at flat index \<open>n\<close>\<close>
  "r_coord sh d n = (n div prod_list (drop (Suc d) sh)) mod (sh ! d)"

definition r_gradient :: "raster \<Rightarrow> raster" where
  "r_gradient img =
     (let sh = r_shape img; px = r_pixels img
      in img\<lparr>r_channels := length sh * r_channels img,
              r_pixels := concat (map (\<lambda>d. map (\<lambda>n.
                  let s = prod_list (drop (Suc d) sh); i = r_coord sh d n;
                      up = (if Suc i < sh ! d \<and> n + s < length px then n + s else n);
                      dn = (if 0 < i then n - s else n)
                  in (px ! up - px ! dn) / real ((up - dn) div s)) [0..<length px])
                [0..<length sh])\<rparr>)"

definition r_on_border :: "nat list \<Rightarrow> nat \<Rightarrow> bool" where
  "r_on_border sh n = list_ex (\<lambda>d. r_coord sh d n = 0 \<or> Suc (r_coord sh d n) = sh ! d) [0..<length sh]"

definition r_set_boundary_pixels :: "raster \<Rightarrow> raster" where
  "r_set_boundary_pixels img =
     img\<lparr>r_pixels := map (\<lambda>n. if r_on_border (r_shape img) n then 0 else r_pixels img ! n)
                          [0..<length (r_pixels img)]\<rparr>"

definition r_normalize_norm :: "raster \<Rightarrow> error + raster" where
  "r_normalize_norm img =
     (let px = r_pixels img; m = sum_list px / real (length px);
          centred = map (\<lambda>x. x - m) px; scale = scipy_norm centred
      in if scale = 0 then Inl ValueError
         else Inr (img\<lparr>r_pixels := map (\<lambda>x. x / scale) centred\<rparr>))"

definition raster_lib :: "(raster, unit, unit) menpo" where
  "raster_lib =
     \<lparr>n_dims = (\<lambda>i. length (r_shape i)),
      n_channels = r_channels,
      img_shape = r_shape,
      img_mask = (\<lambda>i. ()),
      pixels = (\<lambda>i. \<lparr>shape = r_channels i # r_shape i, data = r_pixels i\<rparr>),
      set_pixels = (\<lambda>i A. i\<lparr>r_pixels := data A\<rparr>),
      as_vector = r_pixels,
      as_vector_keep_channels =
        (\<lambda>i. \<lparr>shape = [prod_list (r_shape i), r_channels i],
              data = table (prod_list (r_shape i)) (r_channels i)
                       (\<lambda>x c. r_pixels i ! (c * prod_list (r_shape i) + x))\<rparr>),
      from_vector =
        (\<lambda>i v. if length v = length (r_pixels i) then Inr (i\<lparr>r_pixels := v\<rparr>)
               else Inl ValueError),
      blank_from_vector =
        (\<lambda>sh c m v. if length v = c * prod_list sh
                    then Inr \<lparr>r_shape = sh, r_channels = c, r_pixels = v\<rparr>
                    else Inl ValueError),
      gradient = r_gradient,
      warp_to_mask = (\<lambda>g m t. g),
      set_boundary_pixels = r_set_boundary_pixels,
      normalize_norm = r_normalize_norm\<rparr>"

definition rms_real :: "real list \<Rightarrow> real" where
  \<comment> \<open>the root of the mean of the squares\<close>
  "rms_real E = sqrt (sum_list (map (\<lambda>e. e\<^sup>2) E) / real (length E))"

definition rms_complex :: "complex list \<Rightarrow> complex" where
  "rms_complex E = csqrt (sum_list (map (\<lambda>e. e\<^sup>2) E) / of_nat (length E))"

subsection \<open>Concrete inputs\<close>

definition im4 :: raster where
  "im4 = \<lparr>r_shape = [2, 2], r_channels = 1, r_pixels = [2, 2, 0, 0]\<rparr>"

definition im4b :: raster where
  "im4b = \<lparr>r_shape = [2, 2], r_channels = 1, r_pixels = [1, 2, 3, 5]\<rparr>"

definition sdi4 :: "real matrix" where
  "sdi4 = \<lparr>nrows = 4, ncols = 1, elems = [1, 0, 1, 0]\<rparr>"

subsection \<open>Auxiliary predicates\<close>

definition scale_rows :: "(nat \<Rightarrow> real) \<Rightarrow> complex matrix \<Rightarrow> complex matrix" where
  \<comment> \<open>row \<open>k\<close> of the matrix, scaled by the weight \<open>w k\<close>\<close>
  "scale_rows w J = mk_matrix (nrows J) (ncols J) (\<lambda>k p. complex_of_real (w k) * mat_at J k p)"

definition hermitian_gram :: "complex matrix \<Rightarrow> complex matrix" where
  \<comment> \<open>\<open>conj(A)\<^sup>T \<cdot> A\<close>, entry by entry\<close>
  "hermitian_gram A =
     mk_matrix (ncols A) (ncols A)
       (\<lambda>i j. sum_list (map (\<lambda>k. cnj (mat_at A k i) * mat_at A k j) [0..<nrows A]))"

definition igo_angles :: "real list \<Rightarrow> nat \<Rightarrow> real list" where
  \<comment> \<open>the orientation angles of a gradient vector whose first \<open>m\<close> entries are the
      derivatives along axis 0 and whose next \<open>m\<close> entries are those along axis 1\<close>
  "igo_angles v m = map (\<lambda>n. np_angle (v ! (m + n)) (v ! n)) [0..<m]"

definition igo_error_vec :: "real list \<Rightarrow> real list \<Rightarrow> real list \<Rightarrow> real list" where
  \<comment> \<open>\<open>cos_t \<cdot> sin_w - sin_t \<cdot> cos_w\<close>, entry by entry, for the warped angles \<open>phi\<close>\<close>
  "igo_error_vec ct sn phi =
     map (\<lambda>n. ct ! n * sin (phi ! n) - sn ! n * cos (phi ! n)) [0..<length phi]"

definition igo_correlation :: "real list \<Rightarrow> real list \<Rightarrow> real list \<Rightarrow> real" where
  \<comment> \<open>\<open>\<Sigma>(cos_t \<cdot> cos_w + sin_t \<cdot> sin_w)\<close>\<close>
  "igo_correlation ct sn phi =
     sum_list (map (\<lambda>n. ct ! n * cos (phi ! n) + sn ! n * sin (phi ! n)) [0..<length phi])"

definition bc_fits :: "nat list \<Rightarrow> nat list \<Rightarrow> bool" where
  \<comment> \<open>an operand of shape \<open>as\<close> broadcasts to the shape \<open>rs\<close>\<close>
  "bc_fits as rs = list_all2 (\<lambda>a r. a = r \<or> a = 1) as rs"

definition const8 :: "real \<Rightarrow> raster" where
  \<comment> \<open>the 8 by 8 image of one channel and constant intensity\<close>
  "const8 c = \<lparr>r_shape = [8, 8], r_channels = 1, r_pixels = replicate 64 c\<rparr>"

definition im9 :: raster where
  "im9 = \<lparr>r_shape = [3, 3], r_channels = 1, r_pixels = [-1, -1, 0, 0, 0, 0, 0, 1, 1]\<rparr>"

definition im9_flipped :: raster where
  \<comment> \<open>\<open>im9\<close> upside down\<close>
  "im9_flipped = \<lparr>r_shape = [3, 3], r_channels = 1, r_pixels = [0, 1, 1, 0, 0, 0, -1, -1, 0]\<rparr>"

definition dW9 :: "real ndarray" where
  \<comment> \<open>the Jacobian of a translation along the first axis, over 9 pixels\<close>
  "dW9 = \<lparr>shape = [2, 9, 1], data = [1, 1, 1, 1, 1, 1, 1, 1, 1, 0, 0, 0, 0, 0, 0, 0, 0, 0]\<rparr>"

definition sdi9 :: "real matrix" where
  "sdi9 = \<lparr>nrows = 9, ncols = 1, elems = [0, 0, 0, 0, 1 / 2, 0, 0, 0, 0]\<rparr>"

definition const2c :: raster where
  \<comment> \<open>a 2 by 2 image of two channels and constant intensity\<close>
  "const2c = \<lparr>r_shape = [2, 2], r_channels = 2, r_pixels = replicate 8 3\<rparr>"

definition dW4 :: "real ndarray" where
  \<comment> \<open>the Jacobian of a translation along the first axis, over 4 pixels\<close>
  "dW4 = \<lparr>shape = [2, 4, 1], data = [1, 1, 1, 1, 0, 0, 0, 0]\<rparr>"

definition st2c :: "raster residual" where
  \<comment> \<open>the state of a GradientCorrelation instance after \<open>steepest_descent_images\<close> on
      \<open>const2c\<close>\<close>
  "st2c = new_residual
     \<lparr>self_grad := Some \<lparr>r_shape = [2, 2], r_channels = 4, r_pixels = replicate 16 0\<rparr>,
      cos_phi := Some \<lparr>shape = [2, 4], data = replicate 8 1\<rparr>,
      sin_phi := Some \<lparr>shape = [2, 4], data = replicate 8 0\<rparr>,
      self_N := Some 4\<rparr>"

definition zeros8 :: "real matrix" where
  "zeros8 = \<lparr>nrows = 8, ncols = 1, elems = replicate 8 0\<rparr>"

definition pix1 :: "real \<Rightarrow> raster" where
  \<comment> \<open>the image of one pixel and one channel\<close>
  "pix1 c = \<lparr>r_shape = [1, 1], r_channels = 1, r_pixels = [c]\<rparr>"

definition gabor1 :: "raster residual" where
  \<comment> \<open>a GaborFourier instance for images of one pixel, with the weight 4\<close>
  "gabor1 = new_residual\<lparr>filter_bank := Some [4]\<rparr>"

definition ramp4 :: raster where
  \<comment> \<open>a 2 by 2 image of one channel whose intensity grows along the second axis\<close>
  "ramp4 = \<lparr>r_shape = [2, 2], r_channels = 1, r_pixels = [0, 1, 0, 1]\<rparr>"

definition tg4 :: raster where
  \<comment> \<open>the regularised gradient of \<open>ramp4\<close>\<close>
  "tg4 = \<lparr>r_shape = [2, 2], r_channels = 2, r_pixels = [0, 0, 0, 0, 1 / 2, 1 / 2, 1 / 2, 1 / 2]\<rparr>"

definition line4 :: raster where
  \<comment> \<open>a line of 4 pixels and one channel\<close>
  "line4 = \<lparr>r_shape = [4], r_channels = 1, r_pixels = [0, 1, 2, 3]\<rparr>"

definition st_line4 :: "raster residual" where
  \<comment> \<open>a GradientImages instance whose cached template gradient is zero\<close>
  "st_line4 = new_residual
     \<lparr>template_grad := Some \<lparr>r_shape = [4], r_channels = 1, r_pixels = [0, 0, 0, 0]\<rparr>\<rparr>"

definition st9 :: "raster residual" where
  \<comment> \<open>the state of an ECC instance after \<open>calculate_hessian\<close> on \<open>sdi9\<close>\<close>
  "st9 = new_residual\<lparr>H_inv := Some \<lparr>nrows = 1, ncols = 1, elems = [4]\<rparr>\<rparr>"

definition dW0 :: "real ndarray" where
  \<comment> \<open>the all-zero Jacobian of a warp of 4 parameters over 64 pixels, laid out as
      \<open>dims \<times> pixels \<times> params\<close>\<close>
  "dW0 = \<lparr>shape = [2, 64, 4], data = replicate 512 0\<rparr>"

definition dW0f :: "real ndarray" where
  \<comment> \<open>the same Jacobian laid out as \<open>pixels \<times> params \<times> dims\<close>, as GaborFourier reads it\<close>
  "dW0f = \<lparr>shape = [64, 4, 2], data = replicate 512 0\<rparr>"

definition zero_sdi :: "('a::zero) matrix" where
  \<comment> \<open>the all-zero matrix of 64 rows and 4 columns\<close>
  "zero_sdi = \<lparr>nrows = 64, ncols = 4, elems = replicate 256 0\<rparr>"


section \<open>Properties\<close>

subsection \<open>Outcomes and tables\<close>

lemma bind_err_simps [simp]:
  "bind_err (Inl e) f = Inl e" "bind_err (Inr x) f = f x"
  by (simp_all add: bind_err_def)

lemma bind_err_eq_Inr:
  "bind_err m f = Inr y \<longleftrightarrow> (\<exists>x. m = Inr x \<and> f x = Inr y)"
  by (cases m) simp_all

lemma length_table [simp]: "length (table n m f) = n * m"
  unfolding table_def by (induction n) simp_all

lemma table_nth: "i < n \<Longrightarrow> j < m \<Longrightarrow> table n m f ! (i * m + j) = f i j"
proof (induction n)
  case 0
  then show ?case by simp
next
  case (Suc n)
  have unroll: "table (Suc n) m f = table n m f @ map (f n) [0..<m]"
    unfolding table_def by simp
  show ?case
  proof (cases "i < n")
    case True
    have "i * m + j < Suc i * m" using Suc.prems(2) by simp
    also have "\<dots> \<le> n * m" using True by (intro mult_le_mono1) simp
    finally have "i * m + j < n * m" .
    then show ?thesis using Suc.IH[OF True Suc.prems(2)] by (simp add: unroll nth_append)
  next
    case False
    then have "i = n" using Suc.prems(1) by simp
    then show ?thesis using Suc.prems(2) by (simp add: unroll nth_append)
  qed
qed

lemma table_cong:
  "(\<And>i j. i < n \<Longrightarrow> j < m \<Longrightarrow> f i j = g i j) \<Longrightarrow> table n m f = table n m g"
  unfolding table_def by (intro arg_cong[where f=concat] map_cong) auto

lemma mk_matrix_sel [simp]:
  "nrows (mk_matrix n m f) = n" "ncols (mk_matrix n m f) = m"
  by (simp_all add: mk_matrix_def)

lemma mat_at_mk_matrix: "i < n \<Longrightarrow> j < m \<Longrightarrow> mat_at (mk_matrix n m f) i j = f i j"
  by (simp add: mat_at_def mk_matrix_def table_nth)

lemma mk_matrix_cong:
  assumes "\<And>i j. i < n \<Longrightarrow> j < m \<Longrightarrow> f i j = g i j"
  shows "mk_matrix n m f = mk_matrix n m g"
  unfolding mk_matrix_def using table_cong[of n m f g, OF assms] by simp

lemma np_T_sel [simp]: "nrows (np_T A) = ncols A" "ncols (np_T A) = nrows A"
  by (simp_all add: np_T_def)

lemma mat_at_np_T: "j < ncols A \<Longrightarrow> i < nrows A \<Longrightarrow> mat_at (np_T A) j i = mat_at A i j"
  by (simp add: np_T_def mat_at_mk_matrix)

subsection \<open>Products with the transpose\<close>

lemma np_dot_T:
  assumes "nrows J = nrows J2"
  shows "np_dot (np_T J) J2 = Inr (cross_product J J2)"
proof -
  have "mk_matrix (ncols J) (ncols J2)
          (\<lambda>i j. sum_list (map (\<lambda>k. mat_at (np_T J) i k * mat_at J2 k j) [0..<nrows J]))
        = cross_product J J2"
    unfolding cross_product_def
    by (rule mk_matrix_cong, rule arg_cong[where f=sum_list], rule map_cong)
       (simp_all add: mat_at_np_T)
  then show ?thesis using assms by (simp add: np_dot_def)
qed

lemma np_dot_T_mismatch: "nrows J \<noteq> nrows J2 \<Longrightarrow> np_dot (np_T J) J2 = Inl ValueError"
  by (simp add: np_dot_def)

lemma cross_product_symmetric: "np_T (cross_product J J) = cross_product J J"
proof -
  let ?g = "\<lambda>i j. sum_list (map (\<lambda>k. mat_at J k i * mat_at J k j) [0..<nrows J])"
  have swap: "?g i j = ?g j i" for i j
    by (rule arg_cong[where f=sum_list], rule map_cong) (simp_all add: mult.commute)
  have "mk_matrix (ncols J) (ncols J) (\<lambda>j i. mat_at (mk_matrix (ncols J) (ncols J) ?g) i j)
        = mk_matrix (ncols J) (ncols J) ?g"
  proof (rule mk_matrix_cong)
    fix i j assume "i < ncols J" "j < ncols J"
    then have "mat_at (mk_matrix (ncols J) (ncols J) ?g) j i = ?g j i"
      by (rule mat_at_mk_matrix[rotated])
    also have "\<dots> = ?g i j" by (rule swap)
    finally show "mat_at (mk_matrix (ncols J) (ncols J) ?g) j i = ?g i j" .
  qed
  then show ?thesis by (simp add: np_T_def cross_product_def)
qed

lemma np_dot_vec_T:
  assumes "nrows J = length e"
  shows "np_dot_vec (np_T J) e = Inr (T_dot_vec J e)"
proof -
  have "map (\<lambda>i. sum_list (map (\<lambda>k. mat_at (np_T J) i k * e ! k) [0..<nrows J])) [0..<ncols J]
        = T_dot_vec J e"
    unfolding T_dot_vec_def
    by (rule map_cong, simp, rule arg_cong[where f=sum_list], rule map_cong)
       (simp_all add: mat_at_np_T)
  then show ?thesis using assms by (simp add: np_dot_vec_def)
qed

lemma np_dot_vec_T_mismatch: "nrows J \<noteq> length e \<Longrightarrow> np_dot_vec (np_T J) e = Inl ValueError"
  by (simp add: np_dot_vec_def)

subsection \<open>Broadcasting\<close>

lemma bc_offset_same: "n < prod_list sh \<Longrightarrow> bc_offset sh sh n = n"
proof (induction sh arbitrary: n)
  case Nil
  then show ?case by simp
next
  case (Cons a sh)
  have pos: "0 < prod_list sh" using Cons.prems by (cases "prod_list sh = 0") simp_all
  have r: "n mod prod_list sh < prod_list sh" using pos by simp
  show ?case
  proof (cases "a = 1")
    case True
    then have "n < prod_list sh" using Cons.prems by simp
    then show ?thesis using True Cons.IH[of n] by simp
  next
    case False
    then show ?thesis using Cons.IH[OF r] by (simp add: mult.commute)
  qed
qed

declare bc_offset.simps [simp del]

lemma vsub_same_length:
  assumes "length u = length v"
  shows "vsub u v = Inr (map2 (-) u v)"
proof -
  have "map (\<lambda>n. u ! bc_offset [length v] [length v] n - v ! bc_offset [length v] [length v] n)
          [0..<length v] = map2 (-) u v"
    using assms by (intro nth_equalityI) (simp_all add: bc_offset_same)
  then show ?thesis using assms
    by (simp add: vsub_def bc_op_def of_vector_def pad_shape_def)
qed

subsection \<open>Reshaping, broadcasting and sums of slices\<close>

lemma np_reshape_infer:
  assumes "length (data A) = x * prod_list (pre @ post)" "prod_list (pre @ post) \<noteq> 0"
  shows "np_reshape A (map Some pre @ None # map Some post)
           = Inr \<lparr>shape = pre @ x # post, data = data A\<rparr>"
proof -
  have k: "prod_list (map (case_option 1 id) (map Some pre @ None # map Some post))
             = prod_list (pre @ post)"
    by (simp add: o_def)
  have u: "length (filter (\<lambda>d. d = None) (map Some pre @ None # map Some post)) = 1"
    by (simp add: filter_map o_def)
  have s: "map (case_option y id) (map Some pre @ None # map Some post) = pre @ y # post" for y
    by (simp add: map_idI)
  show ?thesis
    unfolding np_reshape_def Let_def k u s using assms by simp
qed

lemma np_reshape_exact:
  assumes "length (data A) = prod_list sh"
  shows "np_reshape A (map Some sh) = Inr \<lparr>shape = sh, data = data A\<rparr>"
proof -
  have k: "prod_list (map (case_option 1 id) (map Some sh)) = prod_list sh"
    by (simp add: o_def)
  have u: "length (filter (\<lambda>d. d = None) (map Some sh)) = 0"
    by (simp add: filter_map o_def)
  have s: "map (case_option 0 id) (map Some sh) = sh"
    by (simp add: map_idI)
  show ?thesis
    unfolding np_reshape_def Let_def k u s using assms by simp
qed

lemma as_matrix_eq:
  assumes "length (data A) = r * k" "0 < k"
  shows "as_matrix A k = Inr \<lparr>nrows = r, ncols = k, elems = data A\<rparr>"
  using np_reshape_infer[where pre = "[]" and post = "[k]" and x = r and A = A] assms
  by (simp add: as_matrix_def)

lemma bc_dims_fits:
  "bc_dims as bs = Some rs \<Longrightarrow> bc_fits as rs \<and> bc_fits bs rs"
proof (induction as bs arbitrary: rs rule: bc_dims.induct)
  case 1
  then show ?case by (simp add: bc_fits_def)
next
  case (2 a as b bs)
  then show ?case
    by (auto simp add: bc_fits_def split: if_splits)
qed simp_all

lemma bc_offset_less:
  "bc_fits as rs \<Longrightarrow> n < prod_list rs \<Longrightarrow> bc_offset as rs n < prod_list as"
  unfolding bc_fits_def
proof (induction as rs arbitrary: n rule: list_all2_induct)
  case Nil
  then show ?case by (simp add: bc_offset.simps)
next
  case (Cons a as r rs)
  have pos: "0 < prod_list rs" using Cons.prems by (cases "prod_list rs = 0") simp_all
  then have rest: "bc_offset as rs (n mod prod_list rs) < prod_list as"
    by (intro Cons.IH) simp
  show ?case
  proof (cases "a = 1")
    case True
    then show ?thesis using rest by (simp add: bc_offset.simps)
  next
    case False
    then have ar: "a = r" using Cons.hyps(1) by simp
    have "n div prod_list rs < r"
      using Cons.prems pos by (simp add: less_mult_imp_div_less mult.commute)
    then have "Suc (n div prod_list rs) \<le> a" using ar by simp
    then have "Suc (n div prod_list rs) * prod_list as \<le> a * prod_list as"
      by (rule mult_le_mono1)
    then show ?thesis using rest False by (simp add: bc_offset.simps)
  qed
qed

lemma prod_list_pad_shape [simp]: "prod_list (pad_shape r sh) = prod_list sh"
  by (simp add: pad_shape_def)

lemma bc_op_shape_data:
  assumes "bc_op f A B = Inr R"
  shows "length (data R) = prod_list (shape R)"
  using assms by (auto simp add: bc_op_def Let_def split: option.splits)

lemma bc_op_zero_right:
  fixes A B :: "real ndarray"
  assumes "bc_op (*) A B = Inr R" "length (data B) = prod_list (shape B)"
    "\<forall>x \<in> set (data B). x = 0"
  shows "data R = replicate (prod_list (shape R)) 0"
proof -
  let ?r = "max (length (shape A)) (length (shape B))"
  let ?sb = "pad_shape ?r (shape B)"
  obtain sh where sh: "bc_dims (pad_shape ?r (shape A)) ?sb = Some sh"
    and R: "R = \<lparr>shape = sh,
                 data = map (\<lambda>n. data A ! bc_offset (pad_shape ?r (shape A)) sh n
                                 * data B ! bc_offset ?sb sh n) [0..<prod_list sh]\<rparr>"
    using assms(1) by (auto simp add: bc_op_def Let_def split: option.splits)
  have fits: "bc_fits ?sb sh" using bc_dims_fits[OF sh] by simp
  have "data B ! bc_offset ?sb sh n = 0" if "n < prod_list sh" for n
  proof -
    have "bc_offset ?sb sh n < length (data B)"
      using bc_offset_less[OF fits that] assms(2) by simp
    then show ?thesis using assms(3) by (simp add: nth_mem)
  qed
  then have "map (\<lambda>n. data A ! bc_offset (pad_shape ?r (shape A)) sh n
                      * data B ! bc_offset ?sb sh n) [0..<prod_list sh]
             = replicate (prod_list sh) 0"
    by (intro nth_equalityI) simp_all
  then show ?thesis by (simp add: R)
qed

lemma bc_op_same_rank:
  assumes "length (shape A) = length (shape B)" "bc_dims (shape A) (shape B) = Some sh"
  shows "bc_op f A B
           = Inr \<lparr>shape = sh,
                  data = map (\<lambda>n. f (data A ! bc_offset (shape A) sh n)
                                     (data B ! bc_offset (shape B) sh n)) [0..<prod_list sh]\<rparr>"
  using assms by (simp add: bc_op_def pad_shape_def Let_def)

lemma length_foldl_vadd:
  "\<forall>x \<in> set xs. length x = length z \<Longrightarrow> length (foldl vadd z xs) = length z"
  by (induction xs arbitrary: z) (simp_all add: vadd_def)

lemma foldl_vadd_zero:
  "\<forall>x \<in> set xs. x = replicate n (0::real) \<Longrightarrow> foldl vadd (replicate n 0) xs = replicate n 0"
proof (induction xs)
  case Nil then show ?case by simp
next
  case (Cons x xs)
  have "vadd (replicate n 0) (replicate n (0::real)) = replicate n 0"
    by (simp add: vadd_def zip_replicate)
  then show ?case using Cons by simp
qed

lemma length_slice0:
  assumes "shape A = d # ds" "length (data A) = d * prod_list ds" "i < d"
  shows "length (slice0 A i) = prod_list ds"
proof -
  have "Suc i * prod_list ds \<le> d * prod_list ds" using assms(3) by (intro mult_le_mono1) simp
  then show ?thesis using assms by (simp add: slice0_def)
qed

lemma sum_slices_eq:
  assumes "shape A = d # ds" "0 < d"
  shows "sum_slices A = Inr \<lparr>shape = ds,
           data = foldl vadd (replicate (prod_list ds) 0) (map (slice0 A) [0..<d])\<rparr>"
  using assms by (simp add: sum_slices_def)

lemma length_sum_slices:
  fixes A :: "real ndarray"
  assumes "shape A = d # ds" "length (data A) = d * prod_list ds"
  shows "length (foldl vadd (replicate (prod_list ds) 0) (map (slice0 A) [0..<d])) = prod_list ds"
  using length_foldl_vadd[of "map (slice0 A) [0..<d]" "replicate (prod_list ds) (0::real)"]
    length_slice0[OF assms] by simp

lemma slice0_zero:
  fixes A :: "real ndarray"
  assumes "shape A = d # ds" "data A = replicate (d * prod_list ds) 0" "i < d"
  shows "slice0 A i = replicate (prod_list ds) 0"
proof -
  have "Suc i * prod_list ds \<le> d * prod_list ds" using assms(3) by (intro mult_le_mono1) simp
  then have "prod_list ds \<le> d * prod_list ds - i * prod_list ds" by simp
  then show ?thesis using assms by (simp add: slice0_def min_def)
qed

lemma sum_slices_zero:
  fixes A :: "real ndarray"
  assumes "shape A = d # ds" "data A = replicate (d * prod_list ds) 0"
  shows "foldl vadd (replicate (prod_list ds) 0) (map (slice0 A) [0..<d]) = replicate (prod_list ds) 0"
  by (rule foldl_vadd_zero) (auto simp add: slice0_zero[OF assms])


subsection \<open>Slices and assignments\<close>

lemma index0_eq:
  "shape A = d # ds \<Longrightarrow> i < d \<Longrightarrow> index0 A i = Inr \<lparr>shape = ds, data = slice0 A i\<rparr>"
  by (simp add: index0_def)

lemma assign0_eq:
  "shape A = d # ds \<Longrightarrow> i < d \<Longrightarrow> shape V = ds \<Longrightarrow>
     assign0 A i V = Inr (A\<lparr>data := take (i * prod_list ds) (data A) @ data V
                                   @ drop (Suc i * prod_list ds) (data A)\<rparr>)"
  by (simp add: assign0_def)

lemma length_assigned:
  assumes "length xs = d * S" "length v = S" "i < d"
  shows "length (take (i * S) xs @ v @ drop (Suc i * S) xs) = d * S"
proof -
  define a where "a = i * S"
  define T where "T = d * S"
  have "Suc i * S \<le> d * S" using assms(3) by (intro mult_le_mono1) simp
  then have le: "a + S \<le> T" by (simp add: a_def T_def)
  have "length (take a xs @ v @ drop (a + S) xs) = T"
    using le assms(1,2) by (simp add: T_def[symmetric])
  then show ?thesis by (simp add: a_def T_def add.commute)
qed

lemma bc_dims_same: "bc_dims sh sh = Some sh"
  by (induction sh) simp_all

lemma bc_op_same_shape:
  assumes "shape A = shape B" "length (data A) = prod_list (shape A)"
    "length (data B) = prod_list (shape A)"
  shows "bc_op f A B = Inr \<lparr>shape = shape A, data = map2 f (data A) (data B)\<rparr>"
proof -
  have "map (\<lambda>n. f (data A ! bc_offset (shape A) (shape A) n)
                    (data B ! bc_offset (shape A) (shape A) n)) [0..<prod_list (shape A)]
        = map2 f (data A) (data B)"
    using assms by (intro nth_equalityI) (simp_all add: bc_offset_same)
  then show ?thesis
    using bc_op_same_rank[of A B "shape A" f] assms(1) by (simp add: bc_dims_same)
qed

lemma bc_op_lead:
  assumes "shape A = 1 # sh" "shape B = d # sh"
  shows "\<exists>R. bc_op f A B = Inr R \<and> shape R = d # sh \<and> length (data R) = d * prod_list sh"
proof -
  have "bc_dims (1 # sh) (d # sh) = Some (d # sh)" by (simp add: bc_dims_same)
  then show ?thesis using bc_op_same_rank[of A B "d # sh" f] assms by simp
qed

lemma fix_crossed_ok:
  assumes "shape A = d # d' # ds" "2 \<le> d" "2 \<le> d'" "length (data A) = d * (d' * prod_list ds)"
  shows "\<exists>A'. fix_crossed A = Inr A' \<and> shape A' = shape A \<and> length (data A') = length (data A)"
proof -
  let ?r0 = "\<lparr>shape = d' # ds, data = slice0 A 0\<rparr>"
  let ?r1 = "\<lparr>shape = d' # ds, data = slice0 A 1\<rparr>"
  let ?v = "\<lparr>shape = ds, data = slice0 ?r0 1\<rparr>"
  have r0: "index0 A 0 = Inr ?r0" and r1: "index0 A 1 = Inr ?r1"
    using assms(1,2) by (simp_all add: index0_eq)
  have v: "index0 ?r0 1 = Inr ?v" using assms(3) by (simp add: index0_eq)
  have lr0: "length (slice0 A 0) = d' * prod_list ds" and lr1: "length (slice0 A 1) = d' * prod_list ds"
    using length_slice0[of A d "d' # ds"] assms by simp_all
  have lv: "length (slice0 ?r0 1) = prod_list ds"
    using length_slice0[of ?r0 d' ds 1] lr0 assms(3) by simp
  let ?r1' = "?r1\<lparr>data := take (0 * prod_list ds) (data ?r1) @ data ?v
                              @ drop (Suc 0 * prod_list ds) (data ?r1)\<rparr>"
  have a1: "assign0 ?r1 0 ?v = Inr ?r1'"
    using assign0_eq[of ?r1 d' ds 0 ?v] assms(3) by simp
  have l1: "length (data ?r1') = d' * prod_list ds"
    using length_assigned[of "slice0 A 1" d' "prod_list ds" "slice0 ?r0 1" 0] lr1 lv assms(3)
    by simp
  let ?A' = "A\<lparr>data := take (1 * prod_list (d' # ds)) (data A) @ data ?r1'
                            @ drop (Suc 1 * prod_list (d' # ds)) (data A)\<rparr>"
  have a2: "assign0 A 1 ?r1' = Inr ?A'"
    using assign0_eq[of A d "d' # ds" 1 ?r1'] assms(1,2) by simp
  have l2: "length (data ?A') = d * (d' * prod_list ds)"
    using length_assigned[of "data A" d "d' * prod_list ds" "data ?r1'" 1] l1 assms(2,4) by simp
  show ?thesis
    unfolding fix_crossed_def r0 bind_err_simps v r1 a1 a2
    using l2 assms(4) by simp
qed

lemma scale_slice_ok:
  fixes A :: "real ndarray"
  assumes "shape A = d # d' # sh" "i < d" "length (data A) = d * (d' * prod_list sh)"
    "shape F = 1 # sh"
  shows "\<exists>v A'. index0 A i = Inr \<lparr>shape = d' # sh, data = slice0 A i\<rparr>
           \<and> bc_op (*) F \<lparr>shape = d' # sh, data = slice0 A i\<rparr> = Inr v
           \<and> assign0 A i v = Inr A'
           \<and> shape A' = shape A \<and> length (data A') = length (data A)"
proof -
  let ?s = "\<lparr>shape = d' # sh, data = slice0 A i\<rparr>"
  have s: "index0 A i = Inr ?s" using assms(1,2) by (simp add: index0_eq)
  obtain v where v: "bc_op (*) F ?s = Inr v" and sv: "shape v = d' # sh"
    and lv: "length (data v) = d' * prod_list sh"
    using bc_op_lead[of F sh ?s d' "(*)"] assms(4) by auto
  let ?A' = "A\<lparr>data := take (i * prod_list (d' # sh)) (data A) @ data v
                            @ drop (Suc i * prod_list (d' # sh)) (data A)\<rparr>"
  have a: "assign0 A i v = Inr ?A'"
    using assign0_eq[of A d "d' # sh" i v] assms(1,2) sv by simp
  have l: "length (data ?A') = d * (d' * prod_list sh)"
    using length_assigned[of "data A" d "d' * prod_list sh" "data v" i] lv assms(2,3) by simp
  show ?thesis using s v a l assms(3) by simp
qed


subsection \<open>The product with the warp Jacobian\<close>

lemma bc_dims_jacobian:
  "bc_dims (mid @ [X, 1]) (replicate (length mid) 1 @ [X, P]) = Some (mid @ [X, P])"
  by (induction mid) auto

lemma jacobian_product_eq:
  assumes "shape g = D # mid @ [X]" "shape dW = [D, X, P]" "length mid = k"
  shows "\<exists>R. jacobian_product k g dW = Inr R \<and> shape R = D # mid @ [X, P]
           \<and> length (data R) = prod_list (D # mid @ [X, P])"
proof -
  let ?w = "dW\<lparr>shape := D # replicate k 1 @ [X, P]\<rparr>"
  have w: "new_axes_after_first k dW = Inr ?w"
    using assms(2) by (simp add: new_axes_after_first_def)
  have dims: "bc_dims (shape (new_axis_last g)) (shape ?w) = Some (D # mid @ [X, P])"
    using assms(1,3) bc_dims_jacobian[of mid X P] by (simp add: new_axis_last_def)
  have rank: "length (shape (new_axis_last g)) = length (shape ?w)"
    using assms(1,3) by (simp add: new_axis_last_def)
  show ?thesis
    unfolding jacobian_product_def w bind_err_simps bc_op_same_rank[OF rank dims]
    by simp
qed

lemma jacobian_product_zero:
  assumes "jacobian_product k g dW = Inr R" "length (data dW) = prod_list (shape dW)"
    "\<forall>x \<in> set (data dW). x = 0"
  shows "data R = replicate (prod_list (shape R)) 0"
proof -
  obtain w where w: "new_axes_after_first k dW = Inr w" and R: "bc_op (*) (new_axis_last g) w = Inr R"
    using assms(1) by (auto simp add: jacobian_product_def bind_err_eq_Inr)
  have "data w = data dW" "prod_list (shape w) = prod_list (shape dW)"
    using w by (auto simp add: new_axes_after_first_def split: list.splits)
  then show ?thesis using bc_op_zero_right[OF R] assms(2,3) by simp
qed

lemma contract_eq:
  assumes "length v = D * C * X" "0 < D" "0 < C" "shape dW = [D, X, P]" "0 < P"
  shows "\<exists>sdi. bind_err (np_reshape (of_vector v) [Some D, Some C, None]) (\<lambda>grad.
            bind_err (jacobian_product 1 grad dW) (\<lambda>a.
            bind_err (sum_slices a) (\<lambda>sdi.
            bind_err (shape_at sdi 2) (\<lambda>n_params.
            as_matrix sdi n_params)))) = Inr sdi
          \<and> nrows sdi = C * X \<and> ncols sdi = P \<and> length (elems sdi) = C * X * P
          \<and> (length (data dW) = D * X * P \<and> (\<forall>x \<in> set (data dW). x = 0)
                \<longrightarrow> elems sdi = replicate (C * X * P) 0)"
proof -
  let ?g = "\<lparr>shape = [D, C, X], data = v\<rparr>"
  have g: "np_reshape (of_vector v) [Some D, Some C, None] = Inr ?g"
    using np_reshape_infer[where pre = "[D, C]" and post = "[]" and x = X and A = "of_vector v"]
      assms(1-3) by (simp add: of_vector_def mult.commute mult.left_commute)
  obtain a where a: "jacobian_product 1 ?g dW = Inr a" and sa: "shape a = [D, C, X, P]"
    and la: "length (data a) = D * (C * (X * P))"
    using jacobian_product_eq[where g = ?g and mid = "[C]" and k = 1 and dW = dW and D = D and X = X and P = P]
      assms(4) by auto
  let ?s = "\<lparr>shape = [C, X, P],
             data = foldl vadd (replicate (prod_list [C, X, P]) 0) (map (slice0 a) [0..<D])\<rparr>"
  have s: "sum_slices a = Inr ?s"
    using sum_slices_eq[OF sa assms(2)] .
  have ls: "length (data ?s) = C * X * P"
    using length_sum_slices[OF sa] la by (simp add: mult.assoc)
  have m: "as_matrix ?s P = Inr \<lparr>nrows = C * X, ncols = P, elems = data ?s\<rparr>"
    using as_matrix_eq[of ?s "C * X" P] ls assms(5) by simp
  have z: "data ?s = replicate (C * X * P) 0"
    if "length (data dW) = D * X * P" "\<forall>x \<in> set (data dW). x = 0"
  proof -
    have "data a = replicate (D * prod_list [C, X, P]) 0"
      using jacobian_product_zero[OF a] that assms(4) sa by simp
    then show ?thesis using sum_slices_zero[OF sa] by (simp add: mult.assoc)
  qed
  show ?thesis
    unfolding g bind_err_simps a s
    using m ls z by (simp add: shape_at_def)
qed


subsection \<open>Gradients of constant raster images\<close>

lemma lib_sel:
  "n_dims raster_lib i = length (r_shape i)" "n_channels raster_lib i = r_channels i"
  "img_shape raster_lib i = r_shape i" "as_vector raster_lib i = r_pixels i"
  "pixels raster_lib i = \<lparr>shape = r_channels i # r_shape i, data = r_pixels i\<rparr>"
  "from_vector raster_lib i v = (if length v = length (r_pixels i) then Inr (i\<lparr>r_pixels := v\<rparr>)
               else Inl ValueError)"
  by (simp_all add: raster_lib_def)



lemma r_gradient_const:
  assumes "r_pixels img = replicate m c"
  shows "r_gradient img = img\<lparr>r_channels := length (r_shape img) * r_channels img,
                              r_pixels := replicate (length (r_shape img) * m) 0\<rparr>"
proof -
  have "concat (map (\<lambda>d. map (\<lambda>n.
                  let s = prod_list (drop (Suc d) (r_shape img)); i = r_coord (r_shape img) d n;
                      up = (if Suc i < r_shape img ! d \<and> n + s < length (replicate m c) then n + s else n);
                      dn = (if 0 < i then n - s else n)
                  in (replicate m c ! up - replicate m c ! dn) / real ((up - dn) div s)) [0..<length (replicate m c)])
                [0..<length (r_shape img)])
        = concat (map (\<lambda>d. replicate m 0) [0..<length (r_shape img)])"
    by (intro arg_cong[where f = concat] map_cong refl nth_equalityI) (simp_all add: Let_def)
  also have "\<dots> = replicate (length (r_shape img) * m) 0"
  proof -
    have "concat (map (\<lambda>d. replicate m (0::real)) [0..<k]) = replicate (k * m) 0" for k
      by (induction k) (simp_all add: replicate_add[symmetric] add.commute)
    then show ?thesis .
  qed
  finally show ?thesis by (simp add: r_gradient_def assms Let_def)
qed

lemma r_set_boundary_pixels_zero:
  assumes "r_pixels img = replicate m 0"
  shows "r_set_boundary_pixels img = img"
proof -
  have "map (\<lambda>n. if r_on_border (r_shape img) n then 0 else replicate m 0 ! n) [0..<m]
          = replicate m (0::real)"
    by (intro nth_equalityI) simp_all
  then have "map (\<lambda>n. if r_on_border (r_shape img) n then 0 else r_pixels img ! n)
               [0..<length (r_pixels img)] = r_pixels img"
    unfolding assms by simp
  then show ?thesis by (simp add: r_set_boundary_pixels_def)
qed

lemma calculate_gradients_const:
  assumes "r_pixels img = replicate m c"
  shows "calculate_gradients raster_lib img None
           = img\<lparr>r_channels := length (r_shape img) * r_channels img,
                  r_pixels := replicate (length (r_shape img) * m) 0\<rparr>"
  using r_set_boundary_pixels_zero[of "r_gradient img" "length (r_shape img) * m"]
  by (simp add: calculate_gradients_def raster_lib_def r_gradient_const[OF assms])


subsection \<open>The error property, zero vectors\<close>

lemma Residual_error_unset: "error_img st = None \<Longrightarrow> Residual_error st = Inl AttributeError"
  by (simp add: Residual_error_def attr_def)

lemma Residual_error_real:
  assumes "error_img st = Some (RealVec E)"
  shows "Residual_error st = (if E = [] then Inl NonFinite else Inr (RealVal (rms_real E)))"
proof -
  have "0 \<le> sum_list (map (\<lambda>e. e\<^sup>2) E) / real (length E)"
    by (intro divide_nonneg_nonneg sum_list_nonneg) auto
  then show ?thesis
    using assms by (simp add: Residual_error_def attr_def np_mean_def fsqrt_def rms_real_def)
qed

lemma Residual_error_complex:
  assumes "error_img st = Some (ComplexVec E)"
  shows "Residual_error st = (if E = [] then Inl NonFinite else Inr (ComplexVal (rms_complex E)))"
  using assms by (simp add: Residual_error_def attr_def np_mean_def rms_complex_def)

lemma sum_list_map_zero:
  "(\<And>x. x \<in> set xs \<Longrightarrow> f x = (0::'a::comm_monoid_add)) \<Longrightarrow> sum_list (map f xs) = 0"
  by (induction xs) simp_all

lemma sum_list_replicate_zero: "sum_list (replicate n (0::'a::comm_monoid_add)) = 0"
  by (induction n) simp_all

lemma rms_real_zero: "rms_real (replicate n 0) = 0"
  by (simp add: rms_real_def sum_list_replicate_zero)

lemma rms_complex_zero: "rms_complex (replicate n 0) = 0"
  by (simp add: rms_complex_def sum_list_replicate_zero)

lemma T_dot_vec_zero:
  fixes J :: "('a::comm_ring_1) matrix"
  assumes "e = replicate (nrows J) 0"
  shows "T_dot_vec J e = replicate (ncols J) 0"
proof -
  have "sum_list (map (\<lambda>k. mat_at J k j * replicate (nrows J) 0 ! k) [0..<nrows J]) = 0" for j
    by (rule sum_list_map_zero) simp
  then show ?thesis by (simp add: T_dot_vec_def assms map_replicate_const)
qed

lemma map2_minus_self: "map2 (-) v v = replicate (length v) (0::real)"
  by (intro nth_equalityI) simp_all

subsection \<open>SSD\<close>

lemma SSD_update_cases:
  "SSD_steepest_descent_update M st sdi IWxp template =
     (case vsub (as_vector M IWxp) (as_vector M template) of
        Inl e \<Rightarrow> Inl e
      | Inr e \<Rightarrow> (case np_dot_vec (np_T sdi) e of
                   Inl x \<Rightarrow> Inl x
                 | Inr u \<Rightarrow> Inr (st\<lparr>error_img := Some (RealVec e)\<rparr>, u)))"
  by (simp add: SSD_steepest_descent_update_def bind_err_def Let_def split: sum.splits)

lemma SSD_sdi_eq:
  assumes "length (as_vector M (calculate_gradients M img fwd)) = n_dims M img * n_channels M img * X"
    "0 < n_dims M img" "0 < n_channels M img" "shape dW = [n_dims M img, X, P]" "0 < P"
  shows "\<exists>sdi. SSD_steepest_descent_images M img dW fwd = Inr sdi
          \<and> nrows sdi = n_channels M img * X \<and> ncols sdi = P
          \<and> length (elems sdi) = n_channels M img * X * P
          \<and> (length (data dW) = n_dims M img * X * P \<and> (\<forall>x \<in> set (data dW). x = 0)
                \<longrightarrow> elems sdi = replicate (n_channels M img * X * P) 0)"
  unfolding SSD_steepest_descent_images_def Let_def
  by (rule contract_eq[OF assms])

lemma SSD_update_same_image:
  assumes "nrows sdi = length (as_vector M img)"
  shows "SSD_steepest_descent_update M st sdi img img
           = Inr (st\<lparr>error_img := Some (RealVec (replicate (nrows sdi) 0))\<rparr>,
                  replicate (ncols sdi) 0)"
  using assms
  by (simp add: SSD_update_cases vsub_same_length map2_minus_self np_dot_vec_T T_dot_vec_zero)


subsection \<open>ECC\<close>

lemma quad_form_eq:
  assumes "ncols A = length v" "nrows A = length u"
  shows "quad_form u A v = Inr (quad_value u A v)"
proof -
  have "sum_list (map (\<lambda>k. u ! k * map (\<lambda>i. sum_list (map (\<lambda>k. mat_at A i k * v ! k) [0..<ncols A]))
                                      [0..<nrows A] ! k) [0..<length u])
        = quad_value u A v"
    unfolding quad_value_def
    by (rule arg_cong[where f = sum_list], rule map_cong) (simp_all add: assms(2))
  then show ?thesis using assms by (simp add: quad_form_def np_dot_vec_def vdot_def)
qed

lemma ECC_sdi_eq:
  assumes "normalise_images M img = Inr nimg"
    "length (as_vector M (calculate_gradients M nimg fwd)) = n_dims M img * n_channels M img * X"
    "0 < n_dims M img" "0 < n_channels M img" "shape dW = [n_dims M img, X, P]" "0 < P"
  shows "\<exists>sdi. ECC_steepest_descent_images M img dW fwd = Inr sdi
          \<and> nrows sdi = n_channels M img * X \<and> ncols sdi = P
          \<and> length (elems sdi) = n_channels M img * X * P
          \<and> (length (data dW) = n_dims M img * X * P \<and> (\<forall>x \<in> set (data dW). x = 0)
                \<longrightarrow> elems sdi = replicate (n_channels M img * X * P) 0)"
  unfolding ECC_steepest_descent_images_def Let_def assms(1) bind_err_simps
  by (rule contract_eq[OF assms(2-)])

lemma det_n_zero_row:
  assumes "\<And>j. j < Suc n \<Longrightarrow> a 0 j = 0"
  shows "det_n (Suc n) a = 0"
  unfolding det_n.simps by (rule sum_list_map_zero) (use assms in auto)

lemma mat_at_zero:
  assumes "elems A = replicate (nrows A * ncols A) 0" "i < nrows A" "j < ncols A"
  shows "mat_at A i j = 0"
proof -
  have "i * ncols A + j < Suc i * ncols A" using assms(3) by simp
  also have "\<dots> \<le> nrows A * ncols A" using assms(2) by (intro mult_le_mono1) simp
  finally show ?thesis by (simp add: mat_at_def assms(1))
qed

lemma cross_product_zero:
  fixes J :: "real matrix"
  assumes "elems J = replicate (nrows J * ncols J) 0" "i < ncols J" "j < ncols J"
  shows "mat_at (cross_product J J) i j = 0"
  unfolding cross_product_def mat_at_mk_matrix[OF assms(2,3)]
  by (rule sum_list_map_zero) (simp add: mat_at_zero[OF assms(1)] assms)

lemma ECC_hessian_zero_sdi:
  assumes "elems sdi = replicate (nrows sdi * ncols sdi) 0" "0 < ncols sdi"
  shows "ECC_calculate_hessian st sdi = Inl LinAlgError"
proof -
  obtain n where n: "ncols sdi = Suc n" using assms(2) by (cases "ncols sdi") simp_all
  have "det_n (Suc n) (mat_at (cross_product sdi sdi)) = 0"
    by (rule det_n_zero_row) (simp add: cross_product_zero[OF assms(1)] n)
  then have "scipy_inv (cross_product sdi sdi) = Inl LinAlgError"
    by (simp add: scipy_inv_def cross_product_def n)
  then show ?thesis by (simp add: ECC_calculate_hessian_def np_dot_T)
qed

subsection \<open>GradientCorrelation\<close>

lemma igo_phi_eq:
  assumes "shape g = nd # ds" "prod_list ds = m" "length (data g) = nd * m" "2 \<le> nd"
  shows "igo_phi g = Inr \<lparr>shape = ds, data = igo_angles (data g) m\<rparr>"
proof -
  have two: "2 * m \<le> length (data g)"
    using assms(3,4) by (simp add: mult_le_mono1)
  have "map2 np_angle (slice0 g 1) (slice0 g 0) = igo_angles (data g) m"
    using two assms(1,2) by (intro nth_equalityI) (simp_all add: slice0_def igo_angles_def)
  then show ?thesis
    using assms by (simp add: igo_phi_def index0_eq)
qed

lemma warped_phi_eq:
  assumes "2 \<le> n_dims M IWxp" "0 < n_channels M IWxp"
    "length (as_vector M (calculate_gradients M IWxp None)) = n_dims M IWxp * n_channels M IWxp * X"
  shows "warped_phi M IWxp
           = Inr \<lparr>shape = [n_channels M IWxp, X],
                  data = igo_angles (as_vector M (calculate_gradients M IWxp None))
                           (n_channels M IWxp * X)\<rparr>"
proof -
  let ?v = "as_vector M (calculate_gradients M IWxp None)"
  let ?g = "\<lparr>shape = [n_dims M IWxp, n_channels M IWxp, X], data = ?v\<rparr>"
  have g: "np_reshape (of_vector ?v) [Some (n_dims M IWxp), Some (n_channels M IWxp), None] = Inr ?g"
    using np_reshape_infer[where pre = "[n_dims M IWxp, n_channels M IWxp]" and post = "[]"
        and x = X and A = "of_vector ?v"] assms
    by (simp add: of_vector_def mult.commute mult.left_commute)
  have "igo_phi ?g = Inr \<lparr>shape = [n_channels M IWxp, X],
                          data = igo_angles ?v (n_channels M IWxp * X)\<rparr>"
    using igo_phi_eq[of ?g "n_dims M IWxp" "[n_channels M IWxp, X]" "n_channels M IWxp * X"] assms
    by (simp add: mult.assoc)
  then show ?thesis
    unfolding warped_phi_def Let_def g bind_err_simps .
qed

lemma length_igo_angles [simp]: "length (igo_angles v m) = m"
  by (simp add: igo_angles_def)


lemma GradientCorrelation_sdi_eq:
  fixes M :: "('i, 'm, 't) menpo"
  assumes nd: "2 \<le> n_dims M img" and C: "0 < n_channels M img"
    and hw: "img_shape M (calculate_gradients M img fwd) = [h, w]" "0 < h * w"
    and v: "length (as_vector M (calculate_gradients M img fwd)) = n_dims M img * n_channels M img * (h * w)"
    and fv: "from_vector M (calculate_gradients M img fwd)
               (map sin (igo_angles (as_vector M (calculate_gradients M img fwd)) (n_channels M img * (h * w)))
                @ map cos (igo_angles (as_vector M (calculate_gradients M img fwd)) (n_channels M img * (h * w))))
             = Inr g'"
    and sg: "length (data (pixels M (calculate_gradients M (calculate_gradients M img fwd) None)))
               = n_dims M img * n_dims M img * n_channels M img * (h * w)"
    and dW: "shape dW = [n_dims M img, h * w, P]" "0 < P"
  shows "\<exists>sdi. GradientCorrelation_steepest_descent_images M st img dW fwd
            = Inr (st\<lparr>self_grad := Some (calculate_gradients M img fwd),
                      cos_phi := Some \<lparr>shape = [n_channels M img, h * w],
                          data = map cos (igo_angles (as_vector M (calculate_gradients M img fwd))
                                            (n_channels M img * (h * w)))\<rparr>,
                      sin_phi := Some \<lparr>shape = [n_channels M img, h * w],
                          data = map sin (igo_angles (as_vector M (calculate_gradients M img fwd))
                                            (n_channels M img * (h * w)))\<rparr>,
                      self_N := Some (h * w)\<rparr>, sdi)
          \<and> nrows sdi = n_channels M img * (h * w) \<and> ncols sdi = P"
proof -
  let ?nd = "n_dims M img" and ?C = "n_channels M img" and ?X = "h * w"
  let ?v = "as_vector M (calculate_gradients M img fwd)"
  let ?phi = "igo_angles ?v (?C * ?X)"
  let ?g2 = "\<lparr>shape = [?nd, ?C, h, w], data = ?v\<rparr>"
  have e1: "np_reshape (of_vector ?v) [Some ?nd, Some ?C, Some h, Some w] = Inr ?g2"
    using np_reshape_exact[of "of_vector ?v" "[?nd, ?C, h, w]"] v
    by (simp add: of_vector_def mult.assoc)
  let ?p = "\<lparr>shape = [?C, h, w], data = ?phi\<rparr>"
  have e2: "igo_phi ?g2 = Inr ?p"
    using igo_phi_eq[of ?g2 ?nd "[?C, h, w]" "?C * ?X"] nd v by (simp add: mult.assoc)
  have e3: "from_vector M (calculate_gradients M img fwd) (flatten (map_array sin ?p) @ flatten (map_array cos ?p)) = Inr g'"
    using fv by (simp add: flatten_def map_array_def)
  let ?sg0 = "\<lparr>shape = [?nd, ?nd, ?C, ?X],
               data = data (pixels M (calculate_gradients M (calculate_gradients M img fwd) None))\<rparr>"
  have e4: "np_reshape (pixels M (calculate_gradients M (calculate_gradients M img fwd) None))
              [Some ?nd, Some ?nd, Some ?C, None] = Inr ?sg0"
    using np_reshape_infer[where pre = "[?nd, ?nd, ?C]" and post = "[]" and x = ?X
        and A = "pixels M (calculate_gradients M (calculate_gradients M img fwd) None)"] sg nd C
    by (simp add: mult.commute mult.left_commute)
  obtain sg1 where e5: "fix_crossed ?sg0 = Inr sg1" and s1: "shape sg1 = [?nd, ?nd, ?C, ?X]"
    and l1: "length (data sg1) = ?nd * (?nd * (?C * ?X))"
    using fix_crossed_ok[of ?sg0 ?nd ?nd "[?C, ?X]"] nd sg by (auto simp add: mult.assoc)
  let ?cos = "\<lparr>shape = [?C, ?X], data = map cos ?phi\<rparr>"
  let ?sin = "\<lparr>shape = [?C, ?X], data = map sin ?phi\<rparr>"
  have e6: "np_reshape (of_vector (flatten (map_array cos ?p))) [Some ?C, None] = Inr ?cos"
    using np_reshape_infer[where pre = "[?C]" and post = "[]" and x = ?X
        and A = "of_vector (flatten (map_array cos ?p))"] C
    by (simp add: of_vector_def flatten_def map_array_def mult.commute)
  have e7: "np_reshape (of_vector (flatten (map_array sin ?p))) [Some ?C, None] = Inr ?sin"
    using np_reshape_infer[where pre = "[?C]" and post = "[]" and x = ?X
        and A = "of_vector (flatten (map_array sin ?p))"] C
    by (simp add: of_vector_def flatten_def map_array_def mult.commute)
  obtain v1 sg2 where e8: "index0 sg1 1 = Inr \<lparr>shape = [?nd, ?C, ?X], data = slice0 sg1 1\<rparr>"
    and e9: "bc_op (*) (new_axis_first (map_array uminus ?sin))
               \<lparr>shape = [?nd, ?C, ?X], data = slice0 sg1 1\<rparr> = Inr v1"
    and e10: "assign0 sg1 1 v1 = Inr sg2"
    and s2: "shape sg2 = [?nd, ?nd, ?C, ?X]" and l2: "length (data sg2) = ?nd * (?nd * (?C * ?X))"
    using scale_slice_ok[of sg1 ?nd ?nd "[?C, ?X]" 1 "new_axis_first (map_array uminus ?sin)"]
      s1 l1 nd by (auto simp add: new_axis_first_def map_array_def)
  obtain v0 sg3 where e11: "index0 sg2 0 = Inr \<lparr>shape = [?nd, ?C, ?X], data = slice0 sg2 0\<rparr>"
    and e12: "bc_op (*) (new_axis_first ?cos)
               \<lparr>shape = [?nd, ?C, ?X], data = slice0 sg2 0\<rparr> = Inr v0"
    and e13: "assign0 sg2 0 v0 = Inr sg3"
    and s3: "shape sg3 = [?nd, ?nd, ?C, ?X]" and l3: "length (data sg3) = ?nd * (?nd * (?C * ?X))"
    using scale_slice_ok[of sg2 ?nd ?nd "[?C, ?X]" 0 "new_axis_first ?cos"]
      s2 l2 nd by (auto simp add: new_axis_first_def)
  obtain aux where e14: "jacobian_product 2 sg3 dW = Inr aux"
    and sa: "shape aux = [?nd, ?nd, ?C, ?X, P]"
    and la: "length (data aux) = ?nd * (?nd * (?C * (?X * P)))"
    using jacobian_product_eq[where g = sg3 and mid = "[?nd, ?C]" and k = 2 and dW = dW
        and D = ?nd and X = ?X and P = P] s3 dW by auto
  let ?aux2 = "\<lparr>shape = [?nd * ?nd, ?C, ?X, P], data = data aux\<rparr>"
  have e15: "np_reshape aux (None # map Some (drop 2 (shape aux))) = Inr ?aux2"
    using np_reshape_infer[where pre = "[]" and post = "[?C, ?X, P]" and x = "?nd * ?nd"
        and A = aux] sa la C hw(2) dW(2)
    by (simp add: mult.assoc)
  let ?s = "\<lparr>shape = [?C, ?X, P],
             data = foldl vadd (replicate (prod_list [?C, ?X, P]) 0)
                      (map (slice0 ?aux2) [0..<?nd * ?nd])\<rparr>"
  have e16: "sum_slices ?aux2 = Inr ?s"
    using sum_slices_eq[of ?aux2 "?nd * ?nd" "[?C, ?X, P]"] nd by simp
  have ls: "length (data ?s) = ?C * ?X * P"
    using length_sum_slices[of ?aux2 "?nd * ?nd" "[?C, ?X, P]"] la by (simp add: mult.assoc)
  have e17: "shape_at ?s 2 = Inr P" by (simp add: shape_at_def)
  have e18: "as_matrix ?s P = Inr \<lparr>nrows = ?C * ?X, ncols = P, elems = data ?s\<rparr>"
    using as_matrix_eq[of ?s "?C * ?X" P] ls dW(2) by simp
  show ?thesis
    unfolding GradientCorrelation_steepest_descent_images_def Let_def hw(1)
      list.case prod.case bind_err_simps e1 e2 e3 e4 e5 e6 e7 e8 e9 e10 e11 e12 e13 e14 e15 e16
      e17 e18
    by simp
qed

lemma igo_qp_eq:
  assumes "length ct = C * X" "length sn = C * X" "length phi = C * X"
  shows "igo_qp \<lparr>shape = [C, X], data = ct\<rparr> \<lparr>shape = [C, X], data = sn\<rparr>
           (map_array cos \<lparr>shape = [C, X], data = phi\<rparr>)
           (map_array sin \<lparr>shape = [C, X], data = phi\<rparr>)
         = Inr (igo_correlation ct sn phi)"
proof -
  let ?sh = "[C, X]"
  have cc: "bc_op (*) \<lparr>shape = ?sh, data = ct\<rparr> (map_array cos \<lparr>shape = ?sh, data = phi\<rparr>)
              = Inr \<lparr>shape = ?sh, data = map2 (*) ct (map cos phi)\<rparr>"
    using bc_op_same_shape[of "\<lparr>shape = ?sh, data = ct\<rparr>" "map_array cos \<lparr>shape = ?sh, data = phi\<rparr>" "(*)"]
      assms by (simp add: map_array_def)
  have ss: "bc_op (*) \<lparr>shape = ?sh, data = sn\<rparr> (map_array sin \<lparr>shape = ?sh, data = phi\<rparr>)
              = Inr \<lparr>shape = ?sh, data = map2 (*) sn (map sin phi)\<rparr>"
    using bc_op_same_shape[of "\<lparr>shape = ?sh, data = sn\<rparr>" "map_array sin \<lparr>shape = ?sh, data = phi\<rparr>" "(*)"]
      assms by (simp add: map_array_def)
  have q: "bc_op (+) \<lparr>shape = ?sh, data = map2 (*) ct (map cos phi)\<rparr>
                     \<lparr>shape = ?sh, data = map2 (*) sn (map sin phi)\<rparr>
             = Inr \<lparr>shape = ?sh, data = map2 (+) (map2 (*) ct (map cos phi))
                                                    (map2 (*) sn (map sin phi))\<rparr>"
    using bc_op_same_shape[of "\<lparr>shape = ?sh, data = map2 (*) ct (map cos phi)\<rparr>"
        "\<lparr>shape = ?sh, data = map2 (*) sn (map sin phi)\<rparr>" "(+)"] assms by simp
  have "map2 (+) (map2 (*) ct (map cos phi)) (map2 (*) sn (map sin phi))
          = map (\<lambda>n. ct ! n * cos (phi ! n) + sn ! n * sin (phi ! n)) [0..<length phi]"
    using assms by (intro nth_equalityI) simp_all
  then show ?thesis
    unfolding igo_qp_def cc ss q bind_err_simps by (simp add: igo_correlation_def)
qed

lemma GradientCorrelation_update_eq:
  assumes "cos_phi st = Some \<lparr>shape = [C, X], data = ct\<rparr>"
    "sin_phi st = Some \<lparr>shape = [C, X], data = sn\<rparr>" "self_N st = Some N"
    "length ct = C * X" "length sn = C * X" "nrows sdi = C * X"
    "warped_phi M IWxp = Inr \<lparr>shape = [C, X], data = phi\<rparr>" "length phi = C * X"
  shows "GradientCorrelation_steepest_descent_update M st sdi IWxp template
           = (if igo_correlation ct sn phi = 0 then Inl NonFinite
              else Inr (st\<lparr>error_img := Some (RealVec (igo_error_vec ct sn phi))\<rparr>,
                        map (\<lambda>x. real N / igo_correlation ct sn phi * x)
                          (T_dot_vec sdi (igo_error_vec ct sn phi))))"
proof -
  let ?sh = "[C, X]"
  let ?cw = "map_array cos \<lparr>shape = ?sh, data = phi\<rparr>"
  let ?sw = "map_array sin \<lparr>shape = ?sh, data = phi\<rparr>"
  have cs: "bc_op (*) \<lparr>shape = ?sh, data = ct\<rparr> ?sw
              = Inr \<lparr>shape = ?sh, data = map2 (*) ct (map sin phi)\<rparr>"
    using bc_op_same_shape[of "\<lparr>shape = ?sh, data = ct\<rparr>" ?sw "(*)"]
      assms by (simp add: map_array_def)
  have sc: "bc_op (*) \<lparr>shape = ?sh, data = sn\<rparr> ?cw
              = Inr \<lparr>shape = ?sh, data = map2 (*) sn (map cos phi)\<rparr>"
    using bc_op_same_shape[of "\<lparr>shape = ?sh, data = sn\<rparr>" ?cw "(*)"]
      assms by (simp add: map_array_def)
  have d: "map2 (-) (map2 (*) ct (map sin phi)) (map2 (*) sn (map cos phi))
             = igo_error_vec ct sn phi"
    unfolding igo_error_vec_def using assms by (intro nth_equalityI) simp_all
  have e: "bc_op (-) \<lparr>shape = ?sh, data = map2 (*) ct (map sin phi)\<rparr>
                     \<lparr>shape = ?sh, data = map2 (*) sn (map cos phi)\<rparr>
             = Inr \<lparr>shape = ?sh, data = igo_error_vec ct sn phi\<rparr>"
    using bc_op_same_shape[of "\<lparr>shape = ?sh, data = map2 (*) ct (map sin phi)\<rparr>"
        "\<lparr>shape = ?sh, data = map2 (*) sn (map cos phi)\<rparr>" "(-)"] assms d by simp
  have le: "length (igo_error_vec ct sn phi) = C * X"
    by (simp add: igo_error_vec_def assms)
  have u: "np_dot_vec (np_T sdi) (flatten \<lparr>shape = ?sh, data = igo_error_vec ct sn phi\<rparr>)
             = Inr (T_dot_vec sdi (igo_error_vec ct sn phi))"
    using np_dot_vec_T[of sdi "igo_error_vec ct sn phi"] le assms(6) by (simp add: flatten_def)
  show ?thesis
    unfolding GradientCorrelation_steepest_descent_update_def assms(7) bind_err_simps Let_def
      assms(1,2,3) attr_def option.case cs sc e u igo_qp_eq[OF assms(4,5,8)]
    by (simp add: fdiv_def flatten_def)
qed

lemma igo_equal_angles:
  assumes "ct = map cos phi" "sn = map sin phi"
  shows "igo_error_vec ct sn phi = replicate (length phi) 0"
    and "igo_correlation ct sn phi = real (length phi)"
proof -
  show "igo_error_vec ct sn phi = replicate (length phi) 0"
    unfolding igo_error_vec_def assms by (intro nth_equalityI) simp_all
  have "map (\<lambda>n. ct ! n * cos (phi ! n) + sn ! n * sin (phi ! n)) [0..<length phi]
          = map (\<lambda>n. 1) [0..<length phi]"
    unfolding assms by (intro map_cong refl) (simp add: sin_cos_squared_add3)
  then have "igo_correlation ct sn phi = sum_list (map (\<lambda>n. 1) [0..<length phi])"
    unfolding igo_correlation_def by (rule arg_cong)
  then show "igo_correlation ct sn phi = real (length phi)"
    by (simp add: sum_list_triv)
qed


lemma np_angle_zero: "np_angle 0 0 = 0"
  by (simp add: np_angle_def)

lemma igo_angles_zero: "igo_angles (replicate (2 * m) 0) m = replicate m 0"
  unfolding igo_angles_def by (intro nth_equalityI) (simp_all add: np_angle_zero)


subsection \<open>GradientImages\<close>

lemma GradientImages_sdi_eq:
  fixes M :: "('i, 'm, 't) menpo"
  assumes nd: "2 \<le> n_dims M img" and C: "0 < n_channels M img"
    and reg: "regularise_gradients M (calculate_gradients M img fwd) = Inr tg"
    and sg: "length (data (pixels M (calculate_gradients M tg None)))
               = n_dims M img * n_dims M img * n_channels M img * X"
    and dW: "shape dW = [n_dims M img, X, P]" "0 < P"
  shows "\<exists>sdi. GradientImages_steepest_descent_images M st img dW fwd
            = Inr (st\<lparr>template_grad := Some tg\<rparr>, sdi)
          \<and> nrows sdi = n_dims M img * n_channels M img * X \<and> ncols sdi = P"
proof -
  let ?nd = "n_dims M img" and ?C = "n_channels M img"
  let ?sg0 = "\<lparr>shape = [?nd, ?nd, ?C, X], data = data (pixels M (calculate_gradients M tg None))\<rparr>"
  have e1: "np_reshape (pixels M (calculate_gradients M tg None))
              [Some ?nd, Some ?nd, Some ?C, None] = Inr ?sg0"
    using np_reshape_infer[where pre = "[?nd, ?nd, ?C]" and post = "[]" and x = X
        and A = "pixels M (calculate_gradients M tg None)"] sg nd C
    by (simp add: mult.commute mult.left_commute)
  obtain sg1 where e2: "fix_crossed ?sg0 = Inr sg1" and s1: "shape sg1 = [?nd, ?nd, ?C, X]"
    and l1: "length (data sg1) = ?nd * (?nd * (?C * X))"
    using fix_crossed_ok[of ?sg0 ?nd ?nd "[?C, X]"] nd sg by (auto simp add: mult.assoc)
  obtain a where e3: "jacobian_product 2 sg1 dW = Inr a"
    and sa: "shape a = [?nd, ?nd, ?C, X, P]"
    and la: "length (data a) = ?nd * (?nd * (?C * (X * P)))"
    using jacobian_product_eq[where g = sg1 and mid = "[?nd, ?C]" and k = 2 and dW = dW
        and D = ?nd and X = X and P = P] s1 dW by auto
  let ?s = "\<lparr>shape = [?nd, ?C, X, P],
             data = foldl vadd (replicate (prod_list [?nd, ?C, X, P]) 0)
                      (map (slice0 a) [0..<?nd])\<rparr>"
  have e4: "sum_slices a = Inr ?s"
    using sum_slices_eq[of a ?nd "[?nd, ?C, X, P]"] sa nd by simp
  have ls: "length (data ?s) = ?nd * ?C * X * P"
    using length_sum_slices[of a ?nd "[?nd, ?C, X, P]"] sa la by (simp add: mult.assoc)
  have e5: "shape_at ?s 3 = Inr P" by (simp add: shape_at_def)
  have e6: "as_matrix ?s P = Inr \<lparr>nrows = ?nd * ?C * X, ncols = P, elems = data ?s\<rparr>"
    using as_matrix_eq[of ?s "?nd * ?C * X" P] ls dW(2) by simp
  show ?thesis
    unfolding GradientImages_steepest_descent_images_def Let_def reg bind_err_simps
      e1 e2 e3 e4 e5 e6
    by simp
qed

lemma sort_replicate: "sort (replicate n (x::real)) = replicate n x"
  by (simp add: sorted_sort_id)

lemma np_median_zero:
  assumes "0 < n"
  shows "np_median (replicate n 0) = Inr 0"
proof -
  have "n div 2 < n" "n div 2 - 1 < n" using assms by simp_all
  then show ?thesis
    unfolding np_median_def sort_replicate Let_def using assms by simp
qed

lemma concat_replicate_replicate: "concat (replicate n (replicate m c)) = replicate (n * m) c"
  by (induction n) (simp_all add: replicate_add)

lemma table_const: "table n m (\<lambda>i j. c) = replicate (n * m) c"
  by (simp add: table_def map_replicate_const concat_replicate_replicate)

lemma regularise_zero_gradient:
  assumes "pixels M grad = \<lparr>shape = K # sh, data = replicate (K * prod_list sh) 0\<rparr>"
    "0 < K" "0 < prod_list sh"
  shows "regularise_gradients M grad = Inl NonFinite"
proof -
  let ?px = "\<lparr>shape = K # sh, data = replicate (K * prod_list sh) (0::real)\<rparr>"
  let ?z = "\<lparr>shape = sh, data = replicate (prod_list sh) (0::real)\<rparr>"
  have inner: "sum_list (map (\<lambda>j. data (map_array (\<lambda>x. x\<^sup>2) ?px) ! ((p * K + j) * prod_list sh + q))
                 [0..<K]) = 0" if "p < 1" "q < prod_list sh" for p q
  proof (rule sum_list_map_zero)
    fix j assume "j \<in> set [0..<K]"
    then have "j < K" by simp
    then have "Suc j * prod_list sh \<le> K * prod_list sh" by (intro mult_le_mono1) simp
    then have "j * prod_list sh + q < K * prod_list sh" using that(2) by simp
    then show "data (map_array (\<lambda>x. x\<^sup>2) ?px) ! ((p * K + j) * prod_list sh + q) = 0"
      using that(1) by (simp add: map_array_def)
  qed
  have "table 1 (prod_list sh)
          (\<lambda>p q. sum_list (map (\<lambda>j. data (map_array (\<lambda>x. x\<^sup>2) ?px) ! ((p * K + j) * prod_list sh + q))
                 [0..<K]))
        = table 1 (prod_list sh) (\<lambda>p q. 0)"
    by (rule table_cong) (rule inner, assumption+)
  then have s: "np_sum_axis 0 (map_array (\<lambda>x. x\<^sup>2) ?px) = Inr ?z"
    by (simp add: np_sum_axis_def map_array_def table_const)
  have m: "np_median (data (map_array sqrt ?z)) = Inr 0"
    using np_median_zero[OF assms(3)] by (simp add: map_array_def)
  have ab: "map_array (\<lambda>x. x + 0) (map_array sqrt ?z) = ?z"
    by (simp add: map_array_def)
  have dims: "bc_dims (K # sh) (1 # sh) = Some (K # sh)" by (simp add: bc_dims_same)
  have d: "bc_div ?px ?z = Inl NonFinite"
    using assms(2,3) by (simp add: bc_div_def bc_op_def pad_shape_def Let_def bc_dims_same)
  show ?thesis
    unfolding regularise_gradients_def Let_def assms(1) s bind_err_simps m ab d ..
qed


subsection \<open>GaborFourier\<close>

lemma table_eq_map: "table n m f = map (\<lambda>x. f (x div m) (x mod m)) [0..<n * m]"
proof (rule nth_equalityI)
  show "length (table n m f) = length (map (\<lambda>x. f (x div m) (x mod m)) [0..<n * m])" by simp
next
  fix x assume "x < length (table n m f)"
  then have x: "x < n * m" by simp
  then have m: "0 < m" by (cases "m = 0") simp_all
  have d: "x div m < n" using x m by (simp add: less_mult_imp_div_less)
  have "table n m f ! (x div m * m + x mod m) = f (x div m) (x mod m)"
    using d m by (intro table_nth) simp_all
  then show "table n m f ! x = map (\<lambda>x. f (x div m) (x mod m)) [0..<n * m] ! x"
    using x by simp
qed

lemma bc_offset_mid: "bc_offset [Suc 0, F, Suc 0] [K, F, P] n = (n mod (F * P)) div P"
  by (simp add: bc_offset.simps)

lemma bc_offset_col: "n < F * C \<Longrightarrow> bc_offset [F, Suc 0] [F, C] n = n div C"
  by (auto simp add: bc_offset.simps)

lemma mod_mult_div: "(n mod (F * P)) div P = (n div P) mod (F::nat)"
proof (cases "P = 0")
  case True
  then show ?thesis by simp
next
  case False
  have "n mod (P * F) = P * (n div P mod F) + n mod P" by (rule mod_mult2_eq)
  then have "(n mod (P * F)) div P = (P * (n div P mod F) + n mod P) div P" by simp
  also have "\<dots> = n div P mod F" using False by simp
  finally show ?thesis by (simp add: mult.commute)
qed

lemma mat_index_less:
  assumes "k < n" "i < (p::nat)"
  shows "k * p + i < n * p"
proof -
  have "k * p + i < Suc k * p" using assms(2) by simp
  also have "\<dots> \<le> n * p" using assms(1) by (intro mult_le_mono1) simp
  finally show ?thesis .
qed

lemma np_dot_conj_T:
  assumes "length (elems A) = nrows A * ncols A"
  shows "np_dot (np_T (A\<lparr>elems := map cnj (elems A)\<rparr>)) A = Inr (hermitian_gram A)"
proof -
  let ?B = "A\<lparr>elems := map cnj (elems A)\<rparr>"
  have c: "mat_at ?B k i = cnj (mat_at A k i)" if "k < nrows A" "i < ncols A" for k i
    using mat_index_less[OF that] assms by (simp add: mat_at_def)
  have "mk_matrix (ncols A) (ncols A)
          (\<lambda>i j. sum_list (map (\<lambda>k. mat_at (np_T ?B) i k * mat_at A k j) [0..<nrows A]))
        = hermitian_gram A"
    unfolding hermitian_gram_def
  proof (rule mk_matrix_cong, rule arg_cong[where f = sum_list], rule map_cong)
    fix i j k assume "i < ncols A" "j < ncols A" "k \<in> set [0..<nrows A]"
    then show "mat_at (np_T ?B) i k * mat_at A k j = cnj (mat_at A k i) * mat_at A k j"
      using mat_at_np_T[of i ?B k] c[of k i] by simp
  qed simp
  then show ?thesis by (simp add: np_dot_def)
qed

lemma GaborFourier_hessian_eq:
  assumes fb: "filter_bank st = Some fb" "\<forall>x \<in> set fb. 0 \<le> x" "fb \<noteq> []"
    and sz: "nrows sdi = K * length fb" "length (elems sdi) = nrows sdi * ncols sdi"
      "0 < ncols sdi"
  shows "GaborFourier_calculate_hessian st sdi
           = Inr (hermitian_gram (scale_rows (\<lambda>k. sqrt (fb ! (k mod length fb))) sdi))"
proof -
  let ?F = "length fb" and ?P = "ncols sdi" and ?N = "nrows sdi"
  let ?w = "\<lambda>k. sqrt (fb ! (k mod ?F))"
  let ?s3 = "\<lparr>shape = [K, ?F, ?P], data = elems sdi\<rparr>"
  have F: "0 < ?F" using fb(3) by simp
  have e1: "np_reshape (of_matrix sdi) [None, Some ?F, Some ?P] = Inr ?s3"
    using np_reshape_infer[where pre = "[]" and post = "[?F, ?P]" and x = K and A = "of_matrix sdi"]
      sz F by (simp add: of_matrix_def mult.assoc)
  have e2: "(if \<exists>x \<in> set fb. x < 0 then Inl NonFinite else Inr (map sqrt fb)) = Inr (map sqrt fb)"
    using fb(2) by (auto simp add: not_less)
  let ?W = "\<lparr>shape = [1, ?F, 1], data = map complex_of_real (map sqrt fb)\<rparr>"
  have dims: "bc_dims [1, ?F, 1] [K, ?F, ?P] = Some [K, ?F, ?P]" by simp
  have vals: "map (\<lambda>n. data ?W ! bc_offset [1, ?F, 1] [K, ?F, ?P] n
                        * data ?s3 ! bc_offset [K, ?F, ?P] [K, ?F, ?P] n) [0..<prod_list [K, ?F, ?P]]
              = elems (scale_rows ?w sdi)"
  proof (rule nth_equalityI)
    show "length (map (\<lambda>n. data ?W ! bc_offset [1, ?F, 1] [K, ?F, ?P] n
                        * data ?s3 ! bc_offset [K, ?F, ?P] [K, ?F, ?P] n) [0..<prod_list [K, ?F, ?P]])
            = length (elems (scale_rows ?w sdi))"
      using sz by (simp add: scale_rows_def mk_matrix_def mult.assoc)
  next
    fix n assume "n < length (map (\<lambda>n. data ?W ! bc_offset [1, ?F, 1] [K, ?F, ?P] n
                        * data ?s3 ! bc_offset [K, ?F, ?P] [K, ?F, ?P] n) [0..<prod_list [K, ?F, ?P]])"
    then have n: "n < K * (?F * ?P)" by simp
    then have n': "n < ?N * ?P" using sz(1) by (simp add: mult.assoc)
    have same: "bc_offset [K, ?F, ?P] [K, ?F, ?P] n = n"
      using bc_offset_same[of n "[K, ?F, ?P]"] n by simp
    have m: "n div ?P mod ?F < ?F" using F by simp
    have "elems (scale_rows ?w sdi) ! n
            = complex_of_real (?w (n div ?P)) * mat_at sdi (n div ?P) (n mod ?P)"
      using n' by (simp add: scale_rows_def mk_matrix_def table_eq_map)
    also have "\<dots> = complex_of_real (?w (n div ?P)) * elems sdi ! n"
      by (simp add: mat_at_def)
    finally show "map (\<lambda>n. data ?W ! bc_offset [1, ?F, 1] [K, ?F, ?P] n
                        * data ?s3 ! bc_offset [K, ?F, ?P] [K, ?F, ?P] n) [0..<prod_list [K, ?F, ?P]] ! n
            = elems (scale_rows ?w sdi) ! n"
      using n m by (simp add: same bc_offset_mid mod_mult_div)
  qed
  have e3: "bc_op (*) ?W ?s3 = Inr \<lparr>shape = [K, ?F, ?P], data = elems (scale_rows ?w sdi)\<rparr>"
    using bc_op_same_rank[of ?W ?s3 "[K, ?F, ?P]" "(*)"] dims vals by simp
  have l: "length (elems (scale_rows ?w sdi)) = ?N * ?P"
    by (simp add: scale_rows_def mk_matrix_def)
  have e4: "as_matrix \<lparr>shape = [K, ?F, ?P], data = elems (scale_rows ?w sdi)\<rparr> (last (shape ?s3))
              = Inr (scale_rows ?w sdi)"
    using as_matrix_eq[of "\<lparr>shape = [K, ?F, ?P], data = elems (scale_rows ?w sdi)\<rparr>" ?N ?P]
      l sz(3) by (simp add: scale_rows_def mk_matrix_def)
  have e5: "np_dot (np_T (scale_rows ?w sdi\<lparr>elems := map cnj (elems (scale_rows ?w sdi))\<rparr>))
              (scale_rows ?w sdi) = Inr (hermitian_gram (scale_rows ?w sdi))"
    by (rule np_dot_conj_T) (simp add: scale_rows_def mk_matrix_def)
  show ?thesis
    unfolding GaborFourier_calculate_hessian_def fb(1) attr_def option.case bind_err_simps
      e1 e2 e3 e4 e5 ..
qed

lemma np_fftn_shift_ok:
  assumes "k \<le> length (shape A)" "0 \<notin> set (take k (shape A))"
  shows "\<exists>R. np_fftn_shift A k = Inr R \<and> shape R = shape A
           \<and> length (data R) = prod_list (shape A)
           \<and> (data A = replicate (prod_list (shape A)) 0
                \<longrightarrow> data R = replicate (prod_list (shape A)) 0)"
proof -
  let ?n = "prod_list (take k (shape A))" and ?R = "prod_list (drop k (shape A))"
  have split: "?n * ?R = prod_list (shape A)"
    using prod_list.append[of "take k (shape A)" "drop k (shape A)"] by simp
  have zero: "table ?n ?R
                (\<lambda>u r. sum_list (map (\<lambda>m. complex_of_real (data A ! (m * ?R + r))
                                          * cis (- 2 * pi * dft_phase (take k (shape A)) u m)) [0..<?n]))
              = replicate (prod_list (shape A)) 0"
    if z: "data A = replicate (prod_list (shape A)) 0"
  proof -
    have "sum_list (map (\<lambda>m. complex_of_real (data A ! (m * ?R + r))
                                * cis (- 2 * pi * dft_phase (take k (shape A)) u m)) [0..<?n]) = 0"
      if "r < ?R" for u r
    proof (rule sum_list_map_zero)
      fix m assume "m \<in> set [0..<?n]"
      then have "m * ?R + r < ?n * ?R" using that by (intro mat_index_less) simp_all
      then show "complex_of_real (data A ! (m * ?R + r))
                   * cis (- 2 * pi * dft_phase (take k (shape A)) u m) = 0"
        by (simp add: z split)
    qed
    then have "table ?n ?R
                (\<lambda>u r. sum_list (map (\<lambda>m. complex_of_real (data A ! (m * ?R + r))
                                          * cis (- 2 * pi * dft_phase (take k (shape A)) u m)) [0..<?n]))
               = table ?n ?R (\<lambda>u r. 0)"
      by (intro table_cong) simp
    then show ?thesis by (simp add: table_const split)
  qed
  show ?thesis
    using assms zero by (simp add: np_fftn_shift_def Let_def split)
qed

lemma GaborFourier_update_eq:
  assumes px: "pixels M IWxp = \<lparr>shape = ps, data = a\<rparr>" "pixels M template = \<lparr>shape = ps, data = b\<rparr>"
      "length a = prod_list ps" "length b = prod_list ps"
    and fft: "np_fftn_shift \<lparr>shape = ps, data = map2 (-) a b\<rparr> (n_dims M IWxp) = Inr Fh"
      "length (data Fh) = F * n_channels M IWxp" "0 < n_channels M IWxp"
    and fb: "filter_bank st = Some fb" "length fb = F"
    and sdi: "nrows sdi = F * n_channels M IWxp"
  shows "GaborFourier_steepest_descent_update M st sdi IWxp template
           = Inr (st\<lparr>error_img := Some (ComplexVec
                      (map (\<lambda>n. complex_of_real (fb ! (n div n_channels M IWxp)) * data Fh ! n)
                         [0..<F * n_channels M IWxp]))\<rparr>,
                  T_dot_vec sdi (map cnj
                      (map (\<lambda>n. complex_of_real (fb ! (n div n_channels M IWxp)) * data Fh ! n)
                         [0..<F * n_channels M IWxp])))"
proof -
  let ?C = "n_channels M IWxp"
  let ?e = "map (\<lambda>n. complex_of_real (fb ! (n div ?C)) * data Fh ! n) [0..<F * ?C]"
  have e1: "bc_op (-) \<lparr>shape = ps, data = a\<rparr> \<lparr>shape = ps, data = b\<rparr>
              = Inr \<lparr>shape = ps, data = map2 (-) a b\<rparr>"
    using bc_op_same_shape[of "\<lparr>shape = ps, data = a\<rparr>" "\<lparr>shape = ps, data = b\<rparr>" "(-)"] px(3,4)
    by simp
  have e2: "np_reshape Fh [None, Some ?C] = Inr \<lparr>shape = [F, ?C], data = data Fh\<rparr>"
    using np_reshape_infer[where pre = "[]" and post = "[?C]" and x = F and A = Fh] fft(2,3)
    by simp
  let ?W = "\<lparr>shape = [F, 1], data = map complex_of_real fb\<rparr>"
  let ?G = "\<lparr>shape = [F, ?C], data = data Fh\<rparr>"
  have dims: "bc_dims [F, 1] [F, ?C] = Some [F, ?C]" by simp
  have vals: "map (\<lambda>n. data ?W ! bc_offset [F, 1] [F, ?C] n * data ?G ! bc_offset [F, ?C] [F, ?C] n)
                [0..<prod_list [F, ?C]] = ?e"
  proof (rule map_cong)
    fix n assume "n \<in> set [0..<F * ?C]"
    then have n: "n < F * ?C" by simp
    then have d: "n div ?C < F" using fft(3) by (simp add: less_mult_imp_div_less)
    have same: "bc_offset [F, ?C] [F, ?C] n = n"
      using bc_offset_same[of n "[F, ?C]"] n by simp
    show "data ?W ! bc_offset [F, 1] [F, ?C] n * data ?G ! bc_offset [F, ?C] [F, ?C] n
            = complex_of_real (fb ! (n div ?C)) * data Fh ! n"
      using n d fb(2) by (simp add: same bc_offset_col)
  qed simp
  have e3: "bc_op (*) ?W ?G = Inr \<lparr>shape = [F, ?C], data = ?e\<rparr>"
    using bc_op_same_rank[of ?W ?G "[F, ?C]" "(*)"] dims vals by simp
  have e4: "np_dot_vec (np_T sdi) (map cnj (flatten \<lparr>shape = [F, ?C], data = ?e\<rparr>))
              = Inr (T_dot_vec sdi (map cnj ?e))"
    using np_dot_vec_T[of sdi "map cnj ?e"] sdi by (simp add: flatten_def)
  show ?thesis
    unfolding GaborFourier_steepest_descent_update_def px(1,2) e1 bind_err_simps fft(1) e2
      fb(1) attr_def option.case fb(2) e3 Let_def e4
    by (simp add: flatten_def)
qed

lemma bc_op_zero_left:
  fixes A B :: "real ndarray"
  assumes "bc_op (*) A B = Inr R" "length (data A) = prod_list (shape A)"
    "\<forall>x \<in> set (data A). x = 0"
  shows "data R = replicate (prod_list (shape R)) 0"
proof -
  let ?r = "max (length (shape A)) (length (shape B))"
  let ?sa = "pad_shape ?r (shape A)"
  obtain sh where sh: "bc_dims ?sa (pad_shape ?r (shape B)) = Some sh"
    and R: "R = \<lparr>shape = sh,
                 data = map (\<lambda>n. data A ! bc_offset ?sa sh n
                                 * data B ! bc_offset (pad_shape ?r (shape B)) sh n)
                          [0..<prod_list sh]\<rparr>"
    using assms(1) by (auto simp add: bc_op_def Let_def split: option.splits)
  have fits: "bc_fits ?sa sh" using bc_dims_fits[OF sh] by simp
  have "data A ! bc_offset ?sa sh n = 0" if "n < prod_list sh" for n
  proof -
    have "bc_offset ?sa sh n < length (data A)"
      using bc_offset_less[OF fits that] assms(2) by simp
    then show ?thesis using assms(3) by (simp add: nth_mem)
  qed
  then have "map (\<lambda>n. data A ! bc_offset ?sa sh n
                      * data B ! bc_offset (pad_shape ?r (shape B)) sh n) [0..<prod_list sh]
             = replicate (prod_list sh) 0"
    by (intro nth_equalityI) simp_all
  then show ?thesis by (simp add: R)
qed

lemma GaborFourier_sdi_eq:
  fixes M :: "('i, 'm, 't) menpo"
  assumes nd: "0 < n_dims M img" and C: "0 < n_channels M img"
    and gr: "length (data (as_vector_keep_channels M (calculate_gradients M img fwd)))
               = X * (n_channels M img * n_dims M img)"
    and dW: "shape dW = [X, P, n_dims M img]" "0 < P" "length (data dW) = X * (P * n_dims M img)"
    and blank: "\<And>v. length v = X * (n_channels M img * P) \<Longrightarrow>
        \<exists>b. blank_from_vector M (img_shape M (calculate_gradients M img fwd))
               (n_channels M img * P) (img_mask M (calculate_gradients M img fwd)) v = Inr b
             \<and> shape (pixels M b) = ps \<and> length (data (pixels M b)) = prod_list ps
             \<and> (Z \<and> v = replicate (X * (n_channels M img * P)) 0
                  \<longrightarrow> data (pixels M b) = replicate (prod_list ps) 0)"
    and ps: "n_dims M img \<le> length ps" "0 \<notin> set (take (n_dims M img) ps)"
      "prod_list ps = S * P"
  shows "\<exists>sdi. GaborFourier_steepest_descent_images M img dW fwd = Inr sdi
          \<and> nrows sdi = S \<and> ncols sdi = P \<and> length (elems sdi) = S * P
          \<and> (Z \<and> (\<forall>x \<in> set (data dW). x = 0) \<longrightarrow> elems sdi = replicate (S * P) 0)"
proof -
  let ?nd = "n_dims M img" and ?C = "n_channels M img"
  let ?gi = "calculate_gradients M img fwd"
  let ?g = "\<lparr>shape = [X, ?C, ?nd], data = data (as_vector_keep_channels M ?gi)\<rparr>"
  have e1: "np_reshape (as_vector_keep_channels M ?gi) [None, Some ?C, Some ?nd] = Inr ?g"
    using np_reshape_infer[where pre = "[]" and post = "[?C, ?nd]" and x = X
        and A = "as_vector_keep_channels M ?gi"] gr nd C by simp
  let ?w = "dW\<lparr>shape := [X, 1, P, ?nd]\<rparr>"
  have e2: "(if length (shape dW) < 3 then Inl IndexError else new_axes_after_first 1 dW) = Inr ?w"
    using dW(1) by (simp add: new_axes_after_first_def)
  let ?g' = "?g\<lparr>shape := take 2 (shape ?g) @ 1 # drop 2 (shape ?g)\<rparr>"
  have dims: "bc_dims (shape ?w) (shape ?g') = Some [X, ?C, P, ?nd]" by simp
  obtain pr where e3: "bc_op (*) ?w ?g' = Inr pr" and spr: "shape pr = [X, ?C, P, ?nd]"
    and lpr: "length (data pr) = X * (?C * (P * ?nd))"
    using bc_op_same_rank[of ?w ?g' "[X, ?C, P, ?nd]" "(*)"] dims by simp
  let ?sum = "\<lparr>shape = [X, ?C, P],
               data = table (X * (?C * P)) 1
                 (\<lambda>p q. sum_list (map (\<lambda>j. data pr ! ((p * ?nd + j) * 1 + q)) [0..<?nd]))\<rparr>"
  have e4: "np_sum_axis 3 pr = Inr ?sum"
    using spr by (simp add: np_sum_axis_def Let_def)
  have lsum: "length (flatten ?sum) = X * (?C * P)" by (simp add: flatten_def)
  obtain b where e5: "blank_from_vector M (img_shape M ?gi) (?C * (shape dW ! 1)) (img_mask M ?gi)
                        (flatten ?sum) = Inr b"
    and sb: "shape (pixels M b) = ps" and lb: "length (data (pixels M b)) = prod_list ps"
    and zb: "Z \<Longrightarrow> flatten ?sum = replicate (X * (?C * P)) 0
               \<Longrightarrow> data (pixels M b) = replicate (prod_list ps) 0"
    using blank[OF lsum] dW(1) by auto
  obtain R where e6: "np_fftn_shift (pixels M b) ?nd = Inr R"
    and lR: "length (data R) = S * P"
    and zR: "data (pixels M b) = replicate (prod_list ps) 0 \<Longrightarrow> data R = replicate (S * P) 0"
    using np_fftn_shift_ok[of ?nd "pixels M b"] sb ps by auto
  have e7: "as_matrix R (shape dW ! 1) = Inr \<lparr>nrows = S, ncols = P, elems = data R\<rparr>"
    using as_matrix_eq[of R S P] lR dW(1,2) by simp
  have z: "data R = replicate (S * P) 0" if "\<forall>x \<in> set (data dW). x = 0" and Z
  proof -
    have "data pr = replicate (prod_list (shape pr)) 0"
      using bc_op_zero_left[OF e3] that dW(3) by simp
    then have dpr: "data pr = replicate (X * (?C * (P * ?nd))) 0" using spr by simp
    have "sum_list (map (\<lambda>j. data pr ! ((p * ?nd + j) * 1 + q)) [0..<?nd]) = 0"
      if "p < X * (?C * P)" "q < 1" for p q
    proof (rule sum_list_map_zero)
      fix j assume "j \<in> set [0..<?nd]"
      then have "p * ?nd + j < (X * (?C * P)) * ?nd" using that(1) by (intro mat_index_less) simp_all
      then show "data pr ! ((p * ?nd + j) * 1 + q) = 0"
        using that(2) by (simp add: dpr mult.assoc)
    qed
    then have "table (X * (?C * P)) 1
                 (\<lambda>p q. sum_list (map (\<lambda>j. data pr ! ((p * ?nd + j) * 1 + q)) [0..<?nd]))
               = table (X * (?C * P)) 1 (\<lambda>p q. 0)"
      by (intro table_cong) simp
    then have "flatten ?sum = replicate (X * (?C * P)) 0"
      by (simp add: flatten_def table_const)
    then show ?thesis using zb zR \<open>Z\<close> by simp
  qed
  show ?thesis
    unfolding GaborFourier_steepest_descent_images_def Let_def e1 bind_err_simps e2 e3 e4 e5 e6 e7
    using lR z by simp
qed


subsection \<open>Every update caches an error vector\<close>

lemma ECC_update_caches:
  assumes "ECC_steepest_descent_update M st sdi IWxp template = Inr (st', u)"
  shows "\<exists>E. error_img st' = Some (RealVec E)"
  using assms unfolding ECC_steepest_descent_update_def Let_def bind_err_eq_Inr by auto

lemma SSD_update_caches:
  assumes "SSD_steepest_descent_update M st sdi IWxp template = Inr (st', u)"
  shows "\<exists>E. error_img st' = Some (RealVec E)"
  using assms unfolding SSD_steepest_descent_update_def Let_def bind_err_eq_Inr by auto

lemma GradientImages_update_caches:
  assumes "GradientImages_steepest_descent_update M st sdi IWxp template = Inr (st', u)"
  shows "\<exists>E. error_img st' = Some (RealVec E)"
  using assms unfolding GradientImages_steepest_descent_update_def Let_def bind_err_eq_Inr by auto

lemma GradientCorrelation_update_caches:
  assumes "GradientCorrelation_steepest_descent_update M st sdi IWxp template = Inr (st', u)"
  shows "\<exists>E. error_img st' = Some (RealVec E)"
  using assms unfolding GradientCorrelation_steepest_descent_update_def Let_def bind_err_eq_Inr by auto

lemma GaborFourier_update_caches:
  assumes "GaborFourier_steepest_descent_update M st sdi IWxp template = Inr (st', u)"
  shows "\<exists>E. error_img st' = Some (ComplexVec E)"
  using assms unfolding GaborFourier_steepest_descent_update_def Let_def bind_err_eq_Inr by auto


lemma length_r_gradient:
  "length (r_pixels (r_gradient img)) = length (r_shape img) * length (r_pixels img)"
proof -
  have "length (concat (map (\<lambda>d. map (f d) [0..<m]) [0..<k])) = k * m" for f :: "nat \<Rightarrow> nat \<Rightarrow> real" and k m
    by (induction k) simp_all
  then show ?thesis by (simp add: r_gradient_def Let_def)
qed

lemma length_r_set_boundary_pixels [simp]:
  "length (r_pixels (r_set_boundary_pixels img)) = length (r_pixels img)"
  by (simp add: r_set_boundary_pixels_def)

lemma length_calculate_gradients_raster:
  "length (r_pixels (calculate_gradients raster_lib img fwd)) = length (r_shape img) * length (r_pixels img)"
  by (cases fwd) (auto simp add: calculate_gradients_def raster_lib_def length_r_gradient)

subsection \<open>Evaluating concrete inputs\<close>

lemma replicate_numeral: "replicate (numeral k) x = x # replicate (pred_numeral k) x"
  by (simp add: numeral_eq_Suc)

lemmas np_defs = np_reshape_def as_matrix_def of_vector_def of_matrix_def new_axis_last_def
  new_axis_first_def new_axes_after_first_def pad_shape_def bc_op_def bc_div_def map_array_def
  flatten_def slice0_def index0_def assign0_def vadd_def sum_slices_def np_sum_axis_def
  fix_crossed_def fdiv_def fsqrt_def np_mean_def np_median_def scipy_norm_def shape_at_def
  jacobian_product_def table_def mk_matrix_def mat_at_def np_T_def np_dot_def np_dot_vec_def
  vdot_def vsub_def attr_def quad_form_def

lemmas r_defs = raster_lib_def r_gradient_def r_coord_def r_on_border_def
  r_set_boundary_pixels_def r_normalize_norm_def calculate_gradients_def

lemmas ev = upt_rec Let_def bc_offset.simps numeral_2_eq_2[symmetric] replicate_numeral nth_append

section \<open>The claims\<close>

subsection \<open>C4: the filter bank given to GaborFourier\<close>

text \<open>
  C4. Constructing a GaborFourier residual with an explicitly supplied filter bank whose
  shape differs from the image shape fails in the constructor with the shape error
  (\<open>ValueError\<close>), so no instance exists on which anything could be computed; with a
  matching shape the constructor succeeds and the instance holds the flattened filter bank.
\<close>

theorem GaborFourier_init_filter_bank_shape:
  "(shape fb \<noteq> image_shape \<longrightarrow>
      GaborFourier_init log_gabor image_shape (Some fb) = Inl ValueError)
   \<and> (shape fb = image_shape \<longrightarrow>
      GaborFourier_init log_gabor image_shape (Some fb)
        = Inr (new_residual\<lparr>filter_bank := Some (flatten fb)\<rparr>))"
  by (simp add: GaborFourier_init_def)

theorem GaborFourier_init_filter_bank_shape_witness:
  "shape \<lparr>shape = [4, 4], data = replicate 16 (1::real)\<rparr> \<noteq> [8, 8]
   \<and> GaborFourier_init (\<lambda>sh. \<lparr>shape = sh, data = replicate (prod_list sh) 1\<rparr>) [8, 8]
         (Some \<lparr>shape = [4, 4], data = replicate 16 1\<rparr>) = (Inl ValueError :: error + unit residual)
   \<and> shape \<lparr>shape = [2, 2], data = [1, 2, 3, 4::real]\<rparr> = [2, 2]
   \<and> GaborFourier_init (\<lambda>sh. \<lparr>shape = sh, data = replicate (prod_list sh) 1\<rparr>) [2, 2]
         (Some \<lparr>shape = [2, 2], data = [1, 2, 3, 4]\<rparr>)
        = Inr ((new_residual :: unit residual)\<lparr>filter_bank := Some [1, 2, 3, 4]\<rparr>)"
  using GaborFourier_init_filter_bank_shape
          [of "\<lparr>shape = [4, 4], data = replicate 16 1\<rparr>" "[8, 8]"
              "\<lambda>sh. \<lparr>shape = sh, data = replicate (prod_list sh) 1\<rparr>"]
        GaborFourier_init_filter_bank_shape
          [of "\<lparr>shape = [2, 2], data = [1, 2, 3, 4]\<rparr>" "[2, 2]"
              "\<lambda>sh. \<lparr>shape = sh, data = replicate (prod_list sh) 1\<rparr>"]
  by (simp add: flatten_def)

subsection \<open>C3: the second argument of \<open>calculate_hessian\<close>\<close>

lemma cross_product_1x1:
  "cross_product \<lparr>nrows = Suc 0, ncols = Suc 0, elems = [a]\<rparr>
                 \<lparr>nrows = Suc 0, ncols = Suc 0, elems = [b]\<rparr>
     = \<lparr>nrows = Suc 0, ncols = Suc 0, elems = [a * b]\<rparr>"
  by (simp add: cross_product_def mk_matrix_def table_def mat_at_def)

lemma scipy_inv_1x1:
  "scipy_inv \<lparr>nrows = Suc 0, ncols = Suc 0, elems = [a]\<rparr>
     = (if a = 0 then Inl LinAlgError
        else Inr \<lparr>nrows = Suc 0, ncols = Suc 0, elems = [1 / a]\<rparr>)"
  by (simp add: scipy_inv_def mk_matrix_def table_def mat_at_def minor_at_def)

text \<open>
  C3 as stated fails: only \<open>SSD.calculate_hessian\<close> is defined with a second parameter.
  Called with a second steepest-descent matrix, the method of ECC (and of the three other
  classes) is a call with one argument too many.
\<close>

theorem calculate_hessian_second_sdi_counterexample:
  "call_with_optional (ECC_calculate_hessian (new_residual :: unit residual))
      \<lparr>nrows = 1, ncols = 1, elems = [2]\<rparr> (Some \<lparr>nrows = 1, ncols = 1, elems = [3::real]\<rparr>)
    = Inl TypeError
   \<and> cross_product \<lparr>nrows = 1, ncols = 1, elems = [2]\<rparr> \<lparr>nrows = 1, ncols = 1, elems = [3]\<rparr>
    = \<lparr>nrows = 1, ncols = 1, elems = [6]\<rparr>"
  by (simp add: call_with_optional_def cross_product_1x1)

text \<open>
  C3, amended. \<open>SSD.calculate_hessian\<close> accepts an optional second steepest-descent matrix
  and returns \<open>SDI\<^sup>T \<cdot> SDI2\<close> when it is given (a shape error when the row counts
  differ) and the Gram matrix \<open>SDI\<^sup>T \<cdot> SDI\<close> when it is not. The other four classes take
  exactly one matrix, a second one is a \<open>TypeError\<close>; with one matrix GradientImages and
  GradientCorrelation return the Gram matrix, and so does ECC when the Gram matrix has an
  inverse (which it caches), passing on the failure of the inversion otherwise.
\<close>

theorem calculate_hessian_second_sdi:
  "(nrows J = nrows K \<longrightarrow> SSD_calculate_hessian J (Some K) = Inr (cross_product J K))
   \<and> (nrows J \<noteq> nrows K \<longrightarrow> SSD_calculate_hessian J (Some K) = Inl ValueError)
   \<and> SSD_calculate_hessian J None = Inr (cross_product J J)
   \<and> call_with_optional (ECC_calculate_hessian st) J (Some K) = Inl TypeError
   \<and> call_with_optional (GaborFourier_calculate_hessian st) Jc (Some Kc) = Inl TypeError
   \<and> call_with_optional GradientImages_calculate_hessian J (Some K) = Inl TypeError
   \<and> call_with_optional GradientCorrelation_calculate_hessian J (Some K) = Inl TypeError
   \<and> call_with_optional GradientImages_calculate_hessian J None = Inr (cross_product J J)
   \<and> call_with_optional GradientCorrelation_calculate_hessian J None = Inr (cross_product J J)
   \<and> (scipy_inv (cross_product J J) = Inr Hi \<longrightarrow>
        call_with_optional (ECC_calculate_hessian st) J None
          = Inr (st\<lparr>H_inv := Some Hi\<rparr>, cross_product J J))
   \<and> (scipy_inv (cross_product J J) = Inl e \<longrightarrow>
        call_with_optional (ECC_calculate_hessian st) J None = Inl e)"
  by (simp add: SSD_calculate_hessian_def call_with_optional_def ECC_calculate_hessian_def
        GradientImages_calculate_hessian_def GradientCorrelation_calculate_hessian_def
        np_dot_T np_dot_T_mismatch)

theorem calculate_hessian_second_sdi_witness:
  "nrows \<lparr>nrows = 1, ncols = 1, elems = [2::real]\<rparr> = nrows \<lparr>nrows = 1, ncols = 1, elems = [3::real]\<rparr>
   \<and> SSD_calculate_hessian \<lparr>nrows = 1, ncols = 1, elems = [2]\<rparr>
         (Some \<lparr>nrows = 1, ncols = 1, elems = [3]\<rparr>) = Inr \<lparr>nrows = 1, ncols = 1, elems = [6]\<rparr>
   \<and> nrows \<lparr>nrows = 1, ncols = 1, elems = [2::real]\<rparr>
         \<noteq> nrows \<lparr>nrows = 2, ncols = 1, elems = [3, 4::real]\<rparr>
   \<and> SSD_calculate_hessian \<lparr>nrows = 1, ncols = 1, elems = [2]\<rparr>
         (Some \<lparr>nrows = 2, ncols = 1, elems = [3, 4]\<rparr>) = Inl ValueError
   \<and> scipy_inv (cross_product \<lparr>nrows = 1, ncols = 1, elems = [2]\<rparr>
                                  \<lparr>nrows = 1, ncols = 1, elems = [2]\<rparr>)
         = Inr \<lparr>nrows = 1, ncols = 1, elems = [1 / 4]\<rparr>
   \<and> call_with_optional (ECC_calculate_hessian (new_residual :: unit residual))
         \<lparr>nrows = 1, ncols = 1, elems = [2]\<rparr> (None :: real matrix option)
         = Inr (new_residual\<lparr>H_inv := Some \<lparr>nrows = 1, ncols = 1, elems = [1 / 4]\<rparr>\<rparr>,
                \<lparr>nrows = 1, ncols = 1, elems = [4]\<rparr>)
   \<and> scipy_inv (cross_product \<lparr>nrows = 1, ncols = 1, elems = [0]\<rparr>
                                  \<lparr>nrows = 1, ncols = 1, elems = [0]\<rparr>) = Inl LinAlgError
   \<and> call_with_optional (ECC_calculate_hessian (new_residual :: unit residual))
         \<lparr>nrows = 1, ncols = 1, elems = [0]\<rparr> (None :: real matrix option) = Inl LinAlgError"
proof -
  let ?A = "\<lparr>nrows = 1, ncols = 1, elems = [2::real]\<rparr>"
  let ?B = "\<lparr>nrows = 1, ncols = 1, elems = [3::real]\<rparr>"
  let ?C = "\<lparr>nrows = 2, ncols = 1, elems = [3, 4::real]\<rparr>"
  let ?Z = "\<lparr>nrows = 1, ncols = 1, elems = [0::real]\<rparr>"
  let ?Hi = "\<lparr>nrows = 1, ncols = 1, elems = [1 / 4::real]\<rparr>"
  let ?c = "\<lparr>nrows = 1, ncols = 1, elems = [0::complex]\<rparr>"
  show ?thesis
    using calculate_hessian_second_sdi
            [where J = ?A and K = ?B and Hi = ?Hi and st = "new_residual :: unit residual"
               and Jc = ?c and Kc = ?c and e = LinAlgError]
          calculate_hessian_second_sdi
            [where J = ?A and K = ?C and Hi = ?Hi and st = "new_residual :: unit residual"
               and Jc = ?c and Kc = ?c and e = LinAlgError]
          calculate_hessian_second_sdi
            [where J = ?Z and K = ?Z and Hi = ?Hi and st = "new_residual :: unit residual"
               and Jc = ?c and Kc = ?c and e = LinAlgError]
    by (auto simp add: cross_product_1x1 scipy_inv_1x1)
qed

subsection \<open>C6: the Hessian is symmetric\<close>

lemma gram_2x2:
  "cross_product \<lparr>nrows = 2, ncols = 2, elems = [1, 2, 0, 1::real]\<rparr>
                 \<lparr>nrows = 2, ncols = 2, elems = [1, 2, 0, 1]\<rparr>
     = \<lparr>nrows = 2, ncols = 2, elems = [1, 2, 2, 5]\<rparr>"
  by (simp add: cross_product_def mk_matrix_def table_def mat_at_def ev)

lemma det_n_2: "det_n 2 a = a 0 0 * a (Suc 0) (Suc 0) - a 0 (Suc 0) * a (Suc 0) 0"
  by (simp add: numeral_2_eq_2)

lemma inv_2x2:
  "scipy_inv \<lparr>nrows = 2, ncols = 2, elems = [1, 2, 2, 5::real]\<rparr>
     = Inr \<lparr>nrows = 2, ncols = 2, elems = [5, - 2, - 2, 1]\<rparr>"
  by (simp add: scipy_inv_def det_n_2 minor_at_def mk_matrix_def table_def mat_at_def ev)

text \<open>
  C6. For SSD (without a second matrix), GradientImages, GradientCorrelation and ECC, the
  matrix returned by \<open>calculate_hessian\<close> is \<open>SDI\<^sup>T \<cdot> SDI\<close> and equals its own transpose,
  for every steepest-descent matrix, that is for every image and warp Jacobian it was
  computed from (in exact arithmetic; ECC returns a matrix only when the inversion
  succeeds).
\<close>

theorem hessian_symmetric:
  "SSD_calculate_hessian J None = Inr (cross_product J J)
   \<and> GradientImages_calculate_hessian J = Inr (cross_product J J)
   \<and> GradientCorrelation_calculate_hessian J = Inr (cross_product J J)
   \<and> np_T (cross_product J J) = cross_product J J
   \<and> (ECC_calculate_hessian st J = Inr (st', H') \<longrightarrow> H' = cross_product J J \<and> np_T H' = H')"
  by (auto simp add: SSD_calculate_hessian_def ECC_calculate_hessian_def
        GradientImages_calculate_hessian_def GradientCorrelation_calculate_hessian_def
        np_dot_T cross_product_symmetric bind_err_eq_Inr)

theorem hessian_symmetric_witness:
  "SSD_calculate_hessian \<lparr>nrows = 2, ncols = 2, elems = [1, 2, 0, 1]\<rparr> None
     = Inr \<lparr>nrows = 2, ncols = 2, elems = [1, 2, 2, 5]\<rparr>
   \<and> GradientImages_calculate_hessian \<lparr>nrows = 2, ncols = 2, elems = [1, 2, 0, 1]\<rparr>
     = Inr \<lparr>nrows = 2, ncols = 2, elems = [1, 2, 2, 5]\<rparr>
   \<and> GradientCorrelation_calculate_hessian \<lparr>nrows = 2, ncols = 2, elems = [1, 2, 0, 1]\<rparr>
     = Inr \<lparr>nrows = 2, ncols = 2, elems = [1, 2, 2, 5]\<rparr>
   \<and> ECC_calculate_hessian (new_residual :: unit residual)
         \<lparr>nrows = 2, ncols = 2, elems = [1, 2, 0, 1]\<rparr>
     = Inr (new_residual\<lparr>H_inv := Some \<lparr>nrows = 2, ncols = 2, elems = [5, - 2, - 2, 1]\<rparr>\<rparr>,
            \<lparr>nrows = 2, ncols = 2, elems = [1, 2, 2, 5]\<rparr>)
   \<and> np_T \<lparr>nrows = 2, ncols = 2, elems = [1, 2, 2, 5::real]\<rparr>
     = \<lparr>nrows = 2, ncols = 2, elems = [1, 2, 2, 5]\<rparr>
   \<and> np_T \<lparr>nrows = 2, ncols = 2, elems = [1, 2, 0, 1::real]\<rparr>
     = \<lparr>nrows = 2, ncols = 2, elems = [1, 0, 2, 1]\<rparr>"
proof -
  let ?J = "\<lparr>nrows = 2, ncols = 2, elems = [1, 2, 0, 1::real]\<rparr>"
  let ?H = "\<lparr>nrows = 2, ncols = 2, elems = [1, 2, 2, 5::real]\<rparr>"
  let ?st = "(new_residual :: unit residual)\<lparr>H_inv := Some \<lparr>nrows = 2, ncols = 2, elems = [5, - 2, - 2, 1]\<rparr>\<rparr>"
  have e: "ECC_calculate_hessian (new_residual :: unit residual) ?J = Inr (?st, ?H)"
    by (simp add: ECC_calculate_hessian_def np_dot_T gram_2x2 inv_2x2)
  have t: "np_T ?J = \<lparr>nrows = 2, ncols = 2, elems = [1, 0, 2, 1]\<rparr>"
    by (simp add: np_T_def mk_matrix_def table_def mat_at_def ev)
  show ?thesis
    using hessian_symmetric[where J = ?J and st = "new_residual :: unit residual"
            and st' = ?st and H' = ?H] e t
    by (simp add: gram_2x2)
qed

subsection \<open>C10: \<open>SSD.steepest_descent_update\<close> depends on its arguments only\<close>

text \<open>
  C10. \<open>SSD.steepest_descent_update\<close> reads no attribute of the instance: its outcome is
  the same from every state, its only effect on the state is the assignment of the cached
  error vector, and on a fresh instance, for which neither \<open>steepest_descent_images\<close> nor
  \<open>calculate_hessian\<close> was called, it returns \<open>sdi\<^sup>T \<cdot> (IWxp_vector - template_vector)\<close>
  whenever the two images and the matrix agree in size.
\<close>

theorem SSD_steepest_descent_update_frame:
  "(SSD_steepest_descent_update M st sdi IWxp template = Inr (st1, u) \<longrightarrow>
      st1 = st\<lparr>error_img := error_img st1\<rparr>
      \<and> SSD_steepest_descent_update M st' sdi IWxp template
          = Inr (st'\<lparr>error_img := error_img st1\<rparr>, u))
   \<and> (SSD_steepest_descent_update M st sdi IWxp template = Inl e \<longrightarrow>
        SSD_steepest_descent_update M st' sdi IWxp template = Inl e)
   \<and> (length (as_vector M IWxp) = length (as_vector M template)
        \<and> nrows sdi = length (as_vector M IWxp) \<longrightarrow>
        SSD_steepest_descent_update M new_residual sdi IWxp template
          = Inr (new_residual
                   \<lparr>error_img := Some (RealVec (map2 (-) (as_vector M IWxp) (as_vector M template)))\<rparr>,
                 T_dot_vec sdi (map2 (-) (as_vector M IWxp) (as_vector M template))))"
proof (intro conjI impI)
  assume "SSD_steepest_descent_update M st sdi IWxp template = Inr (st1, u)"
  then show "st1 = st\<lparr>error_img := error_img st1\<rparr>"
    by (auto simp add: SSD_update_cases split: sum.splits)
next
  assume "SSD_steepest_descent_update M st sdi IWxp template = Inr (st1, u)"
  then show "SSD_steepest_descent_update M st' sdi IWxp template
          = Inr (st'\<lparr>error_img := error_img st1\<rparr>, u)"
    by (auto simp add: SSD_update_cases split: sum.splits)
next
  assume "SSD_steepest_descent_update M st sdi IWxp template = Inl e"
  then show "SSD_steepest_descent_update M st' sdi IWxp template = Inl e"
    by (auto simp add: SSD_update_cases split: sum.splits)
next
  assume "length (as_vector M IWxp) = length (as_vector M template)
        \<and> nrows sdi = length (as_vector M IWxp)"
  then show "SSD_steepest_descent_update M new_residual sdi IWxp template
          = Inr (new_residual
                   \<lparr>error_img := Some (RealVec (map2 (-) (as_vector M IWxp) (as_vector M template)))\<rparr>,
                 T_dot_vec sdi (map2 (-) (as_vector M IWxp) (as_vector M template)))"
    by (simp add: SSD_update_cases vsub_same_length np_dot_vec_T)
qed

theorem SSD_steepest_descent_update_frame_witness:
  "SSD_steepest_descent_update raster_lib new_residual sdi4 im4b im4
      = Inr (new_residual\<lparr>error_img := Some (RealVec [-1, 0, 3, 5])\<rparr>, [2])
   \<and> SSD_steepest_descent_update raster_lib (new_residual\<lparr>self_N := Some 7\<rparr>) sdi4 im4b im4
      = Inr (new_residual\<lparr>self_N := Some 7, error_img := Some (RealVec [-1, 0, 3, 5])\<rparr>, [2])
   \<and> SSD_steepest_descent_update raster_lib new_residual (sdi4\<lparr>nrows := 3\<rparr>) im4b im4 = Inl ValueError
   \<and> SSD_steepest_descent_update raster_lib (new_residual\<lparr>self_N := Some 7\<rparr>) (sdi4\<lparr>nrows := 3\<rparr>) im4b im4 = Inl ValueError"
proof -
  let ?s1 = "new_residual\<lparr>error_img := Some (RealVec [-1, 0, 3, 5])\<rparr> :: raster residual"
  have v: "as_vector raster_lib im4b = [1, 2, 3, 5]" "as_vector raster_lib im4 = [2, 2, 0, 0]"
    by (simp_all add: raster_lib_def im4_def im4b_def)
  have n: "nrows sdi4 = 4" by (simp add: sdi4_def)
  have d: "T_dot_vec sdi4 [-1, 0, 3, 5] = [2]"
    by (simp add: T_dot_vec_def sdi4_def mat_at_def ev)
  have a: "SSD_steepest_descent_update raster_lib new_residual sdi4 im4b im4 = Inr (?s1, [2])"
    using SSD_steepest_descent_update_frame
            [where M = raster_lib and st = new_residual and st' = "new_residual\<lparr>self_N := Some 7\<rparr>"
               and sdi = sdi4 and IWxp = im4b and template = im4 and ?st1.0 = ?s1 and u = "[2]"
               and e = ValueError]
    by (simp add: v d n)
  have b: "SSD_steepest_descent_update raster_lib new_residual (sdi4\<lparr>nrows := 3\<rparr>) im4b im4 = Inl ValueError"
    by (simp add: SSD_update_cases vsub_same_length v np_dot_vec_T_mismatch sdi4_def)
  show ?thesis
    using a b
      SSD_steepest_descent_update_frame
            [where M = raster_lib and st = new_residual and st' = "new_residual\<lparr>self_N := Some 7\<rparr>"
               and sdi = sdi4 and IWxp = im4b and template = im4 and ?st1.0 = ?s1 and u = "[2]"
               and e = ValueError]
      SSD_steepest_descent_update_frame
            [where M = raster_lib and st = new_residual and st' = "new_residual\<lparr>self_N := Some 7\<rparr>"
               and sdi = "sdi4\<lparr>nrows := 3\<rparr>" and IWxp = im4b and template = im4 and e = ValueError]
    by (auto simp add: new_residual_def)
qed


subsection \<open>C2: the fallback step size of ECC\<close>

lemma n9: "normalise_images raster_lib im9
   = Inr \<lparr>r_shape = [3, 3], r_channels = 1, r_pixels = [-1/2, -1/2, 0, 0, 0, 0, 0, 1/2, 1/2]\<rparr>"
  by (simp add: normalise_images_def raster_lib_def r_normalize_norm_def im9_def scipy_norm_def Let_def)

lemma n9f: "normalise_images raster_lib im9_flipped
   = Inr \<lparr>r_shape = [3, 3], r_channels = 1, r_pixels = [0, 1/2, 1/2, 0, 0, 0, -1/2, -1/2, 0]\<rparr>"
  by (simp add: normalise_images_def raster_lib_def r_normalize_norm_def im9_flipped_def scipy_norm_def Let_def)

lemma g9n: "calculate_gradients raster_lib
     \<lparr>r_shape = [3, 3], r_channels = 1, r_pixels = [-1/2, -1/2, 0, 0, 0, 0, 0, 1/2, 1/2]\<rparr> None
   = \<lparr>r_shape = [3, 3], r_channels = 2,
      r_pixels = [0, 0, 0, 0, 1/2, 0, 0, 0, 0, 0, 0, 0, 0, 0, 0, 0, 0, 0]\<rparr>"
  by (simp add: r_defs ev)

lemma ECC_sdi9: "ECC_steepest_descent_images raster_lib im9 dW9 None = Inr sdi9"
  unfolding ECC_steepest_descent_images_def n9 bind_err_simps Let_def g9n
  by (simp add: np_defs raster_lib_def im9_def dW9_def sdi9_def ev)

lemma ECC_H9: "ECC_calculate_hessian new_residual sdi9
   = Inr (new_residual\<lparr>H_inv := Some \<lparr>nrows = 1, ncols = 1, elems = [4]\<rparr>\<rparr>,
          \<lparr>nrows = 1, ncols = 1, elems = [1 / 4]\<rparr>)"
  by (simp add: ECC_calculate_hessian_def np_defs scipy_inv_def minor_at_def sdi9_def ev power2_eq_square)

lemma ECC_update9:
  "ECC_steepest_descent_update raster_lib
      (new_residual\<lparr>H_inv := Some \<lparr>nrows = 1, ncols = 1, elems = [4]\<rparr>\<rparr>) sdi9 im9_flipped im9
     = Inl NonFinite"
  unfolding ECC_steepest_descent_update_def n9 n9f bind_err_simps Let_def
  by (simp add: np_defs raster_lib_def sdi9_def ECC_step_size_def ev power2_eq_square)


text \<open>
  The branch of \<open>ECC.steepest_descent_update\<close> for a denominator that is not positive
  divides by \<open>den3 = Gt\<^sup>T H\<^sup>-\<^sup>1 Gt\<close>. It raises no exception; its result is the finite
  number \<open>max(sqrt(num2/den3), -den/den3)\<close> when \<open>den3\<close> is positive and \<open>num2\<close> is not
  negative, and it is not a number when \<open>den3 = 0\<close>, which the code does not test.
\<close>

lemma ECC_step_size_nonpositive_den:
  assumes "ncols Hi = length Gt" "nrows Hi = length Gt" "den \<le> 0"
  shows "(0 < quad_value Gt Hi Gt \<and> 0 \<le> num2 \<longrightarrow>
            ECC_step_size num num2 den Gt Hi
              = Inr (max (sqrt (num2 / quad_value Gt Hi Gt)) (- den / quad_value Gt Hi Gt)))
         \<and> (quad_value Gt Hi Gt = 0 \<longrightarrow> ECC_step_size num num2 den Gt Hi = Inl NonFinite)
         \<and> (\<forall>e. ECC_step_size num num2 den Gt Hi = Inl e \<longrightarrow> e = NonFinite)"
proof -
  have nonneg: "0 \<le> num2 / quad_value Gt Hi Gt" if "0 < quad_value Gt Hi Gt" "0 \<le> num2"
    using that by simp
  show ?thesis
    using assms nonneg
    by (auto simp add: ECC_step_size_def quad_form_eq fdiv_def fsqrt_def bind_err_def
          divide_less_0_iff split: if_splits sum.splits)
qed

text \<open>
  C2. The branch for \<open>den \<le> 0\<close>, which the code introduces with the comment
  \<open>Avoid division by zero\<close>, is to yield a finite step size for every pair of images on
  which \<open>steepest_descent_images\<close> and \<open>calculate_hessian\<close> succeeded. The code misses
  this: it divides by \<open>den3\<close> unguarded. The template \<open>im9\<close> and the translation Jacobian
  \<open>dW9\<close> pass \<open>steepest_descent_images\<close> and \<open>calculate_hessian\<close>; the normalised
  template is orthogonal to the one steepest-descent image, so \<open>Gt = 0\<close>. For the warped
  image \<open>im9_flipped\<close> the denominator is \<open>- 1/2\<close>, the fallback branch is taken, and there
  \<open>den3 = 0\<close>: the step size is \<open>max(sqrt(0/0), (1/2)/0)\<close>, not a finite number.
\<close>

theorem ECC_step_size_fallback_divides_by_zero:
  "ECC_steepest_descent_images raster_lib im9 dW9 None = Inr sdi9
   \<and> ECC_calculate_hessian (new_residual :: raster residual) sdi9
       = Inr (new_residual\<lparr>H_inv := Some \<lparr>nrows = 1, ncols = 1, elems = [4]\<rparr>\<rparr>,
              \<lparr>nrows = 1, ncols = 1, elems = [1 / 4]\<rparr>)
   \<and> ECC_steepest_descent_update raster_lib
         (new_residual\<lparr>H_inv := Some \<lparr>nrows = 1, ncols = 1, elems = [4]\<rparr>\<rparr>)
         sdi9 im9_flipped im9 = Inl NonFinite
   \<and> ECC_step_size 1 0 (- 1 / 2) [0] \<lparr>nrows = 1, ncols = 1, elems = [4]\<rparr> = Inl NonFinite"
proof -
  have "ECC_step_size 1 0 (- 1 / 2) [0] \<lparr>nrows = 1, ncols = 1, elems = [4]\<rparr> = Inl NonFinite"
    by (simp add: ECC_step_size_def np_defs ev)
  then show ?thesis
    using ECC_sdi9 ECC_H9[where 'a = raster] ECC_update9 by simp
qed

subsection \<open>C8: the step size of GradientCorrelation\<close>

lemma g2c: "calculate_gradients raster_lib const2c None
   = \<lparr>r_shape = [2, 2], r_channels = 4, r_pixels = replicate 16 0\<rparr>"
  using calculate_gradients_const[of const2c 8 3] by (simp add: const2c_def)

lemma gg2c: "calculate_gradients raster_lib \<lparr>r_shape = [2, 2], r_channels = 4, r_pixels = replicate 16 0\<rparr> None
   = \<lparr>r_shape = [2, 2], r_channels = 8, r_pixels = replicate 32 0\<rparr>"
  using calculate_gradients_const[of "\<lparr>r_shape = [2, 2], r_channels = 4, r_pixels = replicate 16 0\<rparr>" 16 0]
  by simp

lemma GC_sdi_2c:
  "map_sum id fst (GradientCorrelation_steepest_descent_images raster_lib new_residual const2c dW4 None)
     = Inr st2c"
proof -
  have a: "igo_angles (replicate 16 0) 8 = replicate 8 0"
    using igo_angles_zero[of 8] by simp
  obtain sdi where "GradientCorrelation_steepest_descent_images raster_lib new_residual const2c dW4 None
            = Inr (st2c, sdi)"
    using GradientCorrelation_sdi_eq[where M = raster_lib and img = const2c and fwd = None
        and h = 2 and w = 2 and dW = dW4 and P = 1 and st = new_residual
        and g' = "\<lparr>r_shape = [2, 2], r_channels = 4, r_pixels = replicate 8 0 @ replicate 8 1\<rparr>"]
    unfolding g2c gg2c
    by (auto simp add: lib_sel const2c_def dW4_def a st2c_def)
  then show ?thesis by simp
qed

lemma wphi_2c: "warped_phi raster_lib const2c = Inr \<lparr>shape = [2, 4], data = replicate 8 0\<rparr>"
  using warped_phi_eq[of raster_lib const2c 4] igo_angles_zero[of 8]
  unfolding g2c by (simp add: lib_sel const2c_def)


text \<open>
  C8 as stated fails for images of more than one channel. On the two-channel image
  \<open>const2c\<close>, \<open>steepest_descent_images\<close> caches \<open>N = 2 \<cdot> 2 = 4\<close> and the angles of
  8 entries (2 channels of 4 pixels). With the same image as warped image every angle
  agrees, the sum \<open>qp\<close> runs over all 8 entries and is 8, not \<open>N\<close>, and the step size is
  \<open>4 / 8\<close>, not 1.
\<close>

theorem GradientCorrelation_step_size_counterexample:
  "map_sum id fst
      (GradientCorrelation_steepest_descent_images raster_lib new_residual const2c dW4 None)
     = Inr st2c
   \<and> self_N st2c = Some 4
   \<and> cos_phi st2c = Some \<lparr>shape = [2, 4], data = replicate 8 1\<rparr>
   \<and> sin_phi st2c = Some \<lparr>shape = [2, 4], data = replicate 8 0\<rparr>
   \<and> warped_phi raster_lib const2c = Inr \<lparr>shape = [2, 4], data = replicate 8 0\<rparr>
   \<and> igo_qp \<lparr>shape = [2, 4], data = replicate 8 1\<rparr> \<lparr>shape = [2, 4], data = replicate 8 0\<rparr>
         (map_array cos \<lparr>shape = [2, 4], data = replicate 8 0\<rparr>)
         (map_array sin \<lparr>shape = [2, 4], data = replicate 8 0\<rparr>) = Inr 8
   \<and> fdiv (real 4) 8 = Inr (1 / 2)"
proof -
  have "igo_correlation (replicate 8 1) (replicate 8 0) (replicate 8 0) = real (length (replicate 8 (0::real)))"
    by (rule igo_equal_angles) simp_all
  then have "igo_qp \<lparr>shape = [2, 4], data = replicate 8 1\<rparr> \<lparr>shape = [2, 4], data = replicate 8 0\<rparr>
         (map_array cos \<lparr>shape = [2, 4], data = replicate 8 0\<rparr>)
         (map_array sin \<lparr>shape = [2, 4], data = replicate 8 0\<rparr>) = Inr 8"
    using igo_qp_eq[of "replicate 8 1" 2 4 "replicate 8 0" "replicate 8 0"] by simp
  then show ?thesis
    using GC_sdi_2c wphi_2c by (simp add: st2c_def fdiv_def)
qed

text \<open>
  C8, amended. \<open>GradientCorrelation.steepest_descent_update\<close> returns
  \<open>lambda \<cdot> (SDI\<^sup>T \<cdot> error)\<close> with \<open>lambda = N / qp\<close>, where \<open>N\<close> is the cached pixel count
  and \<open>qp\<close> the sum over all channels and pixels of
  \<open>cos_template \<cdot> cos_warped + sin_template \<cdot> sin_warped\<close> (a zero \<open>qp\<close> gives a non-finite
  step). When the warped angles equal the cached template angles everywhere, the error
  vector is all zeros and the update is the zero vector, \<open>qp\<close> equals the number of
  channels times the number of pixels, and \<open>lambda\<close> is one over the number of channels:
  \<open>qp = N\<close> and \<open>lambda = 1\<close> for an image of one channel.
\<close>

theorem GradientCorrelation_step_size:
  assumes "cos_phi st = Some \<lparr>shape = [C, X], data = ct\<rparr>"
    "sin_phi st = Some \<lparr>shape = [C, X], data = sn\<rparr>" "self_N st = Some N"
    "length ct = C * X" "length sn = C * X" "nrows sdi = C * X"
    "warped_phi M IWxp = Inr \<lparr>shape = [C, X], data = phi\<rparr>" "length phi = C * X"
  shows "igo_qp \<lparr>shape = [C, X], data = ct\<rparr> \<lparr>shape = [C, X], data = sn\<rparr>
           (map_array cos \<lparr>shape = [C, X], data = phi\<rparr>)
           (map_array sin \<lparr>shape = [C, X], data = phi\<rparr>) = Inr (igo_correlation ct sn phi)
     \<and> (igo_correlation ct sn phi \<noteq> 0 \<longrightarrow>
          GradientCorrelation_steepest_descent_update M st sdi IWxp template
            = Inr (st\<lparr>error_img := Some (RealVec (igo_error_vec ct sn phi))\<rparr>,
                   map (\<lambda>x. real N / igo_correlation ct sn phi * x)
                     (T_dot_vec sdi (igo_error_vec ct sn phi))))
     \<and> (igo_correlation ct sn phi = 0 \<longrightarrow>
          GradientCorrelation_steepest_descent_update M st sdi IWxp template = Inl NonFinite)
     \<and> (ct = map cos phi \<and> sn = map sin phi \<longrightarrow>
          igo_error_vec ct sn phi = replicate (C * X) 0
          \<and> igo_correlation ct sn phi = real C * real X
          \<and> (0 < C * X \<longrightarrow>
                GradientCorrelation_steepest_descent_update M st sdi IWxp template
                  = Inr (st\<lparr>error_img := Some (RealVec (replicate (C * X) 0))\<rparr>,
                         replicate (ncols sdi) 0))
          \<and> (N = X \<and> 0 < C * X \<longrightarrow> real N / igo_correlation ct sn phi = 1 / real C))"
proof -
  note upd = GradientCorrelation_update_eq[OF assms, of template]
  have eq: "igo_error_vec ct sn phi = replicate (C * X) 0"
      "igo_correlation ct sn phi = real C * real X"
    if "ct = map cos phi \<and> sn = map sin phi"
    using igo_equal_angles[of ct phi sn] that assms(8) by simp_all
  have z: "T_dot_vec sdi (replicate (C * X) 0) = replicate (ncols sdi) (0::real)"
    using T_dot_vec_zero[of "replicate (C * X) 0" sdi] assms(6) by simp
  show ?thesis
    using igo_qp_eq[OF assms(4,5,8)] upd eq z by (auto simp add: map_replicate_const)
qed

theorem GradientCorrelation_step_size_witness:
  "cos_phi st2c = Some \<lparr>shape = [2, 4], data = replicate 8 1\<rparr>
   \<and> sin_phi st2c = Some \<lparr>shape = [2, 4], data = replicate 8 0\<rparr>
   \<and> self_N st2c = Some 4
   \<and> length (replicate 8 (1::real)) = 2 * 4 \<and> length (replicate 8 (0::real)) = 2 * 4
   \<and> nrows zeros8 = 2 * 4
   \<and> warped_phi raster_lib const2c = Inr \<lparr>shape = [2, 4], data = replicate 8 0\<rparr>
   \<and> igo_correlation (replicate 8 1) (replicate 8 0) (replicate 8 0) = 8
   \<and> replicate 8 (1::real) = map cos (replicate 8 0)
   \<and> replicate 8 (0::real) = map sin (replicate 8 0)
   \<and> GradientCorrelation_steepest_descent_update raster_lib st2c zeros8 const2c const2c
       = Inr (st2c\<lparr>error_img := Some (RealVec (replicate 8 0))\<rparr>, [0])
   \<and> real 4 / igo_correlation (replicate 8 1) (replicate 8 0) (replicate 8 0) = 1 / real 2
   \<and> igo_correlation (replicate 8 0) (replicate 8 0) (replicate 8 0) = 0
   \<and> GradientCorrelation_steepest_descent_update raster_lib
         (st2c\<lparr>cos_phi := Some \<lparr>shape = [2, 4], data = replicate 8 0\<rparr>\<rparr>) zeros8 const2c const2c
       = Inl NonFinite"
proof -
  have c0: "igo_correlation (replicate 8 0) (replicate 8 0) (replicate 8 0) = 0"
    unfolding igo_correlation_def by (rule sum_list_map_zero) simp
  show ?thesis
    using GradientCorrelation_step_size
            [where st = st2c and C = 2 and X = 4 and ct = "replicate 8 1" and sn = "replicate 8 0"
               and N = 4 and sdi = zeros8 and M = raster_lib and IWxp = const2c
               and phi = "replicate 8 0" and template = const2c]
          GradientCorrelation_step_size
            [where st = "st2c\<lparr>cos_phi := Some \<lparr>shape = [2, 4], data = replicate 8 0\<rparr>\<rparr>"
               and C = 2 and X = 4 and ct = "replicate 8 0" and sn = "replicate 8 0"
               and N = 4 and sdi = zeros8 and M = raster_lib and IWxp = const2c
               and phi = "replicate 8 0" and template = const2c]
          wphi_2c c0
    by (simp add: st2c_def zeros8_def)
qed

subsection \<open>C7: the frequency weighting of GaborFourier\<close>

text \<open>
  C7. \<open>GaborFourier.calculate_hessian\<close> scales row \<open>k\<close> of the steepest-descent matrix,
  the row of the pixel \<open>k mod F\<close> of the reshaped matrix, by the square root of the weight of
  that pixel in the filter bank of \<open>F\<close> weights, and returns \<open>conj(filtered)\<^sup>T \<cdot> filtered\<close>.
  \<open>steepest_descent_update\<close> multiplies the shifted Fourier transform of the error image,
  entry by entry, by the weight itself, caches the product as the error vector and returns
  \<open>SDI\<^sup>T \<cdot> conj(error)\<close>. The weights are taken not to be negative, and the sizes of the
  matrix, the images and the filter bank to agree.
\<close>

theorem GaborFourier_weighting:
  assumes "filter_bank st = Some fb" "\<forall>x \<in> set fb. 0 \<le> x" "fb \<noteq> []"
    and "nrows sdi = n_channels M IWxp * length fb" "length (elems sdi) = nrows sdi * ncols sdi"
      "0 < ncols sdi" "0 < n_channels M IWxp"
    and "pixels M IWxp = \<lparr>shape = ps, data = a\<rparr>" "pixels M template = \<lparr>shape = ps, data = b\<rparr>"
      "length a = prod_list ps" "length b = prod_list ps"
    and "np_fftn_shift \<lparr>shape = ps, data = map2 (-) a b\<rparr> (n_dims M IWxp) = Inr Fh"
      "length (data Fh) = length fb * n_channels M IWxp"
  shows "GaborFourier_calculate_hessian st sdi
           = Inr (hermitian_gram (scale_rows (\<lambda>k. sqrt (fb ! (k mod length fb))) sdi))
       \<and> GaborFourier_steepest_descent_update M st sdi IWxp template
           = Inr (st\<lparr>error_img := Some (ComplexVec
                      (map (\<lambda>n. complex_of_real (fb ! (n div n_channels M IWxp)) * data Fh ! n)
                         [0..<length fb * n_channels M IWxp]))\<rparr>,
                  T_dot_vec sdi (map cnj
                      (map (\<lambda>n. complex_of_real (fb ! (n div n_channels M IWxp)) * data Fh ! n)
                         [0..<length fb * n_channels M IWxp])))"
proof
  show "GaborFourier_calculate_hessian st sdi
           = Inr (hermitian_gram (scale_rows (\<lambda>k. sqrt (fb ! (k mod length fb))) sdi))"
    using assms(1-6) by (rule GaborFourier_hessian_eq)
next
  have n: "nrows sdi = length fb * n_channels M IWxp"
    using assms(4) by (simp add: mult.commute)
  show "GaborFourier_steepest_descent_update M st sdi IWxp template
           = Inr (st\<lparr>error_img := Some (ComplexVec
                      (map (\<lambda>n. complex_of_real (fb ! (n div n_channels M IWxp)) * data Fh ! n)
                         [0..<length fb * n_channels M IWxp]))\<rparr>,
                  T_dot_vec sdi (map cnj
                      (map (\<lambda>n. complex_of_real (fb ! (n div n_channels M IWxp)) * data Fh ! n)
                         [0..<length fb * n_channels M IWxp])))"
    using assms(8-13) assms(7) assms(1) refl n by (rule GaborFourier_update_eq)
qed

lemma fft_pix1:
  "np_fftn_shift \<lparr>shape = [Suc 0, Suc 0, Suc 0], data = [x]\<rparr> (Suc (Suc 0))
     = Inr \<lparr>shape = [Suc 0, Suc 0, Suc 0], data = [complex_of_real x]\<rparr>"
  by (simp add: np_fftn_shift_def table_def Let_def)

theorem GaborFourier_weighting_witness:
  "filter_bank gabor1 = Some [4]
   \<and> pixels raster_lib (pix1 5) = \<lparr>shape = [1, 1, 1], data = [5]\<rparr>
   \<and> pixels raster_lib (pix1 2) = \<lparr>shape = [1, 1, 1], data = [2]\<rparr>
   \<and> np_fftn_shift \<lparr>shape = [1, 1, 1], data = map2 (-) [5] [2]\<rparr> (n_dims raster_lib (pix1 5))
       = Inr \<lparr>shape = [1, 1, 1], data = [3]\<rparr>
   \<and> GaborFourier_calculate_hessian gabor1 \<lparr>nrows = 1, ncols = 1, elems = [2]\<rparr>
       = Inr \<lparr>nrows = 1, ncols = 1, elems = [16]\<rparr>
   \<and> GaborFourier_steepest_descent_update raster_lib gabor1 \<lparr>nrows = 1, ncols = 1, elems = [2]\<rparr>
         (pix1 5) (pix1 2)
       = Inr (gabor1\<lparr>error_img := Some (ComplexVec [12])\<rparr>, [24])"
proof -
  have h: "hermitian_gram (scale_rows (\<lambda>k. sqrt ([4] ! (k mod length [4::real])))
              \<lparr>nrows = 1, ncols = 1, elems = [2]\<rparr>) = \<lparr>nrows = 1, ncols = 1, elems = [16]\<rparr>"
    by (simp add: hermitian_gram_def scale_rows_def mk_matrix_def table_def mat_at_def)
  have u: "T_dot_vec \<lparr>nrows = 1, ncols = 1, elems = [2]\<rparr> [12::complex] = [24]"
    by (simp add: T_dot_vec_def mat_at_def)
  show ?thesis
    using GaborFourier_weighting
            [where st = gabor1 and fb = "[4]" and sdi = "\<lparr>nrows = 1, ncols = 1, elems = [2]\<rparr>"
               and M = raster_lib and IWxp = "pix1 5" and template = "pix1 2"
               and ps = "[1, 1, 1]" and a = "[5]" and b = "[2]"
               and Fh = "\<lparr>shape = [1, 1, 1], data = [3]\<rparr>"]
          fft_pix1[of 3] h u
    by (auto simp add: gabor1_def pix1_def lib_sel)
qed

subsection \<open>C9: the shape of the steepest-descent matrix\<close>

lemma gr4: "calculate_gradients raster_lib ramp4 (Some (ramp4, ()))
   = \<lparr>r_shape = [2, 2], r_channels = 2, r_pixels = [0, 0, 0, 0, 1, 1, 1, 1]\<rparr>"
  by (simp add: r_defs ramp4_def ev)

lemma reg4: "regularise_gradients raster_lib
     \<lparr>r_shape = [2, 2], r_channels = 2, r_pixels = [0, 0, 0, 0, 1, 1, 1, 1]\<rparr> = Inr tg4"
  by (simp add: regularise_gradients_def np_defs raster_lib_def tg4_def ev)

lemma gg4: "calculate_gradients raster_lib tg4 None
   = \<lparr>r_shape = [2, 2], r_channels = 4, r_pixels = replicate 16 0\<rparr>"
  by (simp add: r_defs tg4_def ev)

lemma GI_sdi4:
  "GradientImages_steepest_descent_images raster_lib new_residual ramp4 dW4 (Some (ramp4, ()))
     = Inr (new_residual\<lparr>template_grad := Some tg4\<rparr>, zeros8)"
  unfolding GradientImages_steepest_descent_images_def Let_def gr4 reg4 bind_err_simps gg4
  by (simp add: np_defs raster_lib_def ramp4_def dW4_def zeros8_def ev)

text \<open>
  C9 as stated fails for GradientImages. The matrix is built from the second gradients,
  of shape \<open>dims \<times> dims \<times> ch \<times> pixels\<close>, and the loop sums over the first axis only: its
  rows are \<open>dims \<cdot> ch \<cdot> pixels\<close>. For the image \<open>ramp4\<close> of one channel and 4 pixels and
  a Jacobian of one parameter the matrix has 8 rows, not 4.
\<close>

theorem steepest_descent_images_rows_counterexample:
  "map_sum id snd
      (GradientImages_steepest_descent_images raster_lib new_residual ramp4 dW4 (Some (ramp4, ())))
     = Inr \<lparr>nrows = 8, ncols = 1, elems = replicate 8 0\<rparr>
   \<and> n_channels raster_lib ramp4 * prod_list (img_shape raster_lib ramp4) = 4
   \<and> shape dW4 = [2, 4, 1]"
  using GI_sdi4 by (simp add: zeros8_def lib_sel ramp4_def dW4_def)

text \<open>
  C9, amended. For an image of at least two dimensions and a Jacobian of \<open>P \<ge> 1\<close>
  parameters over \<open>h \<cdot> w\<close> pixels, whenever the gradients have the sizes the reshapes ask
  for: the matrix returned by \<open>steepest_descent_images\<close> has \<open>P\<close> columns for every
  class; it has \<open>n_channels \<cdot> n_pixels\<close> rows for SSD, ECC (when the normalisation of the
  image succeeds) and GradientCorrelation, \<open>n_dims \<cdot> n_channels \<cdot> n_pixels\<close> rows for
  GradientImages (when the regularisation of the gradient is finite), and for GaborFourier,
  whose Jacobian is laid out as \<open>pixels \<times> params \<times> dims\<close>, as many rows as the whole pixel
  array of the image of steepest-descent images has entries, divided by \<open>P\<close>.
\<close>

theorem steepest_descent_images_rows:
  fixes M :: "('i, 'm, 't) menpo"
  assumes "2 \<le> n_dims M img" "0 < n_channels M img" "0 < P" "0 < h * w"
    and "shape dW = [n_dims M img, h * w, P]"
    and "shape dWf = [h * w, P, n_dims M img]" "length (data dWf) = h * w * (P * n_dims M img)"
  shows
    "(length (as_vector M (calculate_gradients M img fwd)) = n_dims M img * n_channels M img * (h * w)
       \<longrightarrow> (\<exists>sdi. SSD_steepest_descent_images M img dW fwd = Inr sdi
              \<and> nrows sdi = n_channels M img * (h * w) \<and> ncols sdi = P))
   \<and> (normalise_images M img = Inr nimg
        \<and> length (as_vector M (calculate_gradients M nimg fwd)) = n_dims M img * n_channels M img * (h * w)
       \<longrightarrow> (\<exists>sdi. ECC_steepest_descent_images M img dW fwd = Inr sdi
              \<and> nrows sdi = n_channels M img * (h * w) \<and> ncols sdi = P))
   \<and> (img_shape M (calculate_gradients M img fwd) = [h, w]
        \<and> length (as_vector M (calculate_gradients M img fwd)) = n_dims M img * n_channels M img * (h * w)
        \<and> from_vector M (calculate_gradients M img fwd)
               (map sin (igo_angles (as_vector M (calculate_gradients M img fwd)) (n_channels M img * (h * w)))
                @ map cos (igo_angles (as_vector M (calculate_gradients M img fwd)) (n_channels M img * (h * w))))
             = Inr g'
        \<and> length (data (pixels M (calculate_gradients M (calculate_gradients M img fwd) None)))
               = n_dims M img * n_dims M img * n_channels M img * (h * w)
       \<longrightarrow> (\<exists>st' sdi. GradientCorrelation_steepest_descent_images M st img dW fwd = Inr (st', sdi)
              \<and> nrows sdi = n_channels M img * (h * w) \<and> ncols sdi = P))
   \<and> (regularise_gradients M (calculate_gradients M img fwd) = Inr tg
        \<and> length (data (pixels M (calculate_gradients M tg None)))
               = n_dims M img * n_dims M img * n_channels M img * (h * w)
       \<longrightarrow> (\<exists>sdi. GradientImages_steepest_descent_images M st img dW fwd
                     = Inr (st\<lparr>template_grad := Some tg\<rparr>, sdi)
              \<and> nrows sdi = n_dims M img * n_channels M img * (h * w) \<and> ncols sdi = P))
   \<and> (length (data (as_vector_keep_channels M (calculate_gradients M img fwd)))
               = h * w * (n_channels M img * n_dims M img)
        \<and> (\<forall>v. length v = h * w * (n_channels M img * P) \<longrightarrow>
              (\<exists>b. blank_from_vector M (img_shape M (calculate_gradients M img fwd))
                      (n_channels M img * P) (img_mask M (calculate_gradients M img fwd)) v = Inr b
                 \<and> shape (pixels M b) = ps \<and> length (data (pixels M b)) = prod_list ps))
        \<and> n_dims M img \<le> length ps \<and> 0 \<notin> set (take (n_dims M img) ps) \<and> prod_list ps = S * P
       \<longrightarrow> (\<exists>sdi. GaborFourier_steepest_descent_images M img dWf fwd = Inr sdi
              \<and> nrows sdi = S \<and> ncols sdi = P))"
proof (intro conjI impI)
  assume "length (as_vector M (calculate_gradients M img fwd)) = n_dims M img * n_channels M img * (h * w)"
  then show "\<exists>sdi. SSD_steepest_descent_images M img dW fwd = Inr sdi
              \<and> nrows sdi = n_channels M img * (h * w) \<and> ncols sdi = P"
    using SSD_sdi_eq[of M img fwd "h * w" dW P] assms(1,2,3,5) by auto
next
  assume a: "normalise_images M img = Inr nimg
        \<and> length (as_vector M (calculate_gradients M nimg fwd)) = n_dims M img * n_channels M img * (h * w)"
  show "\<exists>sdi. ECC_steepest_descent_images M img dW fwd = Inr sdi
              \<and> nrows sdi = n_channels M img * (h * w) \<and> ncols sdi = P"
    using ECC_sdi_eq[of M img nimg fwd "h * w" dW P] a assms(1,2,3,5) by auto
next
  assume a: "img_shape M (calculate_gradients M img fwd) = [h, w]
        \<and> length (as_vector M (calculate_gradients M img fwd)) = n_dims M img * n_channels M img * (h * w)
        \<and> from_vector M (calculate_gradients M img fwd)
               (map sin (igo_angles (as_vector M (calculate_gradients M img fwd)) (n_channels M img * (h * w)))
                @ map cos (igo_angles (as_vector M (calculate_gradients M img fwd)) (n_channels M img * (h * w))))
             = Inr g'
        \<and> length (data (pixels M (calculate_gradients M (calculate_gradients M img fwd) None)))
               = n_dims M img * n_dims M img * n_channels M img * (h * w)"
  have "\<exists>sdi. GradientCorrelation_steepest_descent_images M st img dW fwd
            = Inr (st\<lparr>self_grad := Some (calculate_gradients M img fwd),
                      cos_phi := Some \<lparr>shape = [n_channels M img, h * w],
                          data = map cos (igo_angles (as_vector M (calculate_gradients M img fwd))
                                            (n_channels M img * (h * w)))\<rparr>,
                      sin_phi := Some \<lparr>shape = [n_channels M img, h * w],
                          data = map sin (igo_angles (as_vector M (calculate_gradients M img fwd))
                                            (n_channels M img * (h * w)))\<rparr>,
                      self_N := Some (h * w)\<rparr>, sdi)
          \<and> nrows sdi = n_channels M img * (h * w) \<and> ncols sdi = P"
    by (rule GradientCorrelation_sdi_eq[where g' = g'])
       (use a assms(1-5) in simp_all)
  then show "\<exists>st' sdi. GradientCorrelation_steepest_descent_images M st img dW fwd = Inr (st', sdi)
              \<and> nrows sdi = n_channels M img * (h * w) \<and> ncols sdi = P"
    by blast
next
  assume a: "regularise_gradients M (calculate_gradients M img fwd) = Inr tg
        \<and> length (data (pixels M (calculate_gradients M tg None)))
               = n_dims M img * n_dims M img * n_channels M img * (h * w)"
  show "\<exists>sdi. GradientImages_steepest_descent_images M st img dW fwd
                     = Inr (st\<lparr>template_grad := Some tg\<rparr>, sdi)
              \<and> nrows sdi = n_dims M img * n_channels M img * (h * w) \<and> ncols sdi = P"
    by (rule GradientImages_sdi_eq) (use a assms(1-5) in simp_all)
next
  assume a: "length (data (as_vector_keep_channels M (calculate_gradients M img fwd)))
               = h * w * (n_channels M img * n_dims M img)
        \<and> (\<forall>v. length v = h * w * (n_channels M img * P) \<longrightarrow>
              (\<exists>b. blank_from_vector M (img_shape M (calculate_gradients M img fwd))
                      (n_channels M img * P) (img_mask M (calculate_gradients M img fwd)) v = Inr b
                 \<and> shape (pixels M b) = ps \<and> length (data (pixels M b)) = prod_list ps))
        \<and> n_dims M img \<le> length ps \<and> 0 \<notin> set (take (n_dims M img) ps) \<and> prod_list ps = S * P"
  have nd: "0 < n_dims M img" using assms(1) by simp
  have "\<exists>sdi. GaborFourier_steepest_descent_images M img dWf fwd = Inr sdi
          \<and> nrows sdi = S \<and> ncols sdi = P \<and> length (elems sdi) = S * P
          \<and> (False \<and> (\<forall>x \<in> set (data dWf). x = 0) \<longrightarrow> elems sdi = replicate (S * P) 0)"
  proof (rule GaborFourier_sdi_eq[where X = "h * w" and ps = ps])
    fix v :: "real list"
    assume "length v = h * w * (n_channels M img * P)"
    then show "\<exists>b. blank_from_vector M (img_shape M (calculate_gradients M img fwd))
               (n_channels M img * P) (img_mask M (calculate_gradients M img fwd)) v = Inr b
             \<and> shape (pixels M b) = ps \<and> length (data (pixels M b)) = prod_list ps
             \<and> (False \<and> v = replicate (h * w * (n_channels M img * P)) 0
                  \<longrightarrow> data (pixels M b) = replicate (prod_list ps) 0)"
      using a by blast
  qed (use a assms nd in simp_all)
  then show "\<exists>sdi. GaborFourier_steepest_descent_images M img dWf fwd = Inr sdi
              \<and> nrows sdi = S \<and> ncols sdi = P"
    by blast
qed

lemma n4: "normalise_images raster_lib ramp4
   = Inr \<lparr>r_shape = [2, 2], r_channels = 1, r_pixels = [-1/2, 1/2, -1/2, 1/2]\<rparr>"
  by (simp add: normalise_images_def raster_lib_def r_normalize_norm_def ramp4_def scipy_norm_def Let_def power2_eq_square)

theorem steepest_descent_images_rows_witness:
  "map_sum id nrows (SSD_steepest_descent_images raster_lib ramp4 dW4 (Some (ramp4, ()))) = Inr 4
   \<and> map_sum id ncols (SSD_steepest_descent_images raster_lib ramp4 dW4 (Some (ramp4, ()))) = Inr 1
   \<and> map_sum id nrows (ECC_steepest_descent_images raster_lib ramp4 dW4 (Some (ramp4, ()))) = Inr 4
   \<and> map_sum id ncols (ECC_steepest_descent_images raster_lib ramp4 dW4 (Some (ramp4, ()))) = Inr 1
   \<and> map_sum id (nrows \<circ> snd)
        (GradientCorrelation_steepest_descent_images raster_lib new_residual ramp4 dW4 (Some (ramp4, ())))
       = Inr 4
   \<and> map_sum id (ncols \<circ> snd)
        (GradientCorrelation_steepest_descent_images raster_lib new_residual ramp4 dW4 (Some (ramp4, ())))
       = Inr 1
   \<and> map_sum id (nrows \<circ> snd)
        (GradientImages_steepest_descent_images raster_lib new_residual ramp4 dW4 (Some (ramp4, ())))
       = Inr 8
   \<and> map_sum id (ncols \<circ> snd)
        (GradientImages_steepest_descent_images raster_lib new_residual ramp4 dW4 (Some (ramp4, ())))
       = Inr 1
   \<and> map_sum id nrows
        (GaborFourier_steepest_descent_images raster_lib ramp4
           \<lparr>shape = [4, 1, 2], data = replicate 8 0\<rparr> (Some (ramp4, ()))) = Inr 4
   \<and> map_sum id ncols
        (GaborFourier_steepest_descent_images raster_lib ramp4
           \<lparr>shape = [4, 1, 2], data = replicate 8 0\<rparr> (Some (ramp4, ()))) = Inr 1"
proof -
  let ?g = "\<lparr>r_shape = [2, 2], r_channels = 2, r_pixels = [0, 0, 0, 0, 1, 1, 1, 1]\<rparr>"
  let ?fwd = "Some (ramp4, ())"
  have l: "length (r_pixels (calculate_gradients raster_lib
             \<lparr>r_shape = [2, 2], r_channels = 1, r_pixels = [-1/2, 1/2, -1/2, 1/2]\<rparr> ?fwd)) = 8"
    "length (r_pixels (calculate_gradients raster_lib ?g None)) = 16"
    by (simp_all add: length_calculate_gradients_raster)
  have k: "length (data (as_vector_keep_channels raster_lib ?g)) = 8"
    by (simp add: raster_lib_def)
  have b: "\<forall>v::real list. length v = 4 \<longrightarrow>
              (\<exists>b. blank_from_vector raster_lib [2, 2] 1 () v = Inr b
                 \<and> shape (pixels raster_lib b) = [1, 2, 2] \<and> length (data (pixels raster_lib b)) = 4)"
    by (simp add: raster_lib_def)
  have "(\<exists>sdi. SSD_steepest_descent_images raster_lib ramp4 dW4 ?fwd = Inr sdi
              \<and> nrows sdi = 4 \<and> ncols sdi = 1)
     \<and> (\<exists>sdi. ECC_steepest_descent_images raster_lib ramp4 dW4 ?fwd = Inr sdi
              \<and> nrows sdi = 4 \<and> ncols sdi = 1)
     \<and> (\<exists>st' sdi. GradientCorrelation_steepest_descent_images raster_lib new_residual ramp4 dW4 ?fwd
                = Inr (st', sdi) \<and> nrows sdi = 4 \<and> ncols sdi = 1)
     \<and> (\<exists>sdi. GradientImages_steepest_descent_images raster_lib new_residual ramp4 dW4 ?fwd
                = Inr (new_residual\<lparr>template_grad := Some tg4\<rparr>, sdi) \<and> nrows sdi = 8 \<and> ncols sdi = 1)
     \<and> (\<exists>sdi. GaborFourier_steepest_descent_images raster_lib ramp4
                 \<lparr>shape = [4, 1, 2], data = replicate 8 0\<rparr> ?fwd = Inr sdi
              \<and> nrows sdi = 4 \<and> ncols sdi = 1)"
    using steepest_descent_images_rows
            [where M = raster_lib and img = ramp4 and fwd = ?fwd and h = 2 and w = 2 and P = 1
               and dW = dW4 and dWf = "\<lparr>shape = [4, 1, 2], data = replicate 8 0\<rparr>"
               and nimg = "\<lparr>r_shape = [2, 2], r_channels = 1, r_pixels = [-1/2, 1/2, -1/2, 1/2]\<rparr>"
               and g' = "?g\<lparr>r_pixels := map sin (igo_angles [0, 0, 0, 0, 1, 1, 1, 1] 4)
                                        @ map cos (igo_angles [0, 0, 0, 0, 1, 1, 1, 1] 4)\<rparr>"
               and tg = tg4 and st = new_residual and ps = "[1, 2, 2]" and S = 4]
          n4 reg4 l k b
    unfolding gr4 gg4
    by (simp add: lib_sel ramp4_def dW4_def)
  then show ?thesis by auto
qed


subsection \<open>C5: the \<open>error\<close> property\<close>

lemma SSD_update4:
  "SSD_steepest_descent_update raster_lib st sdi4 im4b im4
     = Inr (st\<lparr>error_img := Some (RealVec [-1, 0, 3, 5])\<rparr>, [2])"
  by (simp add: SSD_steepest_descent_update_def np_defs raster_lib_def im4_def im4b_def sdi4_def ev)

lemma ECC_update9_same:
  "ECC_steepest_descent_update raster_lib st9 sdi9 im9 im9
     = Inr (st9\<lparr>error_img := Some (RealVec [0, 0, 0, 0, 0, 0, 0, 0, 0])\<rparr>, [0])"
  unfolding ECC_steepest_descent_update_def n9 bind_err_simps Let_def
  by (simp add: np_defs raster_lib_def sdi9_def st9_def ECC_step_size_def ev power2_eq_square)

lemma g_line4: "calculate_gradients raster_lib line4 None
   = \<lparr>r_shape = [4], r_channels = 1, r_pixels = [0, 1, 1, 0]\<rparr>"
  by (simp add: r_defs line4_def ev)

lemma reg_line4: "regularise_gradients raster_lib \<lparr>r_shape = [4], r_channels = 1, r_pixels = [0, 1, 1, 0]\<rparr>
   = Inr \<lparr>r_shape = [4], r_channels = 1, r_pixels = [0, 2 / 3, 2 / 3, 0]\<rparr>"
  by (simp add: regularise_gradients_def np_defs raster_lib_def ev)

lemma GI_update_line4:
  "GradientImages_steepest_descent_update raster_lib st_line4 sdi4 line4 line4
     = Inr (st_line4\<lparr>error_img := Some (RealVec [0, 2 / 3, 2 / 3, 0])\<rparr>, [2 / 3])"
  unfolding GradientImages_steepest_descent_update_def Let_def g_line4 reg_line4 bind_err_simps
  by (simp add: np_defs raster_lib_def sdi4_def st_line4_def ev)

lemma GC_update_2c:
  "GradientCorrelation_steepest_descent_update raster_lib st2c zeros8 const2c const2c
     = Inr (st2c\<lparr>error_img := Some (RealVec (replicate 8 0))\<rparr>, [0])"
proof -
  have e: "igo_error_vec (replicate 8 1) (replicate 8 0) (replicate 8 0) = replicate 8 0"
    and c: "igo_correlation (replicate 8 1) (replicate 8 0) (replicate 8 0) = 8"
    using igo_equal_angles[of "replicate 8 1" "replicate 8 0" "replicate 8 0"] by simp_all
  have z: "T_dot_vec zeros8 (replicate 8 0) = [0::real]"
    using T_dot_vec_zero[of "replicate 8 0" zeros8] by (simp add: zeros8_def)
  show ?thesis
    using GradientCorrelation_update_eq[where st = st2c and C = 2 and X = 4 and ct = "replicate 8 1"
        and sn = "replicate 8 0" and N = 4 and sdi = zeros8 and M = raster_lib and IWxp = const2c
        and phi = "replicate 8 0" and template = const2c] wphi_2c
    by (simp add: st2c_def e c z) (simp add: zeros8_def)
qed

lemma GF_update_pix1:
  "GaborFourier_steepest_descent_update raster_lib gabor1 \<lparr>nrows = 1, ncols = 1, elems = [2]\<rparr>
         (pix1 5) (pix1 2)
       = Inr (gabor1\<lparr>error_img := Some (ComplexVec [12])\<rparr>, [24])"
proof -
  have u: "T_dot_vec \<lparr>nrows = 1, ncols = 1, elems = [2]\<rparr> [12::complex] = [24]"
    by (simp add: T_dot_vec_def mat_at_def)
  show ?thesis
    using GaborFourier_update_eq[where M = raster_lib and IWxp = "pix1 5" and template = "pix1 2"
        and ps = "[1, 1, 1]" and a = "[5]" and b = "[2]" and Fh = "\<lparr>shape = [1, 1, 1], data = [3]\<rparr>"
        and F = 1 and st = gabor1 and fb = "[4]" and sdi = "\<lparr>nrows = 1, ncols = 1, elems = [2]\<rparr>"]
      fft_pix1[of 3] u
    by (auto simp add: gabor1_def pix1_def lib_sel)
qed

text \<open>
  C5. Whenever \<open>steepest_descent_update\<close> of one of the five classes returns, the instance
  holds an error vector \<open>E\<close> (complex for GaborFourier, real for the others), and the
  \<open>error\<close> property then is \<open>sqrt(mean(E\<^sup>2))\<close>, the root of the mean of the squares
  of its entries (not a number when \<open>E\<close> is empty, the mean of no entries). While no error
  vector is cached, as on a fresh instance, reading the property fails with
  \<open>AttributeError\<close>.
\<close>

theorem error_property:
  fixes M :: "('i, 'm, 't) menpo"
  shows
  "(SSD_steepest_descent_update M st sdi IWxp template = Inr (st', u)
      \<longrightarrow> (\<exists>E. error_img st' = Some (RealVec E)
             \<and> Residual_error st' = (if E = [] then Inl NonFinite else Inr (RealVal (rms_real E)))))
   \<and> (ECC_steepest_descent_update M st sdi IWxp template = Inr (st', u)
      \<longrightarrow> (\<exists>E. error_img st' = Some (RealVec E)
             \<and> Residual_error st' = (if E = [] then Inl NonFinite else Inr (RealVal (rms_real E)))))
   \<and> (GradientImages_steepest_descent_update M st sdi IWxp template = Inr (st', u)
      \<longrightarrow> (\<exists>E. error_img st' = Some (RealVec E)
             \<and> Residual_error st' = (if E = [] then Inl NonFinite else Inr (RealVal (rms_real E)))))
   \<and> (GradientCorrelation_steepest_descent_update M st sdi IWxp template = Inr (st', u)
      \<longrightarrow> (\<exists>E. error_img st' = Some (RealVec E)
             \<and> Residual_error st' = (if E = [] then Inl NonFinite else Inr (RealVal (rms_real E)))))
   \<and> (GaborFourier_steepest_descent_update M st sdic IWxp template = Inr (st', uc)
      \<longrightarrow> (\<exists>E. error_img st' = Some (ComplexVec E)
             \<and> Residual_error st' = (if E = [] then Inl NonFinite else Inr (ComplexVal (rms_complex E)))))
   \<and> (error_img st = None \<longrightarrow> Residual_error st = Inl AttributeError)
   \<and> error_img (new_residual :: 'i residual) = None"
proof -
  have r: "\<exists>E. error_img s = Some (RealVec E)
             \<and> Residual_error s = (if E = [] then Inl NonFinite else Inr (RealVal (rms_real E)))"
    if "\<exists>E. error_img s = Some (RealVec E)" for s :: "'i residual"
    using that Residual_error_real[of s] by auto
  have c: "\<exists>E. error_img s = Some (ComplexVec E)
             \<and> Residual_error s = (if E = [] then Inl NonFinite else Inr (ComplexVal (rms_complex E)))"
    if "\<exists>E. error_img s = Some (ComplexVec E)" for s :: "'i residual"
    using that Residual_error_complex[of s] by auto
  show ?thesis
    apply (intro conjI impI)
    subgoal by (rule r[OF SSD_update_caches])
    subgoal by (rule r[OF ECC_update_caches])
    subgoal by (rule r[OF GradientImages_update_caches])
    subgoal by (rule r[OF GradientCorrelation_update_caches])
    subgoal by (rule c[OF GaborFourier_update_caches])
    subgoal by (rule Residual_error_unset)
    subgoal by (simp add: new_residual_def)
    done
qed

theorem error_property_witness:
  "SSD_steepest_descent_update raster_lib new_residual sdi4 im4b im4
      = Inr (new_residual\<lparr>error_img := Some (RealVec [-1, 0, 3, 5])\<rparr>, [2])
   \<and> Residual_error ((new_residual :: raster residual)\<lparr>error_img := Some (RealVec [-1, 0, 3, 5])\<rparr>)
      = Inr (RealVal (rms_real [-1, 0, 3, 5]))
   \<and> ECC_steepest_descent_update raster_lib st9 sdi9 im9 im9
      = Inr (st9\<lparr>error_img := Some (RealVec [0, 0, 0, 0, 0, 0, 0, 0, 0])\<rparr>, [0])
   \<and> Residual_error (st9\<lparr>error_img := Some (RealVec [0, 0, 0, 0, 0, 0, 0, 0, 0])\<rparr>)
      = Inr (RealVal (rms_real [0, 0, 0, 0, 0, 0, 0, 0, 0]))
   \<and> GradientImages_steepest_descent_update raster_lib st_line4 sdi4 line4 line4
      = Inr (st_line4\<lparr>error_img := Some (RealVec [0, 2 / 3, 2 / 3, 0])\<rparr>, [2 / 3])
   \<and> Residual_error (st_line4\<lparr>error_img := Some (RealVec [0, 2 / 3, 2 / 3, 0])\<rparr>)
      = Inr (RealVal (rms_real [0, 2 / 3, 2 / 3, 0]))
   \<and> GradientCorrelation_steepest_descent_update raster_lib st2c zeros8 const2c const2c
      = Inr (st2c\<lparr>error_img := Some (RealVec (replicate 8 0))\<rparr>, [0])
   \<and> Residual_error (st2c\<lparr>error_img := Some (RealVec (replicate 8 0))\<rparr>)
      = Inr (RealVal (rms_real (replicate 8 0)))
   \<and> GaborFourier_steepest_descent_update raster_lib gabor1 \<lparr>nrows = 1, ncols = 1, elems = [2]\<rparr>
         (pix1 5) (pix1 2)
      = Inr (gabor1\<lparr>error_img := Some (ComplexVec [12])\<rparr>, [24])
   \<and> Residual_error (gabor1\<lparr>error_img := Some (ComplexVec [12])\<rparr>)
      = Inr (ComplexVal (rms_complex [12]))
   \<and> error_img gabor1 = None
   \<and> Residual_error gabor1 = Inl AttributeError"
  using error_property[where M = raster_lib and st = new_residual and sdi = sdi4 and IWxp = im4b
          and template = im4 and st' = "new_residual\<lparr>error_img := Some (RealVec [-1, 0, 3, 5])\<rparr>"
          and u = "[2]"]
        error_property[where M = raster_lib and st = st9 and sdi = sdi9 and IWxp = im9
          and template = im9
          and st' = "st9\<lparr>error_img := Some (RealVec [0, 0, 0, 0, 0, 0, 0, 0, 0])\<rparr>" and u = "[0]"]
        error_property[where M = raster_lib and st = st_line4 and sdi = sdi4 and IWxp = line4
          and template = line4
          and st' = "st_line4\<lparr>error_img := Some (RealVec [0, 2 / 3, 2 / 3, 0])\<rparr>" and u = "[2 / 3]"]
        error_property[where M = raster_lib and st = st2c and sdi = zeros8 and IWxp = const2c
          and template = const2c
          and st' = "st2c\<lparr>error_img := Some (RealVec (replicate 8 0))\<rparr>" and u = "[0]"]
        error_property[where M = raster_lib and st = gabor1
          and sdic = "\<lparr>nrows = 1, ncols = 1, elems = [2]\<rparr>" and IWxp = "pix1 5"
          and template = "pix1 2"
          and st' = "gabor1\<lparr>error_img := Some (ComplexVec [12])\<rparr>" and uc = "[24]"]
        SSD_update4[of new_residual] ECC_update9_same GI_update_line4 GC_update_2c GF_update_pix1
  by (auto simp add: gabor1_def new_residual_def)


subsection \<open>C1: the constant image with a zero Jacobian\<close>

lemma g8: "calculate_gradients raster_lib (const8 c) None
   = \<lparr>r_shape = [8, 8], r_channels = 2, r_pixels = replicate 128 0\<rparr>"
  using calculate_gradients_const[of "const8 c" 64 c] by (simp add: const8_def)

lemma matrix_eqI:
  "nrows A = n \<Longrightarrow> ncols A = m \<Longrightarrow> elems A = xs \<Longrightarrow> A = \<lparr>nrows = n, ncols = m, elems = xs\<rparr>"
  by (cases A) simp

lemma SSD_sdi8: "SSD_steepest_descent_images raster_lib (const8 c) dW0 None = Inr zero_sdi"
proof -
  obtain sdi where s: "SSD_steepest_descent_images raster_lib (const8 c) dW0 None = Inr sdi"
    and f: "nrows sdi = 64" "ncols sdi = 4" "elems sdi = replicate 256 0"
    using SSD_sdi_eq[of raster_lib "const8 c" None 64 dW0 4]
    unfolding g8 by (auto simp add: lib_sel const8_def dW0_def)
  have "sdi = zero_sdi" unfolding zero_sdi_def using f by (rule matrix_eqI)
  then show ?thesis using s by simp
qed

lemma SSD_update8:
  "SSD_steepest_descent_update raster_lib st zero_sdi (const8 c) (const8 c)
     = Inr (st\<lparr>error_img := Some (RealVec (replicate 64 0))\<rparr>, [0, 0, 0, 0])"
  using SSD_update_same_image[of zero_sdi raster_lib "const8 c" st]
  by (simp add: zero_sdi_def lib_sel const8_def ev)

lemma error_zero_real:
  "0 < n \<Longrightarrow> Residual_error (st\<lparr>error_img := Some (RealVec (replicate n 0))\<rparr>) = Inr (RealVal 0)"
  using Residual_error_real[of "st\<lparr>error_img := Some (RealVec (replicate n 0))\<rparr>" "replicate n 0"]
  by (simp add: rms_real_zero)

lemma error_zero_complex:
  "0 < n \<Longrightarrow> Residual_error (st\<lparr>error_img := Some (ComplexVec (replicate n 0))\<rparr>) = Inr (ComplexVal 0)"
  using Residual_error_complex[of "st\<lparr>error_img := Some (ComplexVec (replicate n 0))\<rparr>" "replicate n 0"]
  by (simp add: rms_complex_zero)

lemma normalise8: "normalise_images raster_lib (const8 c) = Inl ValueError"
  by (simp add: normalise_images_def raster_lib_def r_normalize_norm_def const8_def scipy_norm_def
      Let_def sum_list_replicate sum_list_replicate_zero)

lemma ECC_sdi8: "ECC_steepest_descent_images raster_lib (const8 c) dW0 None = Inl ValueError"
  by (simp add: ECC_steepest_descent_images_def normalise8)

lemma ECC_hessian8: "ECC_calculate_hessian st (zero_sdi :: real matrix) = Inl LinAlgError"
  by (rule ECC_hessian_zero_sdi) (simp_all add: zero_sdi_def)

lemma GI_sdi8:
  "GradientImages_steepest_descent_images raster_lib st (const8 c) dW0 None = Inl NonFinite"
proof -
  have "regularise_gradients raster_lib \<lparr>r_shape = [8, 8], r_channels = 2, r_pixels = replicate 128 0\<rparr>
          = Inl NonFinite"
    by (rule regularise_zero_gradient[where K = 2 and sh = "[8, 8]"]) (simp_all add: lib_sel)
  then show ?thesis
    unfolding GradientImages_steepest_descent_images_def Let_def g8 by simp
qed

lemma wphi8: "warped_phi raster_lib (const8 c) = Inr \<lparr>shape = [1, 64], data = replicate 64 0\<rparr>"
  using warped_phi_eq[of raster_lib "const8 c" 64] igo_angles_zero[of 64]
  unfolding g8 by (simp add: lib_sel const8_def)

lemma GC_sdi8:
  "\<exists>sdi. GradientCorrelation_steepest_descent_images raster_lib st (const8 c) dW0 None
           = Inr (st\<lparr>self_grad := Some \<lparr>r_shape = [8, 8], r_channels = 2, r_pixels = replicate 128 0\<rparr>,
                     cos_phi := Some \<lparr>shape = [1, 64], data = replicate 64 1\<rparr>,
                     sin_phi := Some \<lparr>shape = [1, 64], data = replicate 64 0\<rparr>,
                     self_N := Some 64\<rparr>, sdi)
         \<and> nrows sdi = 64 \<and> ncols sdi = 4"
proof -
  have a: "igo_angles (replicate 128 0) 64 = replicate 64 0"
    using igo_angles_zero[of 64] by simp
  have l: "length (r_pixels (calculate_gradients raster_lib
             \<lparr>r_shape = [8, 8], r_channels = 2, r_pixels = replicate 128 0\<rparr> None)) = 256"
    by (simp add: length_calculate_gradients_raster)
  show ?thesis
    using GradientCorrelation_sdi_eq[where M = raster_lib and img = "const8 c" and fwd = None
        and h = 8 and w = 8 and dW = dW0 and P = 4 and st = st
        and g' = "\<lparr>r_shape = [8, 8], r_channels = 2, r_pixels = replicate 64 0 @ replicate 64 1\<rparr>"]
    unfolding g8
    by (simp add: lib_sel const8_def dW0_def a l)
qed

lemma GC_update8:
  assumes "cos_phi st = Some \<lparr>shape = [1, 64], data = replicate 64 1\<rparr>"
    "sin_phi st = Some \<lparr>shape = [1, 64], data = replicate 64 0\<rparr>" "self_N st = Some 64"
    "nrows sdi = 64" "ncols sdi = 4"
  shows "GradientCorrelation_steepest_descent_update raster_lib st sdi (const8 c) (const8 c)
     = Inr (st\<lparr>error_img := Some (RealVec (replicate 64 0))\<rparr>, [0, 0, 0, 0])"
proof -
  have e: "igo_error_vec (replicate 64 1) (replicate 64 0) (replicate 64 0) = replicate 64 0"
    and k: "igo_correlation (replicate 64 1) (replicate 64 0) (replicate 64 0) = 64"
    using igo_equal_angles[of "replicate 64 1" "replicate 64 0" "replicate 64 0"] by simp_all
  have z: "T_dot_vec sdi (replicate 64 0) = [0, 0, 0, 0::real]"
    using T_dot_vec_zero[of "replicate 64 0" sdi] assms(4,5) by (simp add: ev)
  show ?thesis
    using GradientCorrelation_update_eq[where st = st and C = 1 and X = 64 and ct = "replicate 64 1"
        and sn = "replicate 64 0" and N = 64 and sdi = sdi and M = raster_lib and IWxp = "const8 c"
        and phi = "replicate 64 0" and template = "const8 c"] wphi8[of c] assms
    by (simp add: e k z)
qed

lemma GF_sdi8:
  "GaborFourier_steepest_descent_images raster_lib (const8 c) dW0f None = Inr zero_sdi"
proof -
  have k: "length (data (as_vector_keep_channels raster_lib
              \<lparr>r_shape = [8, 8], r_channels = 2, r_pixels = replicate 128 0\<rparr>)) = 128"
    by (simp add: raster_lib_def)
  have "\<exists>sdi. GaborFourier_steepest_descent_images raster_lib (const8 c) dW0f None = Inr sdi
          \<and> nrows sdi = 64 \<and> ncols sdi = 4 \<and> length (elems sdi) = 64 * 4
          \<and> (True \<and> (\<forall>x \<in> set (data dW0f). x = 0) \<longrightarrow> elems sdi = replicate (64 * 4) 0)"
  proof (rule GaborFourier_sdi_eq[where X = 64 and ps = "[4, 8, 8]"])
    fix v :: "real list"
    assume "length v = 64 * (n_channels raster_lib (const8 c) * 4)"
    then show "\<exists>b. blank_from_vector raster_lib
               (img_shape raster_lib (calculate_gradients raster_lib (const8 c) None))
               (n_channels raster_lib (const8 c) * 4)
               (img_mask raster_lib (calculate_gradients raster_lib (const8 c) None)) v = Inr b
             \<and> shape (pixels raster_lib b) = [4, 8, 8]
             \<and> length (data (pixels raster_lib b)) = prod_list [4, 8, 8]
             \<and> (True \<and> v = replicate (64 * (n_channels raster_lib (const8 c) * 4)) 0
                  \<longrightarrow> data (pixels raster_lib b) = replicate (prod_list [4, 8, 8]) 0)"
      unfolding g8 by (simp add: raster_lib_def const8_def)
  qed (unfold g8, simp_all add: lib_sel const8_def dW0f_def k)
  then obtain sdi where s: "GaborFourier_steepest_descent_images raster_lib (const8 c) dW0f None = Inr sdi"
    and f: "nrows sdi = 64" "ncols sdi = 4" "elems sdi = replicate 256 0"
    by (auto simp add: dW0f_def)
  have "sdi = zero_sdi" unfolding zero_sdi_def using f by (rule matrix_eqI)
  then show ?thesis using s by simp
qed

lemma GF_update8:
  assumes "filter_bank st = Some fb" "length fb = 64"
  shows "GaborFourier_steepest_descent_update raster_lib st zero_sdi (const8 c) (const8 c)
     = Inr (st\<lparr>error_img := Some (ComplexVec (replicate 64 0))\<rparr>, [0, 0, 0, 0])"
proof -
  let ?A = "\<lparr>shape = [1, 8, 8], data = map2 (-) (replicate 64 c) (replicate 64 c)\<rparr>"
  have d: "data ?A = replicate (prod_list (shape ?A)) 0"
    using map2_minus_self[of "replicate 64 c"] by simp
  obtain Fh where fh: "np_fftn_shift ?A (Suc (Suc 0)) = Inr Fh" and dz: "data Fh = replicate 64 0"
    using np_fftn_shift_ok[of "Suc (Suc 0)" ?A] d by auto
  have e: "map (\<lambda>n. complex_of_real (fb ! (n div n_channels raster_lib (const8 c))) * data Fh ! n)
             [0..<64 * n_channels raster_lib (const8 c)] = replicate 64 0"
    unfolding dz by (intro nth_equalityI) (simp_all add: lib_sel const8_def)
  have z: "T_dot_vec zero_sdi (map cnj (replicate 64 0)) = [0, 0, 0, 0::complex]"
    using T_dot_vec_zero[of "replicate 64 0" "zero_sdi :: complex matrix"]
    by (simp add: zero_sdi_def ev)
  have "GaborFourier_steepest_descent_update raster_lib st zero_sdi (const8 c) (const8 c)
           = Inr (st\<lparr>error_img := Some (ComplexVec
                      (map (\<lambda>n. complex_of_real (fb ! (n div n_channels raster_lib (const8 c))) * data Fh ! n)
                         [0..<64 * n_channels raster_lib (const8 c)]))\<rparr>,
                  T_dot_vec zero_sdi (map cnj
                      (map (\<lambda>n. complex_of_real (fb ! (n div n_channels raster_lib (const8 c))) * data Fh ! n)
                         [0..<64 * n_channels raster_lib (const8 c)])))"
    by (rule GaborFourier_update_eq[where ps = "[1, 8, 8]" and a = "replicate 64 c" and b = "replicate 64 c"
          and fb = fb])
       (use fh dz assms in \<open>simp_all add: lib_sel const8_def zero_sdi_def\<close>)
  then show ?thesis
    unfolding e z .
qed

lemma GF_hessian8:
  assumes "filter_bank st = Some fb" "length fb = 64" "\<forall>x \<in> set fb. 0 \<le> x"
  shows "GaborFourier_calculate_hessian st zero_sdi
           = Inr (hermitian_gram (scale_rows (\<lambda>k. sqrt (fb ! (k mod 64))) zero_sdi))"
proof -
  have "fb \<noteq> []" using assms(2) by auto
  then show ?thesis
    using GaborFourier_hessian_eq[of st fb zero_sdi 1] assms
    by (simp add: zero_sdi_def)
qed

text \<open>
  C1 as stated fails for ECC and for GradientImages. On the constant 8 by 8 image the
  normalisation of ECC has nothing to divide by and \<open>steepest_descent_images\<close> raises;
  whatever matrix of steepest-descent images the zero Jacobian gives is zero, as for SSD,
  and the Gram matrix of the zero matrix has no inverse, so \<open>ECC.calculate_hessian\<close>
  raises too. The gradient of the constant image is zero, and GradientImages divides it by
  its magnitude plus the median magnitude, \<open>0 / 0\<close>: nothing it returns is a zero vector.
\<close>

theorem constant_image_scenario_counterexample:
  "ECC_steepest_descent_images raster_lib (const8 3) dW0 None = Inl ValueError
   \<and> SSD_steepest_descent_images raster_lib (const8 3) dW0 None = Inr zero_sdi
   \<and> ECC_calculate_hessian (new_residual :: raster residual) zero_sdi = Inl LinAlgError
   \<and> GradientImages_steepest_descent_images raster_lib new_residual (const8 3) dW0 None
       = Inl NonFinite"
  using ECC_sdi8[of 3] SSD_sdi8[of 3] ECC_hessian8[of new_residual] GI_sdi8[of new_residual 3]
  by simp

text \<open>
  C1, amended. For the 8 by 8 image of one channel and constant intensity \<open>c\<close>, the
  all-zero Jacobian of 4 parameters and the template equal to the image: SSD,
  GradientCorrelation and GaborFourier (with a filter bank of 64 weights, none negative)
  pass \<open>steepest_descent_images\<close> and \<open>calculate_hessian\<close>, their
  \<open>steepest_descent_update\<close> returns the zero vector of length 4, and the \<open>error\<close>
  property then reads 0. ECC raises in \<open>steepest_descent_images\<close> (and in
  \<open>calculate_hessian\<close> on the zero matrix), and \<open>steepest_descent_images\<close> of
  GradientImages yields no finite result.
\<close>

theorem constant_image_scenario:
  assumes "filter_bank stg = Some fb" "length fb = 64" "\<forall>x \<in> set fb. 0 \<le> x"
  shows
    "SSD_steepest_descent_images raster_lib (const8 c) dW0 None = Inr zero_sdi
   \<and> SSD_calculate_hessian zero_sdi None = Inr (cross_product zero_sdi zero_sdi)
   \<and> SSD_steepest_descent_update raster_lib st zero_sdi (const8 c) (const8 c)
       = Inr (st\<lparr>error_img := Some (RealVec (replicate 64 0))\<rparr>, [0, 0, 0, 0])
   \<and> Residual_error (st\<lparr>error_img := Some (RealVec (replicate 64 0))\<rparr>) = Inr (RealVal 0)
   \<and> (\<exists>st' sdi. GradientCorrelation_steepest_descent_images raster_lib st (const8 c) dW0 None
                   = Inr (st', sdi)
          \<and> nrows sdi = 64 \<and> ncols sdi = 4
          \<and> GradientCorrelation_calculate_hessian sdi = Inr (cross_product sdi sdi)
          \<and> GradientCorrelation_steepest_descent_update raster_lib st' sdi (const8 c) (const8 c)
               = Inr (st'\<lparr>error_img := Some (RealVec (replicate 64 0))\<rparr>, [0, 0, 0, 0])
          \<and> Residual_error (st'\<lparr>error_img := Some (RealVec (replicate 64 0))\<rparr>) = Inr (RealVal 0))
   \<and> GaborFourier_steepest_descent_images raster_lib (const8 c) dW0f None = Inr zero_sdi
   \<and> GaborFourier_calculate_hessian stg zero_sdi
       = Inr (hermitian_gram (scale_rows (\<lambda>k. sqrt (fb ! (k mod 64))) zero_sdi))
   \<and> GaborFourier_steepest_descent_update raster_lib stg zero_sdi (const8 c) (const8 c)
       = Inr (stg\<lparr>error_img := Some (ComplexVec (replicate 64 0))\<rparr>, [0, 0, 0, 0])
   \<and> Residual_error (stg\<lparr>error_img := Some (ComplexVec (replicate 64 0))\<rparr>) = Inr (ComplexVal 0)
   \<and> ECC_steepest_descent_images raster_lib (const8 c) dW0 None = Inl ValueError
   \<and> ECC_calculate_hessian st zero_sdi = Inl LinAlgError
   \<and> GradientImages_steepest_descent_images raster_lib st (const8 c) dW0 None = Inl NonFinite"
proof -
  obtain st' sdi where
    g: "GradientCorrelation_steepest_descent_images raster_lib st (const8 c) dW0 None = Inr (st', sdi)"
    and s: "nrows sdi = 64" "ncols sdi = 4"
    and a: "cos_phi st' = Some \<lparr>shape = [1, 64], data = replicate 64 1\<rparr>"
      "sin_phi st' = Some \<lparr>shape = [1, 64], data = replicate 64 0\<rparr>" "self_N st' = Some 64"
    using GC_sdi8[of st c] by auto
  have gc: "\<exists>st' sdi. GradientCorrelation_steepest_descent_images raster_lib st (const8 c) dW0 None
                   = Inr (st', sdi)
          \<and> nrows sdi = 64 \<and> ncols sdi = 4
          \<and> GradientCorrelation_calculate_hessian sdi = Inr (cross_product sdi sdi)
          \<and> GradientCorrelation_steepest_descent_update raster_lib st' sdi (const8 c) (const8 c)
               = Inr (st'\<lparr>error_img := Some (RealVec (replicate 64 0))\<rparr>, [0, 0, 0, 0])
          \<and> Residual_error (st'\<lparr>error_img := Some (RealVec (replicate 64 0))\<rparr>) = Inr (RealVal 0)"
    using g s GC_update8[OF a s, of c] error_zero_real[of 64 st']
    by (intro exI[of _ st'] exI[of _ sdi])
       (simp add: GradientCorrelation_calculate_hessian_def np_dot_T)
  have h: "SSD_calculate_hessian (zero_sdi :: real matrix) None = Inr (cross_product zero_sdi zero_sdi)"
    by (simp add: SSD_calculate_hessian_def np_dot_T)
  show ?thesis
    using SSD_sdi8[of c] h SSD_update8[of st c] error_zero_real[of 64 st] gc GF_sdi8[of c]
      GF_hessian8[OF assms] GF_update8[OF assms(1,2), of c] error_zero_complex[of 64 stg]
      ECC_sdi8[of c] ECC_hessian8[of st] GI_sdi8[of st c]
    by simp
qed

theorem constant_image_scenario_witness:
  "filter_bank ((new_residual :: raster residual)\<lparr>filter_bank := Some (replicate 64 1)\<rparr>)
      = Some (replicate 64 1)
   \<and> length (replicate 64 (1::real)) = 64
   \<and> SSD_steepest_descent_images raster_lib (const8 3) dW0 None = Inr zero_sdi
   \<and> SSD_steepest_descent_update raster_lib new_residual zero_sdi (const8 3) (const8 3)
       = Inr (new_residual\<lparr>error_img := Some (RealVec (replicate 64 0))\<rparr>, [0, 0, 0, 0])
   \<and> Residual_error ((new_residual :: raster residual)\<lparr>error_img := Some (RealVec (replicate 64 0))\<rparr>)
       = Inr (RealVal 0)
   \<and> GaborFourier_steepest_descent_images raster_lib (const8 3) dW0f None = Inr zero_sdi
   \<and> GaborFourier_steepest_descent_update raster_lib
         (new_residual\<lparr>filter_bank := Some (replicate 64 1)\<rparr>) zero_sdi (const8 3) (const8 3)
       = Inr (new_residual\<lparr>filter_bank := Some (replicate 64 1),
                           error_img := Some (ComplexVec (replicate 64 0))\<rparr>, [0, 0, 0, 0])
   \<and> Residual_error ((new_residual :: raster residual)\<lparr>filter_bank := Some (replicate 64 1),
                           error_img := Some (ComplexVec (replicate 64 0))\<rparr>) = Inr (ComplexVal 0)
   \<and> ECC_steepest_descent_images raster_lib (const8 3) dW0 None = Inl ValueError
   \<and> GradientImages_steepest_descent_images raster_lib new_residual (const8 3) dW0 None
       = Inl NonFinite"
  using constant_image_scenario[where stg = "new_residual\<lparr>filter_bank := Some (replicate 64 1)\<rparr>"
          and fb = "replicate 64 1" and c = 3 and st = new_residual]
  by simp


end
